theory Spec2Isabelle
  imports Complex_Main "HOL-Library.Multiset" "HOL-Library.Sublist"
begin

chapter \<open>The model\<close>

section \<open>Decay model\<close>

text \<open>
  Timestamps are integral milliseconds since the epoch, the precision of the JavaScript
  \<open>Date\<close> values the jobs pass to the database. Scores are modelled over the reals: the
  \<open>float8\<close> arithmetic of \<open>Math.pow\<close> and of the \<open>decay_factor\<close> column and the rounding
  of the \<open>Decimal(10, 3)\<close> columns are outside the model.
\<close>

type_synonym timestamp = int

record decay_row =
  days :: int
  decay_factor :: real

definition HALF_LIFE :: real where
  "HALF_LIFE = 365.242374"

definition MAX_DAYS :: nat where
  "MAX_DAYS = 10000"

text \<open>\<open>Array.from({ length: MAX_DAYS + 1 }, (_, days) => ...)\<close> of \<open>seedDecayLookup\<close>.\<close>

definition decay_entries :: "decay_row list" where
  "decay_entries =
     map (\<lambda>d. \<lparr>days = int d, decay_factor = 0.5 powr (real d / HALF_LIFE)\<rparr>) [0..<MAX_DAYS + 1]"

text \<open>\<open>createMany({ data, skipDuplicates: true })\<close> on a table with a unique key: a row whose
  key is already present is skipped.\<close>

fun createMany_skipDuplicates :: "('r \<Rightarrow> 'k) \<Rightarrow> 'r list \<Rightarrow> 'r list \<Rightarrow> 'r list" where
  "createMany_skipDuplicates key tbl [] = tbl"
| "createMany_skipDuplicates key tbl (r # rs) =
     (if key r \<in> key ` set tbl then createMany_skipDuplicates key tbl rs
      else createMany_skipDuplicates key (tbl @ [r]) rs)"

text \<open>The primary key of \<open>DecayLookup\<close> is \<open>days\<close>.\<close>

definition seedDecayLookup :: "decay_row list \<Rightarrow> decay_row list" where
  "seedDecayLookup tbl = createMany_skipDuplicates days tbl decay_entries"

text \<open>The rows of \<open>DecayLookup\<close> that an equi-join on \<open>days\<close> matches.\<close>

definition decay_rows_for :: "decay_row list \<Rightarrow> int \<Rightarrow> decay_row list" where
  "decay_rows_for tbl d = filter (\<lambda>r. days r = d) tbl"

text \<open>The decay factor the table defines for a number of days, if any.\<close>

definition decayFactor :: "decay_row list \<Rightarrow> int \<Rightarrow> real option" where
  "decayFactor tbl d = (case decay_rows_for tbl d of [] \<Rightarrow> None | r # _ \<Rightarrow> Some (decay_factor r))"

section \<open>Calendar\<close>

text \<open>The date arithmetic of ECMAScript's \<open>Date\<close> (time values are milliseconds since the
  epoch, in UTC), as far as \<open>dateUtils.ts\<close> uses it. Time values outside the range of
  \<open>Date\<close> (which would be invalid dates) are not modelled.\<close>

definition msPerDay :: int where
  "msPerDay = 86400000"

definition Day :: "int \<Rightarrow> int" where
  "Day t = t div msPerDay"

definition TimeWithinDay :: "int \<Rightarrow> int" where
  "TimeWithinDay t = t mod msPerDay"

definition DaysInYear :: "int \<Rightarrow> int" where
  "DaysInYear y =
     (if y mod 4 \<noteq> 0 then 365 else if y mod 100 \<noteq> 0 then 366
      else if y mod 400 \<noteq> 0 then 365 else 366)"

definition DayFromYear :: "int \<Rightarrow> int" where
  "DayFromYear y =
     365 * (y - 1970) + (y - 1969) div 4 - (y - 1901) div 100 + (y - 1601) div 400"

lemma div_step:
  fixes a n :: int
  assumes "0 < n"
  shows "(a + 1) div n = a div n + (if (a + 1) mod n = 0 then 1 else 0)"
proof -
  define q r where "q = a div n" and "r = a mod n"
  have a: "a = n * q + r" and r: "0 \<le> r" "r < n"
    using assms by (simp_all add: q_def r_def)
  show ?thesis
  proof (cases "r + 1 < n")
    case True
    have e: "a + 1 = n * q + (r + 1)"
      using a by simp
    have "(a + 1) div n = q"
      using e r True by (intro int_div_pos_eq [of _ n q "r + 1"]) auto
    moreover have "(a + 1) mod n = r + 1"
      using e r True by (intro int_mod_pos_eq [of _ n q "r + 1"]) auto
    ultimately show ?thesis
      using r by (simp add: q_def)
  next
    case False
    then have "r + 1 = n"
      using r by simp
    then have e: "a + 1 = n * (q + 1) + 0"
      using a by (simp add: algebra_simps)
    have "(a + 1) div n = q + 1"
      using e assms by (intro int_div_pos_eq [of _ n "q + 1" 0]) auto
    moreover have "(a + 1) mod n = 0"
      using e assms by (intro int_mod_pos_eq [of _ n "q + 1" 0]) auto
    ultimately show ?thesis
      by (simp add: q_def)
  qed
qed

lemma mod_shift:
  fixes y k n :: int
  assumes "n dvd k"
  shows "(y - k) mod n = 0 \<longleftrightarrow> y mod n = 0"
  by (metis assms diff_zero dvd_eq_mod_eq_0 mod_diff_right_eq)

lemma DayFromYear_Suc: "DayFromYear (y + 1) = DayFromYear y + DaysInYear y"
proof -
  have m4: "(y - 1969 + 1) mod 4 = 0 \<longleftrightarrow> y mod 4 = 0"
    using mod_shift [of 4 1968 y] by simp
  have m100: "(y - 1901 + 1) mod 100 = 0 \<longleftrightarrow> y mod 100 = 0"
    using mod_shift [of 100 1900 y] by simp
  have m400: "(y - 1601 + 1) mod 400 = 0 \<longleftrightarrow> y mod 400 = 0"
    using mod_shift [of 400 1600 y] by simp
  have d1: "y mod 100 = 0 \<Longrightarrow> y mod 4 = 0"
    by auto
  have d2: "y mod 400 = 0 \<Longrightarrow> y mod 100 = 0"
    by auto
  have s4: "(y + 1 - 1969) div 4 = (y - 1969) div 4 + (if y mod 4 = 0 then 1 else 0)"
    using div_step [of 4 "y - 1969"] m4 by (simp add: algebra_simps)
  have s100: "(y + 1 - 1901) div 100 = (y - 1901) div 100 + (if y mod 100 = 0 then 1 else 0)"
    using div_step [of 100 "y - 1901"] m100 by (simp add: algebra_simps)
  have s400: "(y + 1 - 1601) div 400 = (y - 1601) div 400 + (if y mod 400 = 0 then 1 else 0)"
    using div_step [of 400 "y - 1601"] m400 by (simp add: algebra_simps)
  show ?thesis
    unfolding DayFromYear_def DaysInYear_def s4 s100 s400 using d1 d2 by auto
qed

lemma DayFromYear_less: "DayFromYear y < DayFromYear (y + 1)"
  by (simp add: DayFromYear_Suc DaysInYear_def)

text \<open>\<open>YearFromTime(t)\<close> is the largest year \<open>y\<close> with \<open>TimeFromYear(y) \<le> t\<close>; it is
  computed by a search upwards and then downwards from an estimate.\<close>

function year_up :: "int \<Rightarrow> int \<Rightarrow> int" where
  "year_up d y = (if DayFromYear (y + 1) \<le> d then year_up d (y + 1) else y)"
  by pat_completeness auto
termination
proof (relation "measure (\<lambda>(d, y). nat (d - DayFromYear (y + 1) + 1))")
  show "wf (measure (\<lambda>(d, y). nat (d - DayFromYear (y + 1) + 1)))"
    by simp
next
  fix d y :: int
  assume "DayFromYear (y + 1) \<le> d"
  then show "((d, y + 1), (d, y)) \<in> measure (\<lambda>(d, y). nat (d - DayFromYear (y + 1) + 1))"
    using DayFromYear_less [of "y + 1"] by simp
qed

function year_down :: "int \<Rightarrow> int \<Rightarrow> int" where
  "year_down d y = (if d < DayFromYear y then year_down d (y - 1) else y)"
  by pat_completeness auto
termination
proof (relation "measure (\<lambda>(d, y). nat (DayFromYear y - d))")
  show "wf (measure (\<lambda>(d, y). nat (DayFromYear y - d)))"
    by simp
next
  fix d y :: int
  assume "d < DayFromYear y"
  then show "((d, y - 1), (d, y)) \<in> measure (\<lambda>(d, y). nat (DayFromYear y - d))"
    using DayFromYear_less [of "y - 1"] by simp
qed

definition YearFromTime :: "int \<Rightarrow> int" where
  "YearFromTime t = year_down (Day t) (year_up (Day t) (1970 + Day t div 365))"

definition InLeapYear :: "int \<Rightarrow> int" where
  "InLeapYear t = (if DaysInYear (YearFromTime t) = 366 then 1 else 0)"

definition DayWithinYear :: "int \<Rightarrow> int" where
  "DayWithinYear t = Day t - DayFromYear (YearFromTime t)"

definition MonthFromTime :: "int \<Rightarrow> int" where
  "MonthFromTime t =
     (let d = DayWithinYear t; l = InLeapYear t in
      if d < 31 then 0 else if d < 59 + l then 1 else if d < 90 + l then 2
      else if d < 120 + l then 3 else if d < 151 + l then 4 else if d < 181 + l then 5
      else if d < 212 + l then 6 else if d < 243 + l then 7 else if d < 273 + l then 8
      else if d < 304 + l then 9 else if d < 334 + l then 10 else 11)"

definition DateFromTime :: "int \<Rightarrow> int" where
  "DateFromTime t =
     (let d = DayWithinYear t; l = InLeapYear t; m = MonthFromTime t in
      if m = 0 then d + 1 else if m = 1 then d - 30 else if m = 2 then d - 58 - l
      else if m = 3 then d - 89 - l else if m = 4 then d - 119 - l
      else if m = 5 then d - 150 - l else if m = 6 then d - 180 - l
      else if m = 7 then d - 211 - l else if m = 8 then d - 242 - l
      else if m = 9 then d - 272 - l else if m = 10 then d - 303 - l else d - 333 - l)"

definition WeekDay :: "int \<Rightarrow> int" where
  "WeekDay t = (Day t + 4) mod 7"

text \<open>The day number of the first day of month \<open>mn\<close> (0 to 11) within a year.\<close>

definition month_start :: "int \<Rightarrow> int \<Rightarrow> int" where
  "month_start l mn =
     (if mn = 0 then 0 else if mn = 1 then 31 else if mn = 2 then 59 + l
      else if mn = 3 then 90 + l else if mn = 4 then 120 + l else if mn = 5 then 151 + l
      else if mn = 6 then 181 + l else if mn = 7 then 212 + l else if mn = 8 then 243 + l
      else if mn = 9 then 273 + l else if mn = 10 then 304 + l else 334 + l)"

definition MakeDay :: "int \<Rightarrow> int \<Rightarrow> int \<Rightarrow> int" where
  "MakeDay year month date =
     (let ym = year + month div 12; mn = month mod 12 in
      DayFromYear ym + month_start (if DaysInYear ym = 366 then 1 else 0) mn + date - 1)"

definition MakeDate :: "int \<Rightarrow> int \<Rightarrow> int" where
  "MakeDate day time = day * msPerDay + time"

text \<open>\<open>Date.UTC(year, month, date, 0, 0, 0, 0)\<close>; a year from 0 to 99 means 1900 + year.\<close>

definition Date_UTC :: "int \<Rightarrow> int \<Rightarrow> int \<Rightarrow> int" where
  "Date_UTC year month date =
     MakeDate (MakeDay (if 0 \<le> year \<and> year \<le> 99 then 1900 + year else year) month date) 0"

definition getConsistentDateForDB :: "int \<Rightarrow> int" where
  "getConsistentDateForDB date = Date_UTC (YearFromTime date) (MonthFromTime date) 1"

definition normalizeToMidnightUTC :: "int \<Rightarrow> int" where
  "normalizeToMidnightUTC date = Date_UTC (YearFromTime date) (MonthFromTime date) (DateFromTime date)"




declare year_up.simps [simp del] year_down.simps [simp del]

lemma year_up_bound: "d < DayFromYear (year_up d y + 1)"
proof (induction d y rule: year_up.induct)
  case (1 d y)
  show ?case
  proof (cases "DayFromYear (y + 1) \<le> d")
    case True
    then show ?thesis
      using "1.IH" by (subst year_up.simps) simp
  next
    case False
    then show ?thesis
      by (subst year_up.simps) simp
  qed
qed

lemma year_down_bracket:
  "d < DayFromYear (y + 1) \<Longrightarrow>
   DayFromYear (year_down d y) \<le> d \<and> d < DayFromYear (year_down d y + 1)"
proof (induction d y rule: year_down.induct)
  case (1 d y)
  show ?case
  proof (cases "d < DayFromYear y")
    case True
    then show ?thesis
      using "1.IH" by (subst (1 2) year_down.simps) simp
  next
    case False
    then show ?thesis
      using "1.prems" by (subst (1 2) year_down.simps) simp
  qed
qed

lemma YearFromTime_bracket:
  "DayFromYear (YearFromTime t) \<le> Day t \<and> Day t < DayFromYear (YearFromTime t + 1)"
  unfolding YearFromTime_def by (rule year_down_bracket [OF year_up_bound])

lemma DayFromYear_mono: "a \<le> b \<Longrightarrow> DayFromYear a \<le> DayFromYear b"
proof (induction b rule: int_ge_induct)
  case base
  show ?case by simp
next
  case (step i)
  then show ?case
    using DayFromYear_less [of i] by simp
qed

lemma year_unique:
  assumes "DayFromYear y \<le> d" and "d < DayFromYear (y + 1)"
    and "DayFromYear y' \<le> d" and "d < DayFromYear (y' + 1)"
  shows "y = y'"
proof (rule ccontr)
  assume "y \<noteq> y'"
  then consider "y + 1 \<le> y'" | "y' + 1 \<le> y"
    by linarith
  then show False
  proof cases
    case 1
    then show False
      using DayFromYear_mono [of "y + 1" y'] assms by simp
  next
    case 2
    then show False
      using DayFromYear_mono [of "y' + 1" y] assms by simp
  qed
qed

lemma YearFromTime_eq:
  "DayFromYear y \<le> Day t \<Longrightarrow> Day t < DayFromYear (y + 1) \<Longrightarrow> YearFromTime t = y"
  using year_unique [of "YearFromTime t" "Day t" y] YearFromTime_bracket [of t] by simp

lemma DayWithinYear_range:
  "0 \<le> DayWithinYear t \<and> DayWithinYear t < 365 + InLeapYear t"
  using YearFromTime_bracket [of t] DayFromYear_Suc [of "YearFromTime t"]
  by (auto simp: DayWithinYear_def InLeapYear_def DaysInYear_def)

lemma MonthFromTime_range: "0 \<le> MonthFromTime t \<and> MonthFromTime t \<le> 11"
  by (simp add: MonthFromTime_def Let_def)

lemma MonthFromTime_cases:
  fixes t :: int
  defines "d \<equiv> DayWithinYear t" and "l \<equiv> InLeapYear t" and "m \<equiv> MonthFromTime t"
  shows "(m = 0 \<and> d < 31) \<or> (m = 1 \<and> 31 \<le> d \<and> d < 59 + l) \<or> (m = 2 \<and> 59 + l \<le> d \<and> d < 90 + l)
    \<or> (m = 3 \<and> 90 + l \<le> d \<and> d < 120 + l) \<or> (m = 4 \<and> 120 + l \<le> d \<and> d < 151 + l)
    \<or> (m = 5 \<and> 151 + l \<le> d \<and> d < 181 + l) \<or> (m = 6 \<and> 181 + l \<le> d \<and> d < 212 + l)
    \<or> (m = 7 \<and> 212 + l \<le> d \<and> d < 243 + l) \<or> (m = 8 \<and> 243 + l \<le> d \<and> d < 273 + l)
    \<or> (m = 9 \<and> 273 + l \<le> d \<and> d < 304 + l) \<or> (m = 10 \<and> 304 + l \<le> d \<and> d < 334 + l)
    \<or> (m = 11 \<and> 334 + l \<le> d)"
proof -
  have l: "l = 0 \<or> l = 1"
    by (simp add: l_def InLeapYear_def)
  show ?thesis
    unfolding m_def MonthFromTime_def Let_def d_def [symmetric] l_def [symmetric]
    using l by (simp split: if_splits) 
qed

lemma month_start_date:
  "month_start (InLeapYear t) (MonthFromTime t) + DateFromTime t - 1 = DayWithinYear t"
  using MonthFromTime_cases [of t]
  by (elim disjE conjE) (simp_all add: month_start_def DateFromTime_def Let_def)

lemma DateFromTime_ge_1: "1 \<le> DateFromTime t"
  using MonthFromTime_cases [of t] DayWithinYear_range [of t]
  by (elim disjE conjE) (simp_all add: DateFromTime_def Let_def)

lemma MakeDay_same_month:
  "MakeDay (YearFromTime t) (MonthFromTime t) n = Day t - DateFromTime t + n"
proof -
  have "MonthFromTime t div 12 = 0" "MonthFromTime t mod 12 = MonthFromTime t"
    using MonthFromTime_range [of t] by simp_all
  then have "MakeDay (YearFromTime t) (MonthFromTime t) n =
      DayFromYear (YearFromTime t) + month_start (InLeapYear t) (MonthFromTime t) + n - 1"
    by (simp add: MakeDay_def InLeapYear_def)
  then show ?thesis
    using month_start_date [of t] by (simp add: DayWithinYear_def)
qed

lemma getConsistentDateForDB_eq:
  assumes "\<not> (0 \<le> YearFromTime t \<and> YearFromTime t \<le> 99)"
  shows "getConsistentDateForDB t = (Day t - (DateFromTime t - 1)) * msPerDay"
proof -
  have "getConsistentDateForDB t = MakeDay (YearFromTime t) (MonthFromTime t) 1 * msPerDay"
    using assms by (auto simp: getConsistentDateForDB_def Date_UTC_def MakeDate_def)
  then show ?thesis
    by (simp add: MakeDay_same_month)
qed

lemma getConsistentDateForDB_le:
  assumes "\<not> (0 \<le> YearFromTime t \<and> YearFromTime t \<le> 99)"
  shows "getConsistentDateForDB t \<le> t"
proof -
  have "(Day t - (DateFromTime t - 1)) * msPerDay \<le> Day t * msPerDay"
    using DateFromTime_ge_1 [of t] by (simp add: msPerDay_def)
  also have "\<dots> \<le> t"
    by (simp add: Day_def msPerDay_def)
  finally show ?thesis
    using getConsistentDateForDB_eq [OF assms] by simp
qed

lemma mod_step:
  fixes a n :: int
  assumes "0 < n"
  shows "(a + 1) mod n = (if a mod n = n - 1 then 0 else a mod n + 1)"
    and "(a + 1) div n = (if a mod n = n - 1 then a div n + 1 else a div n)"
proof -
  have r: "0 \<le> a mod n" "a mod n < n"
    using assms by simp_all
  have "(a + 1) mod n = (a mod n + 1) mod n"
    by (simp add: mod_add_left_eq)
  then show m: "(a + 1) mod n = (if a mod n = n - 1 then 0 else a mod n + 1)"
    using r by (auto simp: mod_pos_pos_trivial)
  show "(a + 1) div n = (if a mod n = n - 1 then a div n + 1 else a div n)"
    using div_step [OF assms, of a] m r by auto
qed

lemma MakeDay_month_less: "MakeDay y m dt < MakeDay y (m + 1) dt"
proof -
  define r where "r = m mod 12"
  have r: "0 \<le> r" "r < 12"
    by (simp_all add: r_def)
  have l: "0 \<le> (if DaysInYear z = 366 then 1 else 0::int)" for z
    by simp
  consider "r = 0" | "r = 1" | "r = 2" | "r = 3" | "r = 4" | "r = 5" | "r = 6" | "r = 7"
    | "r = 8" | "r = 9" | "r = 10" | "r = 11"
    using r by atomize_elim arith
  then show ?thesis
  proof cases
    case 12
    then show ?thesis
      using DayFromYear_Suc [of "y + m div 12"]
      by (simp add: MakeDay_def Let_def mod_step r_def [symmetric] month_start_def DaysInYear_def
          add.assoc)
  qed (simp_all add: MakeDay_def Let_def mod_step r_def [symmetric] month_start_def)
qed

definition getUTCFullYear :: "int \<Rightarrow> int" where
  "getUTCFullYear t = YearFromTime t"

definition getUTCMonth :: "int \<Rightarrow> int" where
  "getUTCMonth t = MonthFromTime t"

definition getUTCDate :: "int \<Rightarrow> int" where
  "getUTCDate t = DateFromTime t"

definition getUTCDay :: "int \<Rightarrow> int" where
  "getUTCDay t = WeekDay t"

text \<open>\<open>setUTCHours(0, 0, 0, 0)\<close>.\<close>

definition setUTCHours_0 :: "int \<Rightarrow> int" where
  "setUTCHours_0 t = MakeDate (Day t) 0"

definition setUTCDate :: "int \<Rightarrow> int \<Rightarrow> int" where
  "setUTCDate t dt = MakeDate (MakeDay (YearFromTime t) (MonthFromTime t) dt) (TimeWithinDay t)"

definition setUTCMonth :: "int \<Rightarrow> int \<Rightarrow> int" where
  "setUTCMonth t m = MakeDate (MakeDay (YearFromTime t) m (DateFromTime t)) (TimeWithinDay t)"

lemma MakeDate_Day: "MakeDate (Day t) (TimeWithinDay t) = t"
  by (simp add: MakeDate_def Day_def TimeWithinDay_def)

lemma setUTCDate_add: "setUTCDate t (getUTCDate t + n) = t + n * msPerDay"
proof -
  have "setUTCDate t (getUTCDate t + n) = MakeDate (Day t + n) (TimeWithinDay t)"
    by (simp add: setUTCDate_def getUTCDate_def MakeDay_same_month)
  also have "\<dots> = MakeDate (Day t) (TimeWithinDay t) + n * msPerDay"
    by (simp add: MakeDate_def algebra_simps)
  finally show ?thesis
    by (simp add: MakeDate_Day)
qed

lemma setUTCMonth_next: "t < setUTCMonth t (getUTCMonth t + 1)"
proof -
  have "MakeDay (YearFromTime t) (MonthFromTime t) (DateFromTime t) = Day t"
    by (simp add: MakeDay_same_month)
  then have "Day t < MakeDay (YearFromTime t) (MonthFromTime t + 1) (DateFromTime t)"
    using MakeDay_month_less [of "YearFromTime t" "MonthFromTime t" "DateFromTime t"] by simp
  then have "MakeDate (Day t) (TimeWithinDay t) < setUTCMonth t (getUTCMonth t + 1)"
    by (simp add: setUTCMonth_def getUTCMonth_def MakeDate_def msPerDay_def)
  then show ?thesis
    by (simp add: MakeDate_Day)
qed

lemma setUTCMonth_next_quarter: "t < setUTCMonth t (getUTCMonth t + 3)"
proof -
  let ?y = "YearFromTime t" and ?m = "MonthFromTime t" and ?d = "DateFromTime t"
  have "MakeDay ?y ?m ?d = Day t"
    by (simp add: MakeDay_same_month)
  moreover have "MakeDay ?y ?m ?d < MakeDay ?y (?m + 1) ?d"
    by (rule MakeDay_month_less)
  moreover have "MakeDay ?y (?m + 1) ?d < MakeDay ?y (?m + 1 + 1) ?d"
    by (rule MakeDay_month_less)
  moreover have "MakeDay ?y (?m + 1 + 1) ?d < MakeDay ?y (?m + 1 + 1 + 1) ?d"
    by (rule MakeDay_month_less)
  ultimately have "Day t < MakeDay ?y (?m + 3) ?d"
    by (simp add: add.assoc)
  then have "MakeDate (Day t) (TimeWithinDay t) < setUTCMonth t (getUTCMonth t + 3)"
    by (simp add: setUTCMonth_def getUTCMonth_def MakeDate_def msPerDay_def)
  then show ?thesis
    by (simp add: MakeDate_Day)
qed

text \<open>The \<open>while (currentDate <= endDate)\<close> loops of the three generators.\<close>

function monthly_loop :: "int \<Rightarrow> int \<Rightarrow> int list" where
  "monthly_loop currentDate endDate =
     (if currentDate \<le> endDate
      then currentDate # monthly_loop (setUTCMonth currentDate (getUTCMonth currentDate + 1)) endDate
      else [])"
  by pat_completeness auto
termination
proof (relation "measure (\<lambda>(c, e). nat (e - c + 1))")
  show "wf (measure (\<lambda>(c, e). nat (e - c + 1)))"
    by simp
next
  fix currentDate endDate :: int
  assume "currentDate \<le> endDate"
  then show "((setUTCMonth currentDate (getUTCMonth currentDate + 1), endDate), (currentDate, endDate))
      \<in> measure (\<lambda>(c, e). nat (e - c + 1))"
    using setUTCMonth_next [of currentDate] by simp
qed

function quarterly_loop :: "int \<Rightarrow> int \<Rightarrow> int list" where
  "quarterly_loop currentDate endDate =
     (if currentDate \<le> endDate
      then currentDate # quarterly_loop (setUTCMonth currentDate (getUTCMonth currentDate + 3)) endDate
      else [])"
  by pat_completeness auto
termination
proof (relation "measure (\<lambda>(c, e). nat (e - c + 1))")
  show "wf (measure (\<lambda>(c, e). nat (e - c + 1)))"
    by simp
next
  fix currentDate endDate :: int
  assume "currentDate \<le> endDate"
  then show "((setUTCMonth currentDate (getUTCMonth currentDate + 3), endDate), (currentDate, endDate))
      \<in> measure (\<lambda>(c, e). nat (e - c + 1))"
    using setUTCMonth_next_quarter [of currentDate] by simp
qed

function monday_loop :: "int \<Rightarrow> int \<Rightarrow> int list" where
  "monday_loop currentDate endDate =
     (if currentDate \<le> endDate
      then currentDate # monday_loop (setUTCDate currentDate (getUTCDate currentDate + 7)) endDate
      else [])"
  by pat_completeness auto
termination
proof (relation "measure (\<lambda>(c, e). nat (e - c + 1))")
  show "wf (measure (\<lambda>(c, e). nat (e - c + 1)))"
    by simp
next
  fix currentDate endDate :: int
  assume "currentDate \<le> endDate"
  then show "((setUTCDate currentDate (getUTCDate currentDate + 7), endDate), (currentDate, endDate))
      \<in> measure (\<lambda>(c, e). nat (e - c + 1))"
    by (simp add: setUTCDate_add msPerDay_def)
qed

declare monthly_loop.simps [simp del] quarterly_loop.simps [simp del] monday_loop.simps [simp del]

definition generateMonthlySequence :: "int \<Rightarrow> int \<Rightarrow> int list" where
  "generateMonthlySequence startDate endDate =
     monthly_loop (Date_UTC (getUTCFullYear startDate) (getUTCMonth startDate) 1) endDate"

definition generateQuarterlySequence :: "int \<Rightarrow> int \<Rightarrow> int list" where
  "generateQuarterlySequence startDate endDate =
     (let quarterMonth = (getUTCMonth startDate div 3) * 3
      in quarterly_loop (Date_UTC (getUTCFullYear startDate) quarterMonth 1) endDate)"

definition generateMondaySequence :: "int \<Rightarrow> int \<Rightarrow> int list" where
  "generateMondaySequence startDate endDate =
     (let currentDate = setUTCHours_0 startDate;
          day = getUTCDay currentDate;
          currentDate' =
            (if day \<noteq> 1
             then setUTCDate currentDate (getUTCDate currentDate + (if day = 0 then 1 else 8 - day))
             else currentDate)
      in monday_loop currentDate' endDate)"

datatype frequency = weekly | monthly | quarterly

fun getDateSequence :: "frequency \<Rightarrow> int \<Rightarrow> int \<Rightarrow> int list" where
  "getDateSequence monthly startDate endDate = generateMonthlySequence startDate endDate"
| "getDateSequence quarterly startDate endDate = generateQuarterlySequence startDate endDate"
| "getDateSequence weekly startDate endDate = generateMondaySequence startDate endDate"

section \<open>Tables\<close>

text \<open>The columns of \<open>schema.prisma\<close> that the calculators read or write. A column
  declared with \<open>?\<close> is nullable and has an option type.\<close>

record publication =
  pub_id :: int
  submission_id :: int
  conference :: "int option"
  review_score :: "real option"
  overall_score :: "real option"
  citation_count :: "int option"
  date_published :: "timestamp option"

record publication_user =
  pu_publication_id :: int
  pu_user_id :: int

record publication_topic =
  pt_publication_id :: int
  pt_topic_id :: int

record user =
  user_id :: int
  h_index :: "int option"

record event =
  lisperator_id :: "int option"
  conference_value :: "real option"

record citation =
  cit_publication_id :: int
  oci :: string
  creation_date :: "timestamp option"
  author_sc :: "bool option"

record publication_snapshot =
  ps_publication_id :: int
  ps_snapshot_date :: timestamp
  ps_value :: real

record topic_snapshot =
  ts_topic_id :: int
  ts_snapshot_date :: timestamp
  ts_mean_value :: real

record user_topic_snapshot =
  uts_user_id :: int
  uts_topic_id :: int
  uts_snapshot_date :: timestamp
  uts_mean_value :: real

record user_overall_snapshot =
  uos_user_id :: int
  uos_snapshot_date :: timestamp
  uos_mean_value :: real

record database =
  Publication :: "publication list"
  PublicationUser :: "publication_user list"
  PublicationTopic :: "publication_topic list"
  User :: "user list"
  Event :: "event list"
  Citation :: "citation list"
  DecayLookup :: "decay_row list"
  PublicationSnapshot :: "publication_snapshot list"
  TopicSnapshot :: "topic_snapshot list"
  UserTopicSnapshot :: "user_topic_snapshot list"
  UserOverallSnapshot :: "user_overall_snapshot list"

section \<open>SQL operators\<close>

text \<open>\<open>a = b\<close> in a join or \<open>WHERE\<close> condition holds only when both sides are non-null.\<close>

definition sql_eq :: "'a option \<Rightarrow> 'a option \<Rightarrow> bool" where
  "sql_eq a b = (case (a, b) of (Some x, Some y) \<Rightarrow> x = y | _ \<Rightarrow> False)"

text \<open>\<open>a <= b\<close> and \<open>a >= b\<close> against a non-null right-hand side.\<close>

definition sql_le :: "int option \<Rightarrow> int \<Rightarrow> bool" where
  "sql_le a b = (case a of Some x \<Rightarrow> x \<le> b | None \<Rightarrow> False)"

definition sql_ge :: "int option \<Rightarrow> int \<Rightarrow> bool" where
  "sql_ge a b = (case a of Some x \<Rightarrow> b \<le> x | None \<Rightarrow> False)"

definition COALESCE :: "'a option \<Rightarrow> 'a \<Rightarrow> 'a" where
  "COALESCE a d = (case a of Some x \<Rightarrow> x | None \<Rightarrow> d)"

text \<open>\<open>GREATEST(a, b)\<close> with a nullable first argument: PostgreSQL ignores a null
  argument.\<close>

definition sql_greatest :: "'a::linorder option \<Rightarrow> 'a \<Rightarrow> 'a" where
  "sql_greatest a b = (case a of Some x \<Rightarrow> max x b | None \<Rightarrow> b)"

text \<open>\<open>SUM\<close> skips nulls and is null when no non-null value is left; \<open>AVG\<close> likewise.\<close>

fun non_null :: "'a option list \<Rightarrow> 'a list" where
  "non_null [] = []"
| "non_null (None # xs) = non_null xs"
| "non_null (Some x # xs) = x # non_null xs"

definition sql_sum :: "real option list \<Rightarrow> real option" where
  "sql_sum xs = (case non_null xs of [] \<Rightarrow> None | ys \<Rightarrow> Some (sum_list ys))"

definition sql_avg :: "int option list \<Rightarrow> real option" where
  "sql_avg xs = (case non_null xs of [] \<Rightarrow> None
             | ys \<Rightarrow> Some (real_of_int (sum_list ys) / real (length ys)))"

text \<open>The right-hand side of a \<open>LEFT JOIN\<close>: the matching rows, or one null row.\<close>

definition left_join :: "'a list \<Rightarrow> 'a option list" where
  "left_join xs = (if xs = [] then [None] else map Some xs)"

text \<open>\<open>DATE_PART('day', a - b)::INT\<close>: the difference of two timestamps is an interval of
  days and a time of day of the same sign, so the day field truncates towards zero.\<close>

definition DATE_PART_day :: "int \<Rightarrow> int" where
  "DATE_PART_day iv = (if 0 \<le> iv then iv div msPerDay else - ((- iv) div msPerDay))"

text \<open>A value stored in a column of type \<open>Decimal(10, 3)\<close>, as every score column of
  \<open>schema.prisma\<close> is: PostgreSQL rounds it to three decimals, a tie away from zero, and
  rejects a rounded value of \<open>10^7\<close> or more in absolute value.\<close>

definition round_half_away :: "real \<Rightarrow> int" where
  "round_half_away x = (if 0 \<le> x then \<lfloor>x + 1 / 2\<rfloor> else - \<lfloor>- x + 1 / 2\<rfloor>)"

definition decimal_10_3 :: "real \<Rightarrow> real" where
  "decimal_10_3 x = real_of_int (round_half_away (x * 1000)) / 1000"

definition numeric_field_overflow :: "real \<Rightarrow> bool" where
  "numeric_field_overflow x \<longleftrightarrow> 10 ^ 7 \<le> \<bar>decimal_10_3 x\<bar>"

text \<open>The errors a statement of the calculators can raise.\<close>

datatype db_error = not_null_violation | cardinality_violation | numeric_value_out_of_range

section \<open>Ingestion\<close>

text \<open>Step 6 of \<open>PointSystemInitializationJob.perform\<close> for one entry. The citation list the
  external service returned is a parameter (\<open>None\<close> when the fetch failed); the rows for
  authors and topics, which the helpers \<open>insertAuthors\<close> and \<open>insertTopics\<close> write, are left
  out.\<close>

record OCitRecord =
  oc_oci :: string
  oc_creation :: "timestamp option"
  oc_author_sc :: string

record PublicationRow =
  row_submission_id :: int
  row_doi :: "string option"
  row_conference :: "int option"
  row_review_score :: "real option"
  row_date_published :: "timestamp option"

text \<open>\<open>raw.filter((r) => r.author_sc !== 'yes')\<close>.\<close>

definition external_citations :: "OCitRecord list \<Rightarrow> OCitRecord list" where
  "external_citations raw = filter (\<lambda>r. oc_author_sc r \<noteq> ''yes'') raw"

text \<open>\<open>citationRecords\<close> after the \<open>if (entry.doi) { try { ... } catch { ... } }\<close> block: empty
  without a DOI or when the fetch failed.\<close>

definition citationRecords :: "PublicationRow \<Rightarrow> OCitRecord list option \<Rightarrow> OCitRecord list" where
  "citationRecords entry fetched =
     (case row_doi entry of
        None \<Rightarrow> []
      | Some doi \<Rightarrow>
          if doi = [] then []
          else (case fetched of None \<Rightarrow> [] | Some raw \<Rightarrow> external_citations raw))"

text \<open>The id the serial column gives a new publication: one that no row has.\<close>

definition new_publication_id :: "database \<Rightarrow> int" where
  "new_publication_id db = foldr max (map pub_id (Publication db)) 0 + 1"

text \<open>The citation rows built from the kept records: \<open>author_sc: rec.author_sc === 'yes'\<close>.\<close>

definition citation_rows :: "int \<Rightarrow> OCitRecord list \<Rightarrow> citation list" where
  "citation_rows pubId records =
     map (\<lambda>rec. \<lparr>cit_publication_id = pubId, oci = oc_oci rec, creation_date = oc_creation rec,
                  author_sc = Some (oc_author_sc rec = ''yes'')\<rparr>) records"

text \<open>The transaction: \<open>INSERT INTO "Publication" ... ON CONFLICT (submission_id) DO NOTHING
  RETURNING id\<close>, nothing more when the row existed, otherwise the citation rows with
  \<open>createMany({ skipDuplicates: true })\<close> on the unique \<open>oci\<close>. The review score goes into a
  column of type \<open>Decimal(10, 3)\<close>; a score that does not fit fails the transaction.\<close>

definition insertPublicationRow :: "PublicationRow \<Rightarrow> OCitRecord list \<Rightarrow> database \<Rightarrow> db_error + database" where
  "insertPublicationRow entry records db =
     (let citationCount = int (length records)
      in if (case row_review_score entry of Some v \<Rightarrow> numeric_field_overflow v | None \<Rightarrow> False)
         then Inl numeric_value_out_of_range
         else if row_submission_id entry \<in> submission_id ` set (Publication db) then Inr db
         else
           (let pubId = new_publication_id db
            in Inr (db\<lparr>Publication := Publication db @
                          [\<lparr>pub_id = pubId, submission_id = row_submission_id entry,
                            conference = row_conference entry,
                            review_score = map_option decimal_10_3 (row_review_score entry),
                            overall_score = Some 0,
                            citation_count = Some citationCount,
                            date_published = row_date_published entry\<rparr>],
                      Citation := createMany_skipDuplicates oci (Citation db)
                                    (citation_rows pubId records)\<rparr>)))"

definition insertPublicationEntry :: "PublicationRow \<Rightarrow> OCitRecord list option \<Rightarrow> database \<Rightarrow> db_error + database" where
  "insertPublicationEntry entry fetched db =
     insertPublicationRow entry (citationRecords entry fetched) db"

text \<open>\<open>PointSystemUpdateJob.perform\<close>, step 2, for one new publication: an entry without a
  DOI or with a mock DOI is skipped, a failed fetch leaves no citations, and the
  transaction is the one of the initialization.\<close>

definition mock_doi :: "string \<Rightarrow> bool" where
  "mock_doi doi = sublist ''10.9999/mock-'' doi"

definition insertNewPublication :: "PublicationRow \<Rightarrow> OCitRecord list option \<Rightarrow> database \<Rightarrow> db_error + database" where
  "insertNewPublication pub fetched db =
     (case row_doi pub of
        None \<Rightarrow> Inr db
      | Some doi \<Rightarrow>
          if doi = [] \<or> mock_doi doi then Inr db
          else insertPublicationRow pub
                 (case fetched of None \<Rightarrow> [] | Some raw \<Rightarrow> external_citations raw) db)"

text \<open>Step 3 for one existing publication, read at the start of the job as the columns
  \<open>id\<close>, \<open>doi\<close> and \<open>citation_count\<close>: nothing without a real DOI or when the fetch failed;
  otherwise the fetched records that are not self-citations are inserted one by one with
  \<open>ON CONFLICT (oci) DO NOTHING\<close>, the publication's rows are counted with
  \<open>SELECT COUNT(*) FROM "Citation" WHERE publication_id = id\<close>, and the count is written
  when it differs from the one read.\<close>

record ExistingPublication =
  ex_id :: int
  ex_doi :: "string option"
  ex_citation_count :: "int option"

definition updateExistingPublication :: "ExistingPublication \<Rightarrow> OCitRecord list option \<Rightarrow> database \<Rightarrow> database" where
  "updateExistingPublication pub fetched db =
     (case (ex_doi pub, fetched) of
        (Some doi, Some fetchedRecords) \<Rightarrow>
          if doi = [] \<or> mock_doi doi then db
          else
            (let validCitations = external_citations fetchedRecords;
                 tbl = createMany_skipDuplicates oci (Citation db)
                         (citation_rows (ex_id pub) validCitations);
                 newCount = int (length [c \<leftarrow> tbl. cit_publication_id c = ex_id pub])
             in if Some newCount = ex_citation_count pub then db\<lparr>Citation := tbl\<rparr>
                else db\<lparr>Citation := tbl,
                        Publication :=
                          map (\<lambda>p. if pub_id p = ex_id pub
                                    then p\<lparr>citation_count := Some newCount\<rparr> else p)
                              (Publication db)\<rparr>)
      | _ \<Rightarrow> db)"

section \<open>Metric calculators\<close>

subsection \<open>\<open>calculateUserHIndex\<close>\<close>

text \<open>The citation counts of the rows of \<open>Publication JOIN PublicationUser\<close> in one
  user's partition.\<close>

definition user_citation_counts :: "database \<Rightarrow> int \<Rightarrow> int option list" where
  "user_citation_counts db u =
     [citation_count p. p \<leftarrow> Publication db, pu \<leftarrow> PublicationUser db,
        pub_id p = pu_publication_id pu, pu_user_id pu = u]"

text \<open>\<open>ORDER BY citation_count DESC\<close>: nulls come first in a descending order.\<close>

definition order_desc :: "int option list \<Rightarrow> int option list" where
  "order_desc cs = filter (\<lambda>c. c = None) cs @ map Some (rev (sort (non_null cs)))"

text \<open>\<open>ROW_NUMBER() OVER (PARTITION BY ... ORDER BY ...)\<close>: ranks from 1.\<close>

definition ROW_NUMBER :: "'a list \<Rightarrow> (nat \<times> 'a) list" where
  "ROW_NUMBER xs = enumerate 1 xs"

text \<open>One user's citation counts in rank order, and the rows \<open>(rank, citation_count)\<close> of
  \<open>RankedPublications\<close> in that user's partition.\<close>

definition ranked_counts :: "database \<Rightarrow> int \<Rightarrow> int option list" where
  "ranked_counts db u = order_desc (user_citation_counts db u)"

definition RankedPublications :: "database \<Rightarrow> int \<Rightarrow> (nat \<times> int option) list" where
  "RankedPublications db u = ROW_NUMBER (ranked_counts db u)"

text \<open>\<open>WHERE citation_count >= rank\<close>.\<close>

definition qualifying_ranks :: "(nat \<times> int option) list \<Rightarrow> nat list" where
  "qualifying_ranks rows = [r. (r, c) \<leftarrow> rows, sql_ge c (int r)]"

text \<open>\<open>SELECT userid, MAX(rank) ... GROUP BY userid\<close>: a user without a qualifying row
  has no group.\<close>

definition HIndexPerUser :: "database \<Rightarrow> int \<Rightarrow> nat option" where
  "HIndexPerUser db u =
     (case qualifying_ranks (RankedPublications db u) of [] \<Rightarrow> None
      | r # rs \<Rightarrow> Some (Max (set (r # rs))))"

definition calculateUserHIndex :: "database \<Rightarrow> database" where
  "calculateUserHIndex db =
     db\<lparr>User :=
        map (\<lambda>u. case HIndexPerUser db (user_id u) of
                    None \<Rightarrow> u
                  | Some h \<Rightarrow> u\<lparr>h_index := Some (min (int h) 100)\<rparr>)
            (User db)\<rparr>"

subsection \<open>\<open>calculateConferenceValue\<close>\<close>

text \<open>The rows a \<open>WHERE x IS NOT NULL\<close> keeps, with the value of \<open>x\<close>.\<close>

definition not_null :: "'a option \<Rightarrow> 'a list" where
  "not_null a = (case a of Some x \<Rightarrow> [x] | None \<Rightarrow> [])"

text \<open>\<open>SELECT DISTINCT p.conference, pu.user_id ... WHERE p.conference IS NOT NULL\<close>.\<close>

definition user_confs :: "database \<Rightarrow> (int \<times> int) list" where
  "user_confs db =
     remdups [(k, pu_user_id pu). p \<leftarrow> Publication db, pu \<leftarrow> PublicationUser db,
                pub_id p = pu_publication_id pu, k \<leftarrow> not_null (conference p)]"

text \<open>The \<open>h_index\<close> values of one conference's group in
  \<open>user_confs JOIN "User" ... GROUP BY uc.conference\<close>.\<close>

definition conference_h_indexes :: "database \<Rightarrow> int \<Rightarrow> int option list" where
  "conference_h_indexes db k =
     [h_index u. (k', uid) \<leftarrow> user_confs db, u \<leftarrow> User db, k' = k, uid = user_id u]"

text \<open>The row of \<open>averages\<close> for a conference: none when its group is empty, otherwise the
  (nullable) average.\<close>

definition averages :: "database \<Rightarrow> int \<Rightarrow> real option option" where
  "averages db k =
     (case conference_h_indexes db k of [] \<Rightarrow> None | h # hs \<Rightarrow> Some (sql_avg (h # hs)))"

text \<open>\<open>LEAST(GREATEST(1, avg_h_index), 100)\<close>; it lies between 1 and 100, so storing it in
  the column \<open>conference_value\<close> rounds it and cannot overflow.\<close>

definition clamp_conference_value :: "real option \<Rightarrow> real" where
  "clamp_conference_value a = min (sql_greatest a 1) 100"

definition calculateConferenceValue :: "database \<Rightarrow> database" where
  "calculateConferenceValue db =
     db\<lparr>Event :=
        map (\<lambda>e. case lisperator_id e of
                    None \<Rightarrow> e
                  | Some k \<Rightarrow>
                      (case averages db k of
                         None \<Rightarrow> e
                       | Some a \<Rightarrow>
                           e\<lparr>conference_value := Some (decimal_10_3 (clamp_conference_value a))\<rparr>))
            (Event db)\<rparr>"

subsection \<open>\<open>calculateCitationScoresAndDecay\<close>\<close>

text \<open>\<open>NOW()\<close> and \<open>CURRENT_DATE\<close> (midnight of the current day in the session's time zone)
  of the statement.\<close>

record clock =
  NOW :: timestamp
  CURRENT_DATE :: timestamp

text \<open>\<open>DATE_PART('day', ref - GREATEST(c.creation_date, COALESCE(p.date_published, dflt)))::INT\<close>,
  where \<open>c\<close> is null on the null row of the left join.\<close>

definition citation_age_days :: "timestamp \<Rightarrow> timestamp \<Rightarrow> citation option \<Rightarrow> publication \<Rightarrow> int" where
  "citation_age_days ref dflt c p =
     DATE_PART_day
       (ref - sql_greatest (case c of Some c' \<Rightarrow> creation_date c' | None \<Rightarrow> None)
                (COALESCE (date_published p) dflt))"

text \<open>\<open>DATE_PART('day', ref - COALESCE(p.date_published, dflt))::INT\<close>.\<close>

definition publication_age_days :: "timestamp \<Rightarrow> timestamp \<Rightarrow> publication \<Rightarrow> int" where
  "publication_age_days ref dflt p = DATE_PART_day (ref - COALESCE (date_published p) dflt)"

text \<open>\<open>CASE WHEN c.author_sc = false AND dl_c.decay_factor IS NOT NULL
  THEN ((conference_value / 5.0) * dl_c.decay_factor) ELSE 0 END\<close>.\<close>

definition decayed_citation_term :: "real option \<Rightarrow> citation option \<Rightarrow> decay_row option \<Rightarrow> real option" where
  "decayed_citation_term cv c dl =
     (case (c, dl) of
        (Some c', Some d) \<Rightarrow>
          if author_sc c' = Some False then map_option (\<lambda>v. (v / 5) * decay_factor d) cv
          else Some 0
      | _ \<Rightarrow> Some 0)"

text \<open>The part of the join that the three citation-score statements share,
  \<open>... LEFT JOIN "Citation" c ON p.id = c.publication_id LEFT JOIN "DecayLookup" dl_c ON
  DATE_PART('day', ref - GREATEST(...))::INT = dl_c.days\<close>, for one publication row, with
  the \<open>CASE\<close> expression of the statement evaluated on each joined row.\<close>

definition citation_terms :: "(citation option \<Rightarrow> decay_row option \<Rightarrow> real option) \<Rightarrow> database \<Rightarrow> timestamp \<Rightarrow> timestamp \<Rightarrow> publication \<Rightarrow> real option list" where
  "citation_terms case_expr db ref dflt p =
     [case_expr c dl.
        c \<leftarrow> left_join [c \<leftarrow> Citation db. cit_publication_id c = pub_id p],
        dl \<leftarrow> left_join (decay_rows_for (DecayLookup db) (citation_age_days ref dflt c p))]"

text \<open>Statement A: the terms summed in the group of publication \<open>i\<close> of the temporary
  table \<open>citation_scores\<close>, and the group's row (none when the join is empty).\<close>

definition citation_scores_terms :: "clock \<Rightarrow> database \<Rightarrow> int \<Rightarrow> real option list" where
  "citation_scores_terms cl db i =
     concat
       [citation_terms (decayed_citation_term (conference_value e)) db
          (NOW cl) (CURRENT_DATE cl) p.
        p \<leftarrow> Publication db, pub_id p = i,
        e \<leftarrow> Event db, sql_eq (conference p) (lisperator_id e)]"

definition citation_scores :: "clock \<Rightarrow> database \<Rightarrow> int \<Rightarrow> real option option" where
  "citation_scores cl db i =
     (case citation_scores_terms cl db i of [] \<Rightarrow> None | t # ts \<Rightarrow> Some (sql_sum (t # ts)))"

text \<open>\<open>GREATEST(1, LEAST(COALESCE(review_score, 1), 5))\<close>.\<close>

definition clamp_review_score :: "real option \<Rightarrow> real" where
  "clamp_review_score r = max 1 (min (COALESCE r 1) 5)"

text \<open>Statement B: \<open>UPDATE "Publication" pub SET overall_score = ... FROM citation_scores cs,
  "DecayLookup" dl_p, "Event" e WHERE ...\<close>. The two statements are sent one after the
  other outside a transaction, so each has its own \<open>NOW()\<close> and \<open>CURRENT_DATE\<close>: \<open>clA\<close> for
  statement A and \<open>clB\<close> for statement B. The value of the \<open>SET\<close> expression for a
  publication is that of the first matching row of the \<open>FROM\<close> list (PostgreSQL uses one
  of them); there is none for a publication without a matching row.\<close>

definition updated_overall_score :: "clock \<Rightarrow> clock \<Rightarrow> database \<Rightarrow> publication \<Rightarrow> real option" where
  "updated_overall_score clA clB db pub =
     (case [(cs, dl_p, e).
              cs \<leftarrow> not_null (citation_scores clA db (pub_id pub)),
              dl_p \<leftarrow> decay_rows_for (DecayLookup db)
                       (publication_age_days (NOW clB) (CURRENT_DATE clB) pub),
              e \<leftarrow> Event db, sql_eq (conference pub) (lisperator_id e)] of
        [] \<Rightarrow> None
      | (cs, dl_p, e) # _ \<Rightarrow>
          Some (clamp_review_score (review_score pub) * COALESCE (conference_value e) 1
                  * decay_factor dl_p
                + COALESCE cs 0))"

text \<open>The update: a publication without a value keeps its score, the others get the value
  as the column \<open>overall_score\<close> stores it; the statement fails, and changes nothing, when
  one of the values does not fit the column.\<close>

definition calculateCitationScoresAndDecay :: "clock \<Rightarrow> clock \<Rightarrow> database \<Rightarrow> db_error + database" where
  "calculateCitationScoresAndDecay clA clB db =
     (if \<exists>pub \<in> set (Publication db).
           case updated_overall_score clA clB db pub of
             Some v \<Rightarrow> numeric_field_overflow v
           | None \<Rightarrow> False
      then Inl numeric_value_out_of_range
      else Inr (db\<lparr>Publication :=
                  map (\<lambda>pub. case updated_overall_score clA clB db pub of
                               None \<Rightarrow> pub
                             | Some v \<Rightarrow> pub\<lparr>overall_score := Some (decimal_10_3 v)\<rparr>)
                      (Publication db)\<rparr>))"

section \<open>Snapshot generator\<close>

subsection \<open>Writing snapshot rows\<close>

text \<open>One row of \<open>INSERT ... ON CONFLICT (key) DO UPDATE SET value = EXCLUDED.value\<close>: a row
  with the same key is overwritten, otherwise the row is added.\<close>

definition upsert :: "('r \<Rightarrow> 'k) \<Rightarrow> 'r list \<Rightarrow> 'r \<Rightarrow> 'r list" where
  "upsert key tbl r =
     (if key r \<in> key ` set tbl then map (\<lambda>x. if key x = key r then r else x) tbl
      else tbl @ [r])"

text \<open>The whole statement: PostgreSQL rejects a command whose rows would touch the same key
  twice.\<close>

definition insert_on_conflict_update :: "('r \<Rightarrow> 'k) \<Rightarrow> 'r list \<Rightarrow> 'r list \<Rightarrow> db_error + 'r list" where
  "insert_on_conflict_update key tbl rows =
     (if distinct (map key rows) then Inr (foldl (upsert key) tbl rows)
      else Inl cardinality_violation)"

text \<open>\<open>SELECT publication_id, consistentDate, overall_score FROM ...\<close> into the columns of
  \<open>PublicationSnapshot\<close>, whose \<open>value\<close> is not nullable and of type \<open>Decimal(10, 3)\<close>. The
  first row that does not fit ends the statement.\<close>

fun publication_snapshot_rows :: "timestamp \<Rightarrow> (int \<times> real option) list \<Rightarrow> db_error + publication_snapshot list" where
  "publication_snapshot_rows consistentDate [] = Inr []"
| "publication_snapshot_rows consistentDate ((i, None) # scores) = Inl not_null_violation"
| "publication_snapshot_rows consistentDate ((i, Some v) # scores) =
     (if numeric_field_overflow v then Inl numeric_value_out_of_range
      else case publication_snapshot_rows consistentDate scores of
             Inl err \<Rightarrow> Inl err
           | Inr rows \<Rightarrow>
               Inr (\<lparr>ps_publication_id = i, ps_snapshot_date = consistentDate,
                     ps_value = decimal_10_3 v\<rparr> # rows))"

definition publication_snapshot_key :: "publication_snapshot \<Rightarrow> int \<times> timestamp" where
  "publication_snapshot_key r = (ps_publication_id r, ps_snapshot_date r)"

definition topic_snapshot_key :: "topic_snapshot \<Rightarrow> int \<times> timestamp" where
  "topic_snapshot_key r = (ts_topic_id r, ts_snapshot_date r)"

definition user_topic_snapshot_key :: "user_topic_snapshot \<Rightarrow> int \<times> int \<times> timestamp" where
  "user_topic_snapshot_key r = (uts_user_id r, uts_topic_id r, uts_snapshot_date r)"

definition user_overall_snapshot_key :: "user_overall_snapshot \<Rightarrow> int \<times> timestamp" where
  "user_overall_snapshot_key r = (uos_user_id r, uos_snapshot_date r)"

text \<open>\<open>INSERT INTO "PublicationSnapshot" ... ON CONFLICT (publication_id, snapshot_date)
  DO UPDATE SET value = EXCLUDED.value\<close>.\<close>

definition insert_publication_snapshots :: "timestamp \<Rightarrow> (int \<times> real option) list \<Rightarrow> database \<Rightarrow> db_error + database" where
  "insert_publication_snapshots consistentDate scores db =
     (case publication_snapshot_rows consistentDate scores of
        Inl err \<Rightarrow> Inl err
      | Inr rows \<Rightarrow>
          (case insert_on_conflict_update publication_snapshot_key (PublicationSnapshot db) rows of
             Inl err \<Rightarrow> Inl err
           | Inr tbl \<Rightarrow> Inr (db\<lparr>PublicationSnapshot := tbl\<rparr>)))"

subsection \<open>Publication snapshots for the current date\<close>

text \<open>The conference value of the (possibly null) event row of a left join.\<close>

definition event_value :: "event option \<Rightarrow> real option" where
  "event_value e = (case e of Some e' \<Rightarrow> conference_value e' | None \<Rightarrow> None)"

text \<open>\<open>processCitationScores\<close>: the terms of one publication's group, and the temporary table
  \<open>temp_citation_scores\<close> with a row \<open>(publication_id, decayed_citations)\<close> per group.\<close>

definition temp_citation_scores_terms :: "timestamp \<Rightarrow> database \<Rightarrow> int \<Rightarrow> real option list" where
  "temp_citation_scores_terms snapshotDate db i =
     concat
       [citation_terms (decayed_citation_term (event_value e)) db snapshotDate snapshotDate p.
        p \<leftarrow> Publication db, pub_id p = i, sql_le (date_published p) snapshotDate,
        e \<leftarrow> left_join [e \<leftarrow> Event db. sql_eq (conference p) (lisperator_id e)]]"

definition temp_citation_scores :: "timestamp \<Rightarrow> database \<Rightarrow> (int \<times> real option) list" where
  "temp_citation_scores snapshotDate db =
     [(i, sql_sum (temp_citation_scores_terms snapshotDate db i)).
        i \<leftarrow> remdups [pub_id p. p \<leftarrow> Publication db, sql_le (date_published p) snapshotDate]]"

text \<open>The nullable \<open>decayed_citations\<close> of the (possibly null) row of a left join with a table
  of citation scores.\<close>

definition joined_decayed_citations :: "(int \<times> real option) option \<Rightarrow> real option" where
  "joined_decayed_citations cs = (case cs of Some (i, v) \<Rightarrow> v | None \<Rightarrow> None)"

text \<open>\<open>processPublicationSnapshots\<close>: the temporary table \<open>temp_overall_scores\<close>; the score is
  null when no decay row matches the publication's age.\<close>

definition temp_overall_scores :: "timestamp \<Rightarrow> database \<Rightarrow> (int \<times> real option) list" where
  "temp_overall_scores snapshotDate db =
     [(pub_id p,
       map_option (\<lambda>d. clamp_review_score (review_score p) * COALESCE (event_value e) 1
                           * decay_factor d
                         + COALESCE (joined_decayed_citations cs) 0) dl_p).
        p \<leftarrow> Publication db, sql_le (date_published p) snapshotDate,
        e \<leftarrow> left_join [e \<leftarrow> Event db. sql_eq (conference p) (lisperator_id e)],
        cs \<leftarrow> left_join [r \<leftarrow> temp_citation_scores snapshotDate db. fst r = pub_id p],
        dl_p \<leftarrow> left_join (decay_rows_for (DecayLookup db)
                  (publication_age_days snapshotDate snapshotDate p))]"

definition processPublicationSnapshots :: "timestamp \<Rightarrow> database \<Rightarrow> db_error + database" where
  "processPublicationSnapshots snapshotDate db =
     insert_publication_snapshots (getConsistentDateForDB snapshotDate)
       (temp_overall_scores snapshotDate db) db"

subsection \<open>Historical metrics\<close>

text \<open>\<open>DATE_TRUNC('day', t)\<close> in a session whose time zone is \<open>tz\<close> milliseconds ahead of
  UTC.\<close>

definition DATE_TRUNC_day :: "int \<Rightarrow> timestamp \<Rightarrow> timestamp" where
  "DATE_TRUNC_day tz t = t - (t + tz) mod msPerDay"

text \<open>\<open>calculateHistoricalHIndexes\<close>. \<open>HistoricalCitationCounts\<close> has a row for a
  publication with at least one citation that is not a self-citation and was created by
  the truncated date.\<close>

definition HistoricalCitationCounts :: "int \<Rightarrow> timestamp \<Rightarrow> database \<Rightarrow> int \<Rightarrow> int option" where
  "HistoricalCitationCounts tz historicalDate db i =
     (case [c. p \<leftarrow> Publication db, pub_id p = i, c \<leftarrow> Citation db,
               pub_id p = cit_publication_id c,
               sql_le (creation_date c) (DATE_TRUNC_day tz historicalDate),
               author_sc c = Some False] of
        [] \<Rightarrow> None
      | c # cs \<Rightarrow> Some (int (length (c # cs))))"

definition historical_user_citation_counts :: "int \<Rightarrow> timestamp \<Rightarrow> database \<Rightarrow> int \<Rightarrow> int option list" where
  "historical_user_citation_counts tz historicalDate db u =
     [Some (COALESCE (HistoricalCitationCounts tz historicalDate db (pub_id p)) 0).
        p \<leftarrow> Publication db, pu \<leftarrow> PublicationUser db,
        pub_id p = pu_publication_id pu, pu_user_id pu = u,
        sql_le (date_published p) historicalDate]"

text \<open>The row of the temporary table \<open>historical_h_index\<close> for a user, if any:
  \<open>LEAST(COALESCE(h_index, 0), 100)\<close> of \<open>HIndexPerUser\<close>.\<close>

definition historical_h_index :: "int \<Rightarrow> timestamp \<Rightarrow> database \<Rightarrow> int \<Rightarrow> int option" where
  "historical_h_index tz historicalDate db u =
     (case qualifying_ranks
             (ROW_NUMBER (order_desc (historical_user_citation_counts tz historicalDate db u))) of
        [] \<Rightarrow> None
      | r # rs \<Rightarrow> Some (min (int (Max (set (r # rs)))) 100))"

text \<open>\<open>calculateHistoricalConferenceValues\<close>.\<close>

definition historical_user_confs :: "timestamp \<Rightarrow> database \<Rightarrow> (int \<times> int) list" where
  "historical_user_confs historicalDate db =
     remdups [(k, pu_user_id pu). p \<leftarrow> Publication db, pu \<leftarrow> PublicationUser db,
                pub_id p = pu_publication_id pu, k \<leftarrow> not_null (conference p),
                sql_le (date_published p) historicalDate]"

text \<open>The row of \<open>historical_conference_value\<close> for a conference, if any:
  \<open>AVG(COALESCE(hhi.h_index, 0))\<close> over the conference's users, clamped.\<close>

definition historical_conference_value :: "int \<Rightarrow> timestamp \<Rightarrow> database \<Rightarrow> int \<Rightarrow> real option" where
  "historical_conference_value tz historicalDate db k =
     (case [Some (COALESCE (historical_h_index tz historicalDate db uid) 0).
              (k', uid) \<leftarrow> historical_user_confs historicalDate db, k' = k] of
        [] \<Rightarrow> None
      | h # hs \<Rightarrow> Some (clamp_conference_value (sql_avg (h # hs))))"

text \<open>The value joined by \<open>LEFT JOIN historical_conference_value hcv ON p.conference =
  hcv.conference_id\<close>.\<close>

definition joined_historical_conference_value :: "int \<Rightarrow> timestamp \<Rightarrow> database \<Rightarrow> publication \<Rightarrow> real option" where
  "joined_historical_conference_value tz historicalDate db p =
     (case conference p of
        None \<Rightarrow> None
      | Some k \<Rightarrow> historical_conference_value tz historicalDate db k)"

text \<open>\<open>calculateHistoricalBaseScores\<close>: the rows \<open>(publication_id, base_score)\<close> of
  \<open>historical_base_score\<close>.\<close>

definition historical_base_score :: "int \<Rightarrow> timestamp \<Rightarrow> database \<Rightarrow> (int \<times> real) list" where
  "historical_base_score tz historicalDate db =
     [(pub_id p, clamp_review_score (review_score p)
                   * COALESCE (joined_historical_conference_value tz historicalDate db p) 1).
        p \<leftarrow> Publication db, sql_le (date_published p) historicalDate]"

text \<open>\<open>CASE WHEN c.author_sc = false AND dl_c.decay_factor IS NOT NULL AND c.creation_date <=
  consistentDate THEN ((hcv.conference_value / 5.0) * dl_c.decay_factor) ELSE 0 END\<close>.\<close>

definition historical_citation_term :: "timestamp \<Rightarrow> real option \<Rightarrow> citation option \<Rightarrow> decay_row option \<Rightarrow> real option" where
  "historical_citation_term consistentDate cv c dl =
     (case (c, dl) of
        (Some c', Some d) \<Rightarrow>
          if author_sc c' = Some False \<and> sql_le (creation_date c') consistentDate
          then map_option (\<lambda>v. (v / 5) * decay_factor d) cv
          else Some 0
      | _ \<Rightarrow> Some 0)"

text \<open>The slices \<open>publications.slice(i, i + CHUNK_SIZE)\<close> for \<open>i = 0, CHUNK_SIZE, ...\<close>.\<close>

function chunks :: "nat \<Rightarrow> 'a list \<Rightarrow> 'a list list" where
  "chunks n xs = (if n = 0 \<or> xs = [] then [] else take n xs # chunks n (drop n xs))"
  by pat_completeness auto
termination
  by (relation "measure (\<lambda>(n, xs). length xs)") auto

declare chunks.simps [simp del]

definition CHUNK_SIZE :: nat where
  "CHUNK_SIZE = 1000"

text \<open>\<open>calculateHistoricalCitationScores\<close>: the rows one chunk of publication ids inserts into
  \<open>historical_citation_scores\<close>, and the table after all chunks.\<close>

definition historical_citation_scores_terms :: "int \<Rightarrow> timestamp \<Rightarrow> database \<Rightarrow> int list \<Rightarrow> int \<Rightarrow> real option list" where
  "historical_citation_scores_terms tz historicalDate db pubIds i =
     concat
       [citation_terms
          (historical_citation_term (getConsistentDateForDB historicalDate)
             (joined_historical_conference_value tz historicalDate db p))
          db historicalDate historicalDate p.
        p \<leftarrow> Publication db, pub_id p = i,
        sql_le (date_published p) (getConsistentDateForDB historicalDate), pub_id p \<in> set pubIds]"

definition historical_citation_scores_chunk :: "int \<Rightarrow> timestamp \<Rightarrow> database \<Rightarrow> int list \<Rightarrow> (int \<times> real option) list" where
  "historical_citation_scores_chunk tz historicalDate db pubIds =
     [(i, sql_sum (historical_citation_scores_terms tz historicalDate db pubIds i)).
        i \<leftarrow> remdups [pub_id p. p \<leftarrow> Publication db,
                         sql_le (date_published p) (getConsistentDateForDB historicalDate),
                         pub_id p \<in> set pubIds]]"

definition historical_citation_scores :: "int \<Rightarrow> timestamp \<Rightarrow> database \<Rightarrow> int list \<Rightarrow> (int \<times> real option) list" where
  "historical_citation_scores tz historicalDate db publications =
     concat (map (historical_citation_scores_chunk tz historicalDate db)
               (chunks CHUNK_SIZE publications))"

text \<open>\<open>calculateHistoricalOverallScores\<close>: the rows one chunk inserts into
  \<open>historical_overall_scores\<close>, and the table after all chunks.\<close>

definition historical_overall_scores_chunk :: "int \<Rightarrow> timestamp \<Rightarrow> database \<Rightarrow> int list \<Rightarrow> int list \<Rightarrow> (int \<times> real option) list" where
  "historical_overall_scores_chunk tz historicalDate db publications pubIds =
     [(pub_id p,
       case (hbs, dl_p) of
         (Some (i, base_score), Some d) \<Rightarrow>
           Some (base_score * decay_factor d + COALESCE (joined_decayed_citations hcs) 0)
       | _ \<Rightarrow> None).
        p \<leftarrow> Publication db, sql_le (date_published p) historicalDate, pub_id p \<in> set pubIds,
        hbs \<leftarrow> left_join [r \<leftarrow> historical_base_score tz historicalDate db. fst r = pub_id p],
        hcs \<leftarrow> left_join [r \<leftarrow> historical_citation_scores tz historicalDate db publications.
                             fst r = pub_id p],
        dl_p \<leftarrow> left_join (decay_rows_for (DecayLookup db)
                  (publication_age_days historicalDate historicalDate p))]"

definition historical_overall_scores :: "int \<Rightarrow> timestamp \<Rightarrow> database \<Rightarrow> int list \<Rightarrow> (int \<times> real option) list" where
  "historical_overall_scores tz historicalDate db publications =
     concat (map (historical_overall_scores_chunk tz historicalDate db publications)
               (chunks CHUNK_SIZE publications))"

text \<open>The first transaction of \<open>createHistoricalSnapshots\<close>: steps 1 to 6, ending with the
  insert of the rows of \<open>historical_overall_scores\<close> whose publication is in the list. The
  three attempts of the retry loop compute the same result, so one attempt is modelled.\<close>

definition createHistoricalPublicationSnapshots :: "int \<Rightarrow> timestamp \<Rightarrow> int list \<Rightarrow> database \<Rightarrow> db_error + database" where
  "createHistoricalPublicationSnapshots tz historicalDate publications db =
     insert_publication_snapshots (getConsistentDateForDB historicalDate)
       [r \<leftarrow> historical_overall_scores tz historicalDate db publications.
          fst r \<in> set publications]
       db"

subsection \<open>Topic rollups\<close>

text \<open>\<open>SELECT MAX(snapshot_date) FROM "PublicationSnapshot" WHERE snapshot_date <= consistentDate\<close>.\<close>

definition MAX_snapshot_date :: "publication_snapshot list \<Rightarrow> timestamp \<Rightarrow> timestamp option" where
  "MAX_snapshot_date tbl consistentDate =
     (case [ps_snapshot_date r. r \<leftarrow> tbl, ps_snapshot_date r \<le> consistentDate] of
        [] \<Rightarrow> None
      | d # ds \<Rightarrow> Some (Max (set (d # ds))))"

definition days_in_month :: "int \<Rightarrow> int \<Rightarrow> int" where
  "days_in_month l mn =
     (if mn = 1 then 28 + l else if mn = 3 \<or> mn = 5 \<or> mn = 8 \<or> mn = 10 then 30 else 31)"

text \<open>\<open>t - INTERVAL 'n years'\<close> in a session in UTC: the same month, day and time of day \<open>n\<close>
  years earlier, with the day cut to the length of the month. The statement writes the
  interval as \<open>INTERVAL '${RECENT_YEARS} years'\<close>; it is read as \<open>INTERVAL '2 years'\<close>.\<close>

definition minus_years :: "timestamp \<Rightarrow> int \<Rightarrow> timestamp" where
  "minus_years t n =
     (let y = YearFromTime t - n; m = MonthFromTime t;
          l = (if DaysInYear y = 366 then 1 else 0);
          d = min (DateFromTime t) (days_in_month l m)
      in MakeDate (MakeDay y m d) (TimeWithinDay t))"

definition RECENT_YEARS :: int where
  "RECENT_YEARS = 2"

record weighted_publication =
  wp_publication_id :: int
  wp_topic_id :: int
  wp_score :: real
  wp_recency_weight :: real
  wp_quality_weight :: real

text \<open>\<open>CASE WHEN p.date_published >= (ref - INTERVAL '2 years') THEN 1.5 ELSE 0.2 END\<close> and
  \<open>CASE WHEN ps.value >= 5.0 THEN 2 ELSE 0.5 END\<close>.\<close>

definition topic_recency_weight :: "timestamp option \<Rightarrow> timestamp \<Rightarrow> real" where
  "topic_recency_weight published ref =
     (if sql_ge published (minus_years ref RECENT_YEARS) then 1.5 else 0.2)"

definition topic_quality_weight :: "real \<Rightarrow> real" where
  "topic_quality_weight score = (if 5.0 \<le> score then 2 else 0.5)"

text \<open>The common table expression \<open>weighted_publications\<close> of \<open>calculateSimpleTopicAverages\<close>,
  and \<open>historical_weighted_publications\<close> of \<open>calculateEnhancedHistoricalTopicAverages\<close>,
  which also asks for \<open>p.date_published <= historicalDate\<close>.\<close>

definition weighted_publications :: "timestamp \<Rightarrow> timestamp \<Rightarrow> database \<Rightarrow> weighted_publication list" where
  "weighted_publications consistentDate pubSnapshotDate db =
     [\<lparr>wp_publication_id = pub_id p, wp_topic_id = pt_topic_id pt, wp_score = ps_value ps,
       wp_recency_weight = topic_recency_weight (date_published p) consistentDate,
       wp_quality_weight = topic_quality_weight (ps_value ps)\<rparr>.
        p \<leftarrow> Publication db,
        ps \<leftarrow> PublicationSnapshot db, pub_id p = ps_publication_id ps,
        pt \<leftarrow> PublicationTopic db, pub_id p = pt_publication_id pt,
        ps_snapshot_date ps = pubSnapshotDate]"

definition historical_weighted_publications :: "timestamp \<Rightarrow> timestamp \<Rightarrow> database \<Rightarrow> weighted_publication list" where
  "historical_weighted_publications historicalDate pubSnapshotDate db =
     [\<lparr>wp_publication_id = pub_id p, wp_topic_id = pt_topic_id pt, wp_score = ps_value ps,
       wp_recency_weight = topic_recency_weight (date_published p) historicalDate,
       wp_quality_weight = topic_quality_weight (ps_value ps)\<rparr>.
        p \<leftarrow> Publication db,
        ps \<leftarrow> PublicationSnapshot db, pub_id p = ps_publication_id ps,
        pt \<leftarrow> PublicationTopic db, pub_id p = pt_publication_id pt,
        ps_snapshot_date ps = pubSnapshotDate, sql_le (date_published p) historicalDate]"

text \<open>\<open>publication_counts\<close>: \<open>COUNT(*)\<close> per topic and the volume bonus.\<close>

definition volume_bonus :: "nat \<Rightarrow> real" where
  "volume_bonus pub_count =
     (if pub_count > 100 then 1.5 else if pub_count > 50 then 1.3
      else if pub_count > 10 then 1.1 else 1.0)"

text \<open>\<open>topic_scores\<close>: \<open>SUM(score * recency_weight * quality_weight) / SUM(recency_weight *
  quality_weight)\<close> over the rows of one topic. Both weights are positive, so the divisor
  of a group is not zero.\<close>

definition weighted_average :: "weighted_publication list \<Rightarrow> real" where
  "weighted_average rows =
     (\<Sum>wp \<leftarrow> rows. wp_score wp * wp_recency_weight wp * wp_quality_weight wp)
     / (\<Sum>wp \<leftarrow> rows. wp_recency_weight wp * wp_quality_weight wp)"

text \<open>The rows of \<open>INSERT INTO "TopicSnapshot" ... SELECT topic_id, consistentDate,
  weighted_average * volume_bonus FROM topic_scores WHERE pub_count >= 1\<close>.\<close>

definition topic_snapshot_rows :: "timestamp \<Rightarrow> weighted_publication list \<Rightarrow> topic_snapshot list" where
  "topic_snapshot_rows consistentDate wps =
     [\<lparr>ts_topic_id = t, ts_snapshot_date = consistentDate,
       ts_mean_value = weighted_average [wp \<leftarrow> wps. wp_topic_id wp = t]
                       * volume_bonus (length [wp \<leftarrow> wps. wp_topic_id wp = t])\<rparr>.
        t \<leftarrow> remdups (map wp_topic_id wps), length [wp \<leftarrow> wps. wp_topic_id wp = t] \<ge> 1]"

text \<open>The selected rows as the column \<open>mean_value\<close>, of type \<open>Decimal(10, 3)\<close>, stores them, and
  the insert with \<open>ON CONFLICT (topic_id, snapshot_date) DO UPDATE SET mean_value =
  EXCLUDED.mean_value\<close>.\<close>

definition stored_topic_rows :: "topic_snapshot list \<Rightarrow> db_error + topic_snapshot list" where
  "stored_topic_rows rows =
     (if \<exists>r \<in> set rows. numeric_field_overflow (ts_mean_value r)
      then Inl numeric_value_out_of_range
      else Inr (map (\<lambda>r. r\<lparr>ts_mean_value := decimal_10_3 (ts_mean_value r)\<rparr>) rows))"

definition insert_topic_snapshots :: "topic_snapshot list \<Rightarrow> database \<Rightarrow> db_error + database" where
  "insert_topic_snapshots rows db =
     (case stored_topic_rows rows of
        Inl err \<Rightarrow> Inl err
      | Inr stored \<Rightarrow>
          (case insert_on_conflict_update topic_snapshot_key (TopicSnapshot db) stored of
             Inl err \<Rightarrow> Inl err
           | Inr tbl \<Rightarrow> Inr (db\<lparr>TopicSnapshot := tbl\<rparr>)))"

definition calculateSimpleTopicAverages :: "timestamp \<Rightarrow> database \<Rightarrow> db_error + database" where
  "calculateSimpleTopicAverages snapshotDate db =
     (let consistentDate = getConsistentDateForDB snapshotDate
      in case MAX_snapshot_date (PublicationSnapshot db) consistentDate of
           None \<Rightarrow> Inr db
         | Some pubSnapshotDate \<Rightarrow>
             insert_topic_snapshots
               (topic_snapshot_rows consistentDate
                  (weighted_publications consistentDate pubSnapshotDate db))
               db)"

definition calculateEnhancedHistoricalTopicAverages :: "timestamp \<Rightarrow> database \<Rightarrow> db_error + database" where
  "calculateEnhancedHistoricalTopicAverages historicalDate db =
     (let consistentDate = getConsistentDateForDB historicalDate
      in case MAX_snapshot_date (PublicationSnapshot db) consistentDate of
           None \<Rightarrow> Inr db
         | Some pubSnapshotDate \<Rightarrow>
             insert_topic_snapshots
               (topic_snapshot_rows consistentDate
                  (historical_weighted_publications historicalDate pubSnapshotDate db))
               db)"

subsection \<open>Researcher rollups\<close>

text \<open>The months of \<open>AGE(d1::DATE, d2::DATE)\<close>, years times 12 plus months, for \<open>d2\<close> not after
  \<open>d1\<close> (the statements ask for \<open>p.date_published <= snapshotDate\<close>), in a session in UTC.
  \<open>age_months\<close> is this number and \<open>age_years\<close>, years plus months / 12.0, is a twelfth of
  it.\<close>

definition AGE_months :: "timestamp \<Rightarrow> timestamp \<Rightarrow> int" where
  "AGE_months d1 d2 =
     (YearFromTime d1 * 12 + MonthFromTime d1) - (YearFromTime d2 * 12 + MonthFromTime d2)
     - (if DateFromTime d1 < DateFromTime d2 then 1 else 0)"

definition MATURITY_MONTHS :: int where "MATURITY_MONTHS = 24"
definition PEAK_YEARS :: real where "PEAK_YEARS = 3"
definition DECAY_HALF_LIFE :: real where "DECAY_HALF_LIFE = 5"
definition MIN_WEIGHT :: real where "MIN_WEIGHT = 0.2"
definition OLD_PAPER_MIN_WEIGHT :: real where "OLD_PAPER_MIN_WEIGHT = 0.1"
definition CITATION_BOOST_FACTOR :: real where "CITATION_BOOST_FACTOR = 0.3"
definition EXPECTED_CITATIONS_PER_YEAR :: real where "EXPECTED_CITATIONS_PER_YEAR = 2"

definition age_years :: "int \<Rightarrow> real" where
  "age_years age_months = real_of_int age_months / 12"

text \<open>The \<open>CASE\<close> expressions \<open>base_weight\<close> and \<open>citation_performance\<close> and the final \<open>weight\<close> of
  \<open>calculateSmartWeightedAverages\<close>.\<close>

definition base_weight :: "int \<Rightarrow> real" where
  "base_weight age_months =
     (if age_months \<le> MATURITY_MONTHS
      then MIN_WEIGHT + (1.0 - MIN_WEIGHT) * (real_of_int age_months / real_of_int MATURITY_MONTHS)
      else if age_years age_months \<le> PEAK_YEARS then 1.0
      else max OLD_PAPER_MIN_WEIGHT
             (0.5 powr ((age_years age_months - PEAK_YEARS) / DECAY_HALF_LIFE)))"

definition citation_performance :: "int \<Rightarrow> int \<Rightarrow> real" where
  "citation_performance age_months citation_count' =
     (if age_months = 0 then 0
      else min 1.0 (real_of_int citation_count'
                      / (age_years age_months * EXPECTED_CITATIONS_PER_YEAR)))"

definition smart_weight :: "int \<Rightarrow> int \<Rightarrow> real" where
  "smart_weight age_months citation_count' =
     min 1.0 (base_weight age_months
              + CITATION_BOOST_FACTOR * citation_performance age_months citation_count'
                * base_weight age_months)"

record smart_weighted_publication =
  swp_id :: int
  swp_original_value :: real
  swp_weight :: real

text \<open>\<open>COUNT(c.id) FILTER (WHERE c.author_sc = false)\<close> over the citations joined with
  \<open>c.creation_date <= snapshotDate\<close>.\<close>

definition counted_citations :: "timestamp \<Rightarrow> database \<Rightarrow> publication \<Rightarrow> int" where
  "counted_citations snapshotDate db p =
     int (length [c \<leftarrow> Citation db. cit_publication_id c = pub_id p
                    \<and> sql_le (creation_date c) snapshotDate \<and> author_sc c = Some False])"

text \<open>The temporary table of \<open>calculateSmartWeightedAverages\<close> with the score source
  \<open>PublicationSnapshot\<close> and without a publication filter, as \<open>processUserSnapshots\<close> calls
  it: one row per publication and snapshot row of the date (the publication id and the
  pair of publication and date are unique, so a group is one joined pair).\<close>

definition smart_weighted_publications :: "timestamp \<Rightarrow> database \<Rightarrow> smart_weighted_publication list" where
  "smart_weighted_publications snapshotDate db =
     [\<lparr>swp_id = pub_id p, swp_original_value = ps_value ps,
       swp_weight = smart_weight (AGE_months snapshotDate published)
                      (counted_citations snapshotDate db p)\<rparr>.
        p \<leftarrow> Publication db,
        ps \<leftarrow> PublicationSnapshot db,
        pub_id p = ps_publication_id ps \<and> ps_snapshot_date ps = snapshotDate,
        published \<leftarrow> not_null (date_published p), published \<le> snapshotDate]"

text \<open>\<open>SUM(swp.original_value * swp.weight) / NULLIF(SUM(swp.weight), 0)\<close>; a weight is positive,
  so the divisor of a group is not zero.\<close>

definition smart_mean :: "smart_weighted_publication list \<Rightarrow> real" where
  "smart_mean rows =
     (\<Sum>r \<leftarrow> rows. swp_original_value r * swp_weight r) / (\<Sum>r \<leftarrow> rows. swp_weight r)"

definition user_topic_snapshot_rows :: "timestamp \<Rightarrow> smart_weighted_publication list \<Rightarrow> database \<Rightarrow> user_topic_snapshot list" where
  "user_topic_snapshot_rows consistentDate swps db =
     (let joined = [((pu_user_id pu, pt_topic_id pt), swp).
                      swp \<leftarrow> swps,
                      pu \<leftarrow> PublicationUser db, swp_id swp = pu_publication_id pu,
                      pt \<leftarrow> PublicationTopic db, swp_id swp = pt_publication_id pt]
      in [\<lparr>uts_user_id = fst g, uts_topic_id = snd g, uts_snapshot_date = consistentDate,
            uts_mean_value = smart_mean [snd j. j \<leftarrow> joined, fst j = g]\<rparr>.
            g \<leftarrow> remdups (map fst joined)])"

definition user_overall_snapshot_rows :: "timestamp \<Rightarrow> smart_weighted_publication list \<Rightarrow> database \<Rightarrow> user_overall_snapshot list" where
  "user_overall_snapshot_rows consistentDate swps db =
     (let joined = [(pu_user_id pu, swp).
                      swp \<leftarrow> swps,
                      pu \<leftarrow> PublicationUser db, swp_id swp = pu_publication_id pu]
      in [\<lparr>uos_user_id = u, uos_snapshot_date = consistentDate,
            uos_mean_value = smart_mean [snd j. j \<leftarrow> joined, fst j = u]\<rparr>.
            u \<leftarrow> remdups (map fst joined)])"

text \<open>The two inserts of a researcher rollup, each storing its \<open>mean_value\<close> in a column of
  type \<open>Decimal(10, 3)\<close>, in one transaction.\<close>

definition stored_user_topic_rows :: "user_topic_snapshot list \<Rightarrow> db_error + user_topic_snapshot list" where
  "stored_user_topic_rows rows =
     (if \<exists>r \<in> set rows. numeric_field_overflow (uts_mean_value r)
      then Inl numeric_value_out_of_range
      else Inr (map (\<lambda>r. r\<lparr>uts_mean_value := decimal_10_3 (uts_mean_value r)\<rparr>) rows))"

definition stored_user_overall_rows :: "user_overall_snapshot list \<Rightarrow> db_error + user_overall_snapshot list" where
  "stored_user_overall_rows rows =
     (if \<exists>r \<in> set rows. numeric_field_overflow (uos_mean_value r)
      then Inl numeric_value_out_of_range
      else Inr (map (\<lambda>r. r\<lparr>uos_mean_value := decimal_10_3 (uos_mean_value r)\<rparr>) rows))"

definition insert_user_topic_snapshots :: "user_topic_snapshot list \<Rightarrow> user_topic_snapshot list \<Rightarrow> db_error + user_topic_snapshot list" where
  "insert_user_topic_snapshots tbl rows =
     (case stored_user_topic_rows rows of
        Inl err \<Rightarrow> Inl err
      | Inr stored \<Rightarrow> insert_on_conflict_update user_topic_snapshot_key tbl stored)"

definition insert_user_overall_snapshots :: "user_overall_snapshot list \<Rightarrow> user_overall_snapshot list \<Rightarrow> db_error + user_overall_snapshot list" where
  "insert_user_overall_snapshots tbl rows =
     (case stored_user_overall_rows rows of
        Inl err \<Rightarrow> Inl err
      | Inr stored \<Rightarrow> insert_on_conflict_update user_overall_snapshot_key tbl stored)"

definition insert_user_snapshots :: "user_topic_snapshot list \<Rightarrow> user_overall_snapshot list \<Rightarrow> database \<Rightarrow> db_error + database" where
  "insert_user_snapshots topic_rows overall_rows db =
     (case insert_user_topic_snapshots (UserTopicSnapshot db) topic_rows of
        Inl err \<Rightarrow> Inl err
      | Inr topic_tbl \<Rightarrow>
          (case insert_user_overall_snapshots (UserOverallSnapshot db) overall_rows of
             Inl err \<Rightarrow> Inl err
           | Inr overall_tbl \<Rightarrow>
               Inr (db\<lparr>UserTopicSnapshot := topic_tbl, UserOverallSnapshot := overall_tbl\<rparr>)))"

definition processUserSnapshots :: "timestamp \<Rightarrow> database \<Rightarrow> db_error + database" where
  "processUserSnapshots snapshotDate db =
     (let consistentDate = getConsistentDateForDB snapshotDate
      in case MAX_snapshot_date (PublicationSnapshot db) consistentDate of
           None \<Rightarrow> Inr db
         | Some pubSnapshotDate \<Rightarrow>
             (let swps = smart_weighted_publications pubSnapshotDate db
              in insert_user_snapshots (user_topic_snapshot_rows consistentDate swps db)
                   (user_overall_snapshot_rows consistentDate swps db) db))"

text \<open>\<open>processHistoricalUserSnapshots\<close>: the temporary table
  \<open>historical_user_weighted_publications\<close>, with the weights
  \<open>CASE WHEN p.date_published >= (historicalDate - INTERVAL '2 years') THEN 1.5 ELSE 1.0 END\<close>
  and \<open>CASE WHEN ps.value >= 5.0 THEN 1.3 ELSE 1.0 END\<close>, and the two inserts (a mean is
  never null, the weights being positive).\<close>

record historical_user_weighted_publication =
  huwp_id :: int
  huwp_score :: real
  huwp_user_id :: int
  huwp_topic_id :: int
  huwp_recency_weight :: real
  huwp_quality_weight :: real

definition historical_user_weighted_publications :: "timestamp \<Rightarrow> timestamp \<Rightarrow> database \<Rightarrow> historical_user_weighted_publication list" where
  "historical_user_weighted_publications historicalDate pubSnapshotDate db =
     [\<lparr>huwp_id = pub_id p, huwp_score = ps_value ps, huwp_user_id = pu_user_id pu,
       huwp_topic_id = pt_topic_id pt,
       huwp_recency_weight =
         (if sql_ge (date_published p) (minus_years historicalDate RECENT_YEARS) then 1.5 else 1.0),
       huwp_quality_weight = (if 5.0 \<le> ps_value ps then 1.3 else 1.0)\<rparr>.
        p \<leftarrow> Publication db,
        ps \<leftarrow> PublicationSnapshot db, pub_id p = ps_publication_id ps,
        pu \<leftarrow> PublicationUser db, pub_id p = pu_publication_id pu,
        pt \<leftarrow> PublicationTopic db, pub_id p = pt_publication_id pt,
        ps_snapshot_date ps = pubSnapshotDate, sql_le (date_published p) historicalDate]"

definition historical_user_mean :: "historical_user_weighted_publication list \<Rightarrow> real" where
  "historical_user_mean rows =
     (\<Sum>r \<leftarrow> rows. huwp_score r * huwp_recency_weight r * huwp_quality_weight r)
     / (\<Sum>r \<leftarrow> rows. huwp_recency_weight r * huwp_quality_weight r)"

definition historical_user_topic_snapshot_rows :: "timestamp \<Rightarrow> historical_user_weighted_publication list \<Rightarrow> user_topic_snapshot list" where
  "historical_user_topic_snapshot_rows consistentDate rows =
     [\<lparr>uts_user_id = fst g, uts_topic_id = snd g, uts_snapshot_date = consistentDate,
       uts_mean_value =
         historical_user_mean [r \<leftarrow> rows. (huwp_user_id r, huwp_topic_id r) = g]\<rparr>.
        g \<leftarrow> remdups [(huwp_user_id r, huwp_topic_id r). r \<leftarrow> rows]]"

definition historical_user_overall_snapshot_rows :: "timestamp \<Rightarrow> historical_user_weighted_publication list \<Rightarrow> user_overall_snapshot list" where
  "historical_user_overall_snapshot_rows consistentDate rows =
     [\<lparr>uos_user_id = u, uos_snapshot_date = consistentDate,
       uos_mean_value = historical_user_mean [r \<leftarrow> rows. huwp_user_id r = u]\<rparr>.
        u \<leftarrow> remdups (map huwp_user_id rows)]"

definition processHistoricalUserSnapshots :: "timestamp \<Rightarrow> database \<Rightarrow> db_error + database" where
  "processHistoricalUserSnapshots historicalDate db =
     (let consistentDate = getConsistentDateForDB historicalDate
      in case MAX_snapshot_date (PublicationSnapshot db) consistentDate of
           None \<Rightarrow> Inr db
         | Some pubSnapshotDate \<Rightarrow>
             (let rows = historical_user_weighted_publications historicalDate pubSnapshotDate db
              in insert_user_snapshots (historical_user_topic_snapshot_rows consistentDate rows)
                   (historical_user_overall_snapshot_rows consistentDate rows) db))"

subsection \<open>The generator\<close>

text \<open>A transaction that fails leaves the database as it was and ends the run with its
  error; the transactions before it stay committed.\<close>

definition transaction :: "(database \<Rightarrow> db_error + database) \<Rightarrow> database \<times> db_error option \<Rightarrow> database \<times> db_error option" where
  "transaction f s =
     (case s of
        (db, Some err) \<Rightarrow> (db, Some err)
      | (db, None) \<Rightarrow> (case f db of Inl err \<Rightarrow> (db, Some err) | Inr db' \<Rightarrow> (db', None)))"

text \<open>\<open>createSnapshots\<close>: the date at midnight UTC, then three transactions.\<close>

definition createSnapshots :: "timestamp \<Rightarrow> database \<Rightarrow> database \<times> db_error option" where
  "createSnapshots currentDate db =
     (let normalizedDate = setUTCHours_0 currentDate
      in transaction (processUserSnapshots normalizedDate)
           (transaction (calculateSimpleTopicAverages normalizedDate)
              (transaction (processPublicationSnapshots normalizedDate) (db, None))))"

text \<open>\<open>createHistoricalSnapshots\<close>, one attempt of its retry loop (the attempts compute the
  same rows).\<close>

definition createHistoricalSnapshots :: "int \<Rightarrow> timestamp \<Rightarrow> int list \<Rightarrow> database \<Rightarrow> database \<times> db_error option" where
  "createHistoricalSnapshots tz historicalDate publications db =
     transaction (processHistoricalUserSnapshots historicalDate)
       (transaction (calculateEnhancedHistoricalTopicAverages historicalDate)
          (transaction (createHistoricalPublicationSnapshots tz historicalDate publications)
             (db, None)))"

section \<open>Notions used in the statements\<close>

text \<open>The database with only the citations that satisfy \<open>P\<close>, and the database without the
  rows flagged as self-citations.\<close>

definition restrict_citations :: "(citation \<Rightarrow> bool) \<Rightarrow> database \<Rightarrow> database" where
  "restrict_citations P db = db\<lparr>Citation := filter P (Citation db)\<rparr>"

definition without_self_citations :: "database \<Rightarrow> database" where
  "without_self_citations db = restrict_citations (\<lambda>c. author_sc c \<noteq> Some True) db"

text \<open>\<open>COALESCE(SUM(...), 0)\<close>: the sum with nulls read as 0.\<close>

definition coalesced_sum :: "real option list \<Rightarrow> real" where
  "coalesced_sum ts = sum_list (map (\<lambda>t. COALESCE t 0) ts)"




section \<open>Example data\<close>

definition example_publication :: "int \<Rightarrow> int \<Rightarrow> publication" where
  "example_publication i c =
     \<lparr>pub_id = i, submission_id = i, conference = None, review_score = None, overall_score = None,
      citation_count = Some c, date_published = None\<rparr>"

definition example_database :: "publication list \<Rightarrow> publication_user list \<Rightarrow> user list \<Rightarrow> database" where
  "example_database ps pus us =
     \<lparr>Publication = ps, PublicationUser = pus, PublicationTopic = [], User = us, Event = [],
      Citation = [], DecayLookup = [], PublicationSnapshot = [], TopicSnapshot = [],
      UserTopicSnapshot = [], UserOverallSnapshot = []\<rparr>"

definition five_publications :: database where
  "five_publications =
     example_database
       [example_publication 1 5, example_publication 2 10, example_publication 3 3,
        example_publication 4 8, example_publication 5 4]
       (map (\<lambda>i. \<lparr>pu_publication_id = i, pu_user_id = 7\<rparr>) [1, 2, 3, 4, 5])
       [\<lparr>user_id = 7, h_index = Some 0\<rparr>]"

definition many_publications :: database where
  "many_publications =
     example_database
       (map (\<lambda>i. example_publication (int i) (150 + int i)) [0..<150])
       (map (\<lambda>i. \<lparr>pu_publication_id = int i, pu_user_id = 7\<rparr>) [0..<150])
       [\<lparr>user_id = 7, h_index = Some 0\<rparr>]"

definition stale_database :: database where
  "stale_database =
     (example_database [example_publication 1 0] [\<lparr>pu_publication_id = 1, pu_user_id = 7\<rparr>]
        [\<lparr>user_id = 7, h_index = Some 5\<rparr>])
     \<lparr>Event := [\<lparr>lisperator_id = Some 3, conference_value = Some 42\<rparr>]\<rparr>"

text \<open>One venue whose two authors have h-indexes 2 and 4, and one publication in it with
  review score 4.5, published twelve hours before \<open>NOW()\<close>, with two citations that are
  not self-citations and are six hours old.\<close>

definition scenario :: database where
  "scenario =
     \<lparr>Publication =
        [\<lparr>pub_id = 1, submission_id = 1, conference = Some 10, review_score = Some 4.5,
          overall_score = Some 0, citation_count = Some 2, date_published = Some 1717200000000\<rparr>],
      PublicationUser =
        [\<lparr>pu_publication_id = 1, pu_user_id = 7\<rparr>, \<lparr>pu_publication_id = 1, pu_user_id = 8\<rparr>],
      PublicationTopic = [],
      User = [\<lparr>user_id = 7, h_index = Some 2\<rparr>, \<lparr>user_id = 8, h_index = Some 4\<rparr>],
      Event = [\<lparr>lisperator_id = Some 10, conference_value = Some 0\<rparr>],
      Citation =
        [\<lparr>cit_publication_id = 1, oci = ''a'', creation_date = Some 1717221600000,
          author_sc = Some False\<rparr>,
         \<lparr>cit_publication_id = 1, oci = ''b'', creation_date = Some 1717221600000,
          author_sc = Some False\<rparr>],
      DecayLookup = seedDecayLookup [],
      PublicationSnapshot = [], TopicSnapshot = [], UserTopicSnapshot = [],
      UserOverallSnapshot = []\<rparr>"

definition scenario_clock :: clock where
  "scenario_clock = \<lparr>NOW = 1717243200000, CURRENT_DATE = 1717200000000\<rparr>"

definition scenario_clock_B :: clock where
  "scenario_clock_B = \<lparr>NOW = 1717243200250, CURRENT_DATE = 1717200000000\<rparr>"

text \<open>A fetched citation list with five entries, two of them self-citations, for a new
  entry; and the scenario's database with two more citations, flagged as self-citations.\<close>

definition fetched_five :: "OCitRecord list" where
  "fetched_five =
     [\<lparr>oc_oci = ''o1'', oc_creation = Some 1717221600000, oc_author_sc = ''no''\<rparr>,
      \<lparr>oc_oci = ''o2'', oc_creation = Some 1717221600000, oc_author_sc = ''yes''\<rparr>,
      \<lparr>oc_oci = ''o3'', oc_creation = Some 1717221600000, oc_author_sc = ''no''\<rparr>,
      \<lparr>oc_oci = ''o4'', oc_creation = None, oc_author_sc = ''yes''\<rparr>,
      \<lparr>oc_oci = ''o5'', oc_creation = Some 1717221600000, oc_author_sc = ''no''\<rparr>]"

definition new_entry :: PublicationRow where
  "new_entry =
     \<lparr>row_submission_id = 2, row_doi = Some ''10.4108/x'', row_conference = Some 10,
      row_review_score = Some 4, row_date_published = Some 1717200000000\<rparr>"

definition scenario_with_self_citations :: database where
  "scenario_with_self_citations =
     scenario\<lparr>Citation := Citation scenario @
       [\<lparr>cit_publication_id = 1, oci = ''c'', creation_date = Some 1717221600000,
         author_sc = Some True\<rparr>,
        \<lparr>cit_publication_id = 1, oci = ''d'', creation_date = Some 1717221600000,
         author_sc = Some True\<rparr>]\<rparr>"

text \<open>Three researchers: one with two cited publications, one whose only publication has
  no citation, and one with three cited publications, one of them shared.\<close>

definition three_researchers :: database where
  "three_researchers =
     example_database
       [example_publication 1 5, example_publication 2 10, example_publication 3 0,
        example_publication 4 8, example_publication 5 4]
       [\<lparr>pu_publication_id = 1, pu_user_id = 7\<rparr>, \<lparr>pu_publication_id = 2, pu_user_id = 7\<rparr>,
        \<lparr>pu_publication_id = 3, pu_user_id = 8\<rparr>, \<lparr>pu_publication_id = 2, pu_user_id = 9\<rparr>,
        \<lparr>pu_publication_id = 4, pu_user_id = 9\<rparr>, \<lparr>pu_publication_id = 5, pu_user_id = 9\<rparr>]
       [\<lparr>user_id = 7, h_index = Some 0\<rparr>, \<lparr>user_id = 8, h_index = Some 6\<rparr>,
        \<lparr>user_id = 9, h_index = None\<rparr>]"

text \<open>The scenario with the venue value \<open>v\<close> stored.\<close>

definition scenario_at :: "real \<Rightarrow> database" where
  "scenario_at v = scenario\<lparr>Event := [\<lparr>lisperator_id = Some 10, conference_value = Some v\<rparr>]\<rparr>"

text \<open>The scenario with venue value 3 and the two flagged citations, and the scenario's
  publication as the update job reads it.\<close>

definition scored_scenario_with_self_citations :: database where
  "scored_scenario_with_self_citations =
     (scenario_at 3)\<lparr>Citation := Citation scenario_with_self_citations\<rparr>"

definition scenario_publication :: ExistingPublication where
  "scenario_publication = \<lparr>ex_id = 1, ex_doi = Some ''10.4108/y'', ex_citation_count = Some 2\<rparr>"



chapter \<open>Properties\<close>

section \<open>Decay table\<close>

lemma createMany_skipDuplicates_fresh:
  "distinct (map key rs) \<Longrightarrow> key ` set rs \<inter> key ` set tbl = {} \<Longrightarrow>
   createMany_skipDuplicates key tbl rs = tbl @ rs"
proof (induction rs arbitrary: tbl)
  case Nil
  then show ?case by simp
next
  case (Cons r rs)
  have fresh: "key r \<notin> key ` set tbl"
    using Cons.prems(2) by auto
  have rest: "key ` set rs \<inter> key ` set (tbl @ [r]) = {}"
    using Cons.prems by auto
  show ?case
    using fresh Cons.IH [OF _ rest] Cons.prems(1) by simp
qed

lemma decay_rows_for_map:
  "decay_rows_for (map (\<lambda>k. \<lparr>days = int k, decay_factor = g k\<rparr>) [0..<n]) d =
     (if 0 \<le> d \<and> d < int n then [\<lparr>days = d, decay_factor = g (nat d)\<rparr>] else [])"
proof (induction n)
  case 0
  then show ?case by (simp add: decay_rows_for_def)
next
  case (Suc n)
  then show ?case
    by (auto simp: decay_rows_for_def)
qed

lemma distinct_days_decay_entries: "distinct (map days decay_entries)"
proof -
  have "map days decay_entries = map int [0..<MAX_DAYS + 1]"
    by (simp add: decay_entries_def comp_def del: upt_Suc)
  then show ?thesis
    by (simp add: distinct_map inj_on_def del: upt_Suc)
qed

lemma seedDecayLookup_empty: "seedDecayLookup [] = decay_entries"
  unfolding seedDecayLookup_def
  using createMany_skipDuplicates_fresh [OF distinct_days_decay_entries, of "[]"] by simp

lemma decay_rows_for_seeded:
  "0 \<le> d \<Longrightarrow> d \<le> 10000 \<Longrightarrow>
   decay_rows_for (seedDecayLookup []) d =
     [\<lparr>days = d, decay_factor = 0.5 powr (real_of_int d / 365.242374)\<rparr>]"
  by (simp add: seedDecayLookup_empty decay_entries_def decay_rows_for_map MAX_DAYS_def HALF_LIFE_def)

lemma decayFactor_seeded:
  "0 \<le> d \<Longrightarrow> d \<le> 10000 \<Longrightarrow>
   decayFactor (seedDecayLookup []) d = Some (0.5 powr (real_of_int d / 365.242374))"
  by (simp add: decayFactor_def decay_rows_for_seeded)

lemma decayFactor_seeded_outside:
  "d < 0 \<or> 10000 < d \<Longrightarrow> decayFactor (seedDecayLookup []) d = None"
  by (auto simp add: decayFactor_def seedDecayLookup_empty decay_entries_def decay_rows_for_map MAX_DAYS_def)

text \<open>
  Claim C9. Seeding an empty \<open>DecayLookup\<close> table defines, for every integer \<open>d\<close> from 0 to
  10000, the factor \<open>0.5 ^ (d / 365.242374)\<close>; the factor for 0 days is 1, and the factor
  never grows with the number of days.
\<close>

theorem seeded_decay_table:
  "(\<forall>d. 0 \<le> d \<and> d \<le> 10000 \<longrightarrow>
      decayFactor (seedDecayLookup []) d = Some (0.5 powr (real_of_int d / 365.242374)))
   \<and> decayFactor (seedDecayLookup []) 0 = Some 1
   \<and> (\<forall>d1 d2. 0 \<le> d1 \<and> d1 < d2 \<and> d2 \<le> 10000 \<longrightarrow>
        (\<exists>f1 f2. decayFactor (seedDecayLookup []) d1 = Some f1
                \<and> decayFactor (seedDecayLookup []) d2 = Some f2 \<and> f2 \<le> f1))"
proof (intro conjI allI impI)
  fix d :: int
  assume "0 \<le> d \<and> d \<le> 10000"
  then show "decayFactor (seedDecayLookup []) d = Some (0.5 powr (real_of_int d / 365.242374))"
    by (simp add: decayFactor_seeded)
next
  show "decayFactor (seedDecayLookup []) 0 = Some 1"
    by (simp add: decayFactor_seeded)
next
  fix d1 d2 :: int
  assume h: "0 \<le> d1 \<and> d1 < d2 \<and> d2 \<le> 10000"
  have le: "real_of_int d1 / 365.242374 \<le> real_of_int d2 / 365.242374"
    using h by (simp add: divide_right_mono)
  have "(0.5::real) powr (real_of_int d2 / 365.242374) \<le> 0.5 powr (real_of_int d1 / 365.242374)"
    using le by (intro powr_mono') auto
  then show "\<exists>f1 f2. decayFactor (seedDecayLookup []) d1 = Some f1
                \<and> decayFactor (seedDecayLookup []) d2 = Some f2 \<and> f2 \<le> f1"
    using h by (simp add: decayFactor_seeded)
qed

theorem seeded_decay_table_witness:
  "decayFactor (seedDecayLookup []) 365 = Some (0.5 powr (365 / 365.242374))
   \<and> (\<exists>f1 f2. decayFactor (seedDecayLookup []) 0 = Some f1
            \<and> decayFactor (seedDecayLookup []) 365 = Some f2 \<and> f2 \<le> f1)"
proof -
  have a: "decayFactor (seedDecayLookup []) 365 = Some (0.5 powr (365 / 365.242374))"
    using seeded_decay_table [THEN conjunct1, rule_format, of 365] by simp
  have b: "\<exists>f1 f2. decayFactor (seedDecayLookup []) 0 = Some f1
            \<and> decayFactor (seedDecayLookup []) 365 = Some f2 \<and> f2 \<le> f1"
    using seeded_decay_table [THEN conjunct2, THEN conjunct2, rule_format, of 0 365] by simp
  show ?thesis using a b by blast
qed

section \<open>h-index\<close>

lemma set_qualifying_ranks:
  "set (qualifying_ranks (ROW_NUMBER xs)) =
     {r. 1 \<le> r \<and> r \<le> length xs \<and> sql_ge (xs ! (r - 1)) (int r)}"
proof -
  have "set (qualifying_ranks rows) = {r. \<exists>c. (r, c) \<in> set rows \<and> sql_ge c (int r)}" for rows
    by (auto simp: qualifying_ranks_def)
  then show ?thesis
    by (auto simp: ROW_NUMBER_def in_set_enumerate_eq)
qed

lemma HIndexPerUser_None:
  "HIndexPerUser db u = None \<longleftrightarrow>
     \<not> (\<exists>r. 1 \<le> r \<and> r \<le> length (ranked_counts db u)
            \<and> sql_ge (ranked_counts db u ! (r - 1)) (int r))"
proof -
  have "HIndexPerUser db u = None \<longleftrightarrow> set (qualifying_ranks (RankedPublications db u)) = {}"
    by (simp add: HIndexPerUser_def split: list.splits)
  then show ?thesis
    unfolding RankedPublications_def set_qualifying_ranks by blast
qed

lemma HIndexPerUser_Some:
  assumes "\<exists>r. 1 \<le> r \<and> r \<le> length (ranked_counts db u)
            \<and> sql_ge (ranked_counts db u ! (r - 1)) (int r)"
  shows "HIndexPerUser db u =
     Some (Max {r. 1 \<le> r \<and> r \<le> length (ranked_counts db u)
                 \<and> sql_ge (ranked_counts db u ! (r - 1)) (int r)})"
proof -
  obtain q qs where q: "qualifying_ranks (RankedPublications db u) = q # qs"
    using assms HIndexPerUser_None [of db u]
    by (cases "qualifying_ranks (RankedPublications db u)") (auto simp: HIndexPerUser_def)
  have "set (q # qs) = {r. 1 \<le> r \<and> r \<le> length (ranked_counts db u)
                 \<and> sql_ge (ranked_counts db u ! (r - 1)) (int r)}"
    using set_qualifying_ranks [of "ranked_counts db u"] q
    by (simp add: RankedPublications_def)
  then show ?thesis
    by (simp add: HIndexPerUser_def q)
qed

lemma mset_order_desc: "mset (order_desc cs) = mset cs"
proof -
  have "mset (map Some (non_null cs)) = mset (filter (\<lambda>c. c \<noteq> None) cs)"
    by (induction cs rule: non_null.induct) auto
  then have "mset (order_desc cs) =
      mset (filter (\<lambda>c. c = None) cs) + mset (filter (\<lambda>c. c \<noteq> None) cs)"
    by (simp add: order_desc_def)
  then show ?thesis
    by simp
qed

lemma sorted_order_desc:
  "sorted_wrt (\<lambda>a b. a = None \<or> (\<exists>x y. a = Some x \<and> b = Some y \<and> y \<le> x)) (order_desc cs)"
proof -
  have "sorted_wrt (\<lambda>x y. y \<le> x) (rev (sort (non_null cs)))"
    by (simp add: sorted_wrt_rev)
  then have "sorted_wrt (\<lambda>a b. a = None \<or> (\<exists>x y. a = Some x \<and> b = Some y \<and> y \<le> x))
               (map Some (rev (sort (non_null cs))))"
    by (simp add: sorted_wrt_map)
  moreover have "sorted_wrt (\<lambda>a b. a = None \<or> (\<exists>x y. a = Some x \<and> b = Some y \<and> y \<le> x))
               (filter (\<lambda>c. c = None) cs)"
    by (induction cs) auto
  ultimately show ?thesis
    by (simp add: order_desc_def sorted_wrt_append)
qed

lemma ranks_as_list:
  "{r. 1 \<le> r \<and> r \<le> n \<and> P r} = set (filter P [1..<Suc n])"
  by auto

lemma user_citation_counts_product:
  "user_citation_counts db u =
     map (\<lambda>(p, pu). citation_count p)
       (filter (\<lambda>(p, pu). pub_id p = pu_publication_id pu \<and> pu_user_id pu = u)
          (List.product (Publication db) (PublicationUser db)))"
proof -
  have inner: "concat (map (\<lambda>pu. if pub_id p = pu_publication_id pu
                              then if pu_user_id pu = u then [citation_count p] else [] else []) pus)
       = map (\<lambda>(p, pu). citation_count p)
           (filter (\<lambda>(p, pu). pub_id p = pu_publication_id pu \<and> pu_user_id pu = u)
              (map (Pair p) pus))" for p :: publication and pus :: "publication_user list"
    by (induction pus) simp_all
  have "concat (map (\<lambda>p. concat (map (\<lambda>pu. if pub_id p = pu_publication_id pu
                              then if pu_user_id pu = u then [citation_count p] else [] else []) pus)) ps)
       = map (\<lambda>(p, pu). citation_count p)
           (filter (\<lambda>(p, pu). pub_id p = pu_publication_id pu \<and> pu_user_id pu = u)
              (List.product ps pus))" for ps :: "publication list" and pus :: "publication_user list"
    by (induction ps) (simp_all add: inner)
  then show ?thesis
    by (simp add: user_citation_counts_def)
qed

text \<open>
  Claim C2. \<open>calculateUserHIndex\<close> ranks a researcher's publications, the rows of
  \<open>Publication\<close> joined with the researcher's rows of \<open>PublicationUser\<close>, by descending
  citation count. When some publication's citation count reaches its rank, the stored
  h-index becomes the largest such rank, capped at 100. When none does (no publication,
  or only publications without citations) the \<open>UPDATE\<close> has no row for the researcher
  and the stored h-index stays as it was; it is not set to 0.
\<close>

theorem calculateUserHIndex_largest_rank:
  assumes "i < length (User db)" and "u = user_id (User db ! i)"
    and "ranked = ranked_counts db u"
  shows "mset ranked =
           image_mset (\<lambda>(p, pu). citation_count p)
             (filter_mset (\<lambda>(p, pu). pub_id p = pu_publication_id pu \<and> pu_user_id pu = u)
                (mset (List.product (Publication db) (PublicationUser db))))
     \<and> sorted_wrt (\<lambda>a b. a = None \<or> (\<exists>x y. a = Some x \<and> b = Some y \<and> y \<le> x)) ranked
     \<and> h_index (User (calculateUserHIndex db) ! i) =
         (if \<exists>r. 1 \<le> r \<and> r \<le> length ranked \<and> sql_ge (ranked ! (r - 1)) (int r)
          then Some (min (int (Max {r. 1 \<le> r \<and> r \<le> length ranked
                                    \<and> sql_ge (ranked ! (r - 1)) (int r)})) 100)
          else h_index (User db ! i))"
proof (intro conjI)
  have "mset ranked = mset (user_citation_counts db u)"
    by (simp add: assms(3) ranked_counts_def mset_order_desc)
  then show "mset ranked =
           image_mset (\<lambda>(p, pu). citation_count p)
             (filter_mset (\<lambda>(p, pu). pub_id p = pu_publication_id pu \<and> pu_user_id pu = u)
                (mset (List.product (Publication db) (PublicationUser db))))"
    by (simp add: user_citation_counts_product)
  show "sorted_wrt (\<lambda>a b. a = None \<or> (\<exists>x y. a = Some x \<and> b = Some y \<and> y \<le> x)) ranked"
    unfolding assms(3) ranked_counts_def by (rule sorted_order_desc)
  show "h_index (User (calculateUserHIndex db) ! i) =
         (if \<exists>r. 1 \<le> r \<and> r \<le> length ranked \<and> sql_ge (ranked ! (r - 1)) (int r)
          then Some (min (int (Max {r. 1 \<le> r \<and> r \<le> length ranked
                                    \<and> sql_ge (ranked ! (r - 1)) (int r)})) 100)
          else h_index (User db ! i))"
  proof (cases "\<exists>r. 1 \<le> r \<and> r \<le> length ranked \<and> sql_ge (ranked ! (r - 1)) (int r)")
    case True
    then have "HIndexPerUser db u =
        Some (Max {r. 1 \<le> r \<and> r \<le> length ranked \<and> sql_ge (ranked ! (r - 1)) (int r)})"
      using HIndexPerUser_Some [of db u] assms(3) by simp
    then have "h_index (User (calculateUserHIndex db) ! i) =
        Some (min (int (Max {r. 1 \<le> r \<and> r \<le> length ranked
                                    \<and> sql_ge (ranked ! (r - 1)) (int r)})) 100)"
      using assms(1,2) by (simp add: calculateUserHIndex_def)
    then show ?thesis
      unfolding if_P [OF True] .
  next
    case False
    then have "HIndexPerUser db u = None"
      using HIndexPerUser_None [of db u] assms(3) by simp
    then have "h_index (User (calculateUserHIndex db) ! i) = h_index (User db ! i)"
      using assms(1,2) by (simp add: calculateUserHIndex_def)
    then show ?thesis
      unfolding if_not_P [OF False] .
  qed
qed


lemma ranked_five: "ranked_counts five_publications 7 = [Some 10, Some 8, Some 5, Some 4, Some 3]"
  by code_simp

lemma ranked_many: "ranked_counts many_publications 7 = map (\<lambda>i. Some (int i)) (rev [150..<300])"
  by code_simp

lemma ranked_three:
  "ranked_counts three_researchers 7 = [Some 10, Some 5]"
  "ranked_counts three_researchers 8 = [Some 0]"
  "ranked_counts three_researchers 9 = [Some 10, Some 8, Some 4]"
  by code_simp+

lemma users_three:
  "User three_researchers = [\<lparr>user_id = 7, h_index = Some 0\<rparr>, \<lparr>user_id = 8, h_index = Some 6\<rparr>,
        \<lparr>user_id = 9, h_index = None\<rparr>]"
  by (simp add: three_researchers_def example_database_def)

lemma max_ranks:
  "Max (set (filter (\<lambda>r. sql_ge ([Some 10, Some 8, Some 5, Some 4, Some 3] ! (r - 1)) (int r))
       [1..<Suc (length [Some 10, Some 8, Some 5, Some 4, Some (3::int)])])) = 4"
  "Max (set (filter (\<lambda>r. sql_ge ([Some 10, Some 5] ! (r - 1)) (int r))
       [1..<Suc (length [Some 10, Some (5::int)])])) = 2"
  "Max (set (filter (\<lambda>r. sql_ge ([Some 10, Some 8, Some 4] ! (r - 1)) (int r))
       [1..<Suc (length [Some 10, Some 8, Some (4::int)])])) = 3"
  by code_simp+

theorem calculateUserHIndex_largest_rank_witness:
  "h_index (User (calculateUserHIndex five_publications) ! 0) = Some 4
   \<and> h_index (User (calculateUserHIndex many_publications) ! 0) = Some 100
   \<and> map h_index (User (calculateUserHIndex three_researchers)) = [Some 2, Some 6, Some 3]"
proof (intro conjI)
  have i5: "0 < length (User five_publications)"
    by (simp add: five_publications_def example_database_def)
  have u5: "7 = user_id (User five_publications ! 0)"
    by (simp add: five_publications_def example_database_def)
  have q5: "\<exists>r. 1 \<le> r \<and> r \<le> length (ranked_counts five_publications 7)
      \<and> sql_ge (ranked_counts five_publications 7 ! (r - 1)) (int r)"
    unfolding ranked_five by (rule exI [of _ 1]) (simp add: sql_ge_def)
  show "h_index (User (calculateUserHIndex five_publications) ! 0) = Some 4"
    using calculateUserHIndex_largest_rank
      [OF i5 u5 refl, THEN conjunct2, THEN conjunct2, unfolded if_P [OF q5]]
    unfolding ranks_as_list ranked_five max_ranks by simp
  have i: "0 < length (User many_publications)"
    by (simp add: many_publications_def example_database_def)
  have u: "7 = user_id (User many_publications ! 0)"
    by (simp add: many_publications_def example_database_def)
  have q: "\<exists>r. 1 \<le> r \<and> r \<le> length (ranked_counts many_publications 7)
      \<and> sql_ge (ranked_counts many_publications 7 ! (r - 1)) (int r)"
    unfolding ranked_many by (rule exI [of _ 1]) (simp add: sql_ge_def rev_nth)
  let ?S = "{r. 1 \<le> r \<and> r \<le> length (ranked_counts many_publications 7)
      \<and> sql_ge (ranked_counts many_publications 7 ! (r - 1)) (int r)}"
  have "100 \<in> ?S"
    unfolding ranked_many by (simp add: sql_ge_def rev_nth)
  moreover have "finite ?S"
    by simp
  ultimately have "100 \<le> Max ?S"
    by (rule Max_ge [rotated])
  then show "h_index (User (calculateUserHIndex many_publications) ! 0) = Some 100"
    using calculateUserHIndex_largest_rank
      [OF i u refl, THEN conjunct2, THEN conjunct2, unfolded if_P [OF q]]
    by simp
  have l: "length (User (calculateUserHIndex three_researchers)) = 3"
    by (simp add: calculateUserHIndex_def users_three)
  have i3: "0 < length (User three_researchers)" "1 < length (User three_researchers)"
    "2 < length (User three_researchers)"
    by (simp_all add: users_three)
  have u3: "7 = user_id (User three_researchers ! 0)" "8 = user_id (User three_researchers ! 1)"
    "9 = user_id (User three_researchers ! 2)"
    by (simp_all add: users_three)
  have q7: "\<exists>r. 1 \<le> r \<and> r \<le> length (ranked_counts three_researchers 7)
      \<and> sql_ge (ranked_counts three_researchers 7 ! (r - 1)) (int r)"
    unfolding ranked_three by (rule exI [of _ 1]) (simp add: sql_ge_def)
  have q8: "\<not> (\<exists>r. 1 \<le> r \<and> r \<le> length (ranked_counts three_researchers 8)
      \<and> sql_ge (ranked_counts three_researchers 8 ! (r - 1)) (int r))"
    unfolding ranked_three by (auto simp add: sql_ge_def)
  have q9: "\<exists>r. 1 \<le> r \<and> r \<le> length (ranked_counts three_researchers 9)
      \<and> sql_ge (ranked_counts three_researchers 9 ! (r - 1)) (int r)"
    unfolding ranked_three by (rule exI [of _ 1]) (simp add: sql_ge_def)
  have h0: "h_index (User (calculateUserHIndex three_researchers) ! 0) = Some 2"
    using calculateUserHIndex_largest_rank
      [OF i3(1) u3(1) refl, THEN conjunct2, THEN conjunct2, unfolded if_P [OF q7]]
    unfolding ranks_as_list ranked_three max_ranks by simp
  have h1: "h_index (User (calculateUserHIndex three_researchers) ! 1) = Some 6"
    using calculateUserHIndex_largest_rank
      [OF i3(2) u3(2) refl, THEN conjunct2, THEN conjunct2, unfolded if_not_P [OF q8]]
    by (simp add: users_three)
  have h2: "h_index (User (calculateUserHIndex three_researchers) ! 2) = Some 3"
    using calculateUserHIndex_largest_rank
      [OF i3(3) u3(3) refl, THEN conjunct2, THEN conjunct2, unfolded if_P [OF q9]]
    unfolding ranks_as_list ranked_three max_ranks by simp
  show "map h_index (User (calculateUserHIndex three_researchers)) = [Some 2, Some 6, Some 3]"
    using l h0 h1 h2
    by (auto simp add: list_eq_iff_nth_eq less_Suc_eq numeral_3_eq_3 numeral_2_eq_2)
qed

text \<open>
  A researcher whose only publication has no citation: no rank qualifies, and the stored
  h-index 6 is still there after the run.
\<close>

theorem calculateUserHIndex_without_qualifying_rank:
  "ranked_counts three_researchers 8 = [Some 0]
   \<and> {r. 1 \<le> r \<and> r \<le> length (ranked_counts three_researchers 8)
          \<and> sql_ge (ranked_counts three_researchers 8 ! (r - 1)) (int r)} = {}
   \<and> user_id (User three_researchers ! 1) = 8
   \<and> h_index (User (calculateUserHIndex three_researchers) ! 1) = Some 6"
proof -
  have "HIndexPerUser three_researchers 8 = None"
    unfolding HIndexPerUser_None ranked_three by (auto simp add: sql_ge_def)
  then have "h_index (User (calculateUserHIndex three_researchers) ! 1) = Some 6"
    by (simp add: calculateUserHIndex_def users_three)
  then show ?thesis
    by (auto simp add: ranked_three users_three sql_ge_def)
qed

section \<open>Frame of the recalculation\<close>

lemma set_not_null: "set (not_null a) = {x. a = Some x}"
  by (cases a) (auto simp: not_null_def)

lemma set_user_confs:
  "set (user_confs db) =
     {(k, uid). \<exists>p \<in> set (Publication db). \<exists>pu \<in> set (PublicationUser db).
         pub_id p = pu_publication_id pu \<and> conference p = Some k \<and> pu_user_id pu = uid}"
  unfolding user_confs_def by (simp add: set_not_null) blast

lemma conference_h_indexes_empty:
  "conference_h_indexes db k = [] \<longleftrightarrow>
     \<not> (\<exists>p \<in> set (Publication db). \<exists>pu \<in> set (PublicationUser db). \<exists>u \<in> set (User db).
           conference p = Some k \<and> pub_id p = pu_publication_id pu \<and> pu_user_id pu = user_id u)"
proof -
  have "set (conference_h_indexes db k) =
      {h_index u | u uid. (k, uid) \<in> set (user_confs db) \<and> u \<in> set (User db) \<and> uid = user_id u}"
    by (auto simp: conference_h_indexes_def)
  then have "set (conference_h_indexes db k) = {} \<longleftrightarrow>
      \<not> (\<exists>u uid. (k, uid) \<in> set (user_confs db) \<and> u \<in> set (User db) \<and> uid = user_id u)"
    by (simp only: Collect_empty_eq) blast
  then have "conference_h_indexes db k = [] \<longleftrightarrow>
      \<not> (\<exists>u uid. (k, uid) \<in> set (user_confs db) \<and> u \<in> set (User db) \<and> uid = user_id u)"
    by simp
  then show ?thesis
    unfolding set_user_confs by auto
qed

text \<open>
  Claim C10. Recomputing the metrics leaves stale values in place: \<open>calculateUserHIndex\<close>
  does not change the row of a user who has no publication whose citation count reaches
  its rank, and \<open>calculateConferenceValue\<close> does not change the row of a venue that has no
  publication with an author row joined to a user.
\<close>

theorem recalculation_keeps_stale_values:
  "(i < length (User db)
      \<and> \<not> (\<exists>r. 1 \<le> r \<and> r \<le> length (ranked_counts db (user_id (User db ! i)))
               \<and> sql_ge (ranked_counts db (user_id (User db ! i)) ! (r - 1)) (int r))
      \<longrightarrow> User (calculateUserHIndex db) ! i = User db ! i)
   \<and> (j < length (Event db)
      \<and> \<not> (\<exists>p \<in> set (Publication db). \<exists>pu \<in> set (PublicationUser db). \<exists>u \<in> set (User db).
             sql_eq (conference p) (lisperator_id (Event db ! j))
             \<and> pub_id p = pu_publication_id pu \<and> pu_user_id pu = user_id u)
      \<longrightarrow> Event (calculateConferenceValue db) ! j = Event db ! j)"
proof (intro conjI impI)
  assume h: "i < length (User db)
      \<and> \<not> (\<exists>r. 1 \<le> r \<and> r \<le> length (ranked_counts db (user_id (User db ! i)))
               \<and> sql_ge (ranked_counts db (user_id (User db ! i)) ! (r - 1)) (int r))"
  then have "HIndexPerUser db (user_id (User db ! i)) = None"
    using HIndexPerUser_None [of db "user_id (User db ! i)"] by blast
  then show "User (calculateUserHIndex db) ! i = User db ! i"
    using h by (simp add: calculateUserHIndex_def)
next
  assume h: "j < length (Event db)
      \<and> \<not> (\<exists>p \<in> set (Publication db). \<exists>pu \<in> set (PublicationUser db). \<exists>u \<in> set (User db).
             sql_eq (conference p) (lisperator_id (Event db ! j))
             \<and> pub_id p = pu_publication_id pu \<and> pu_user_id pu = user_id u)"
  show "Event (calculateConferenceValue db) ! j = Event db ! j"
  proof (cases "lisperator_id (Event db ! j)")
    case None
    then show ?thesis
      using h by (simp add: calculateConferenceValue_def)
  next
    case (Some k)
    have "conference_h_indexes db k = []"
      unfolding conference_h_indexes_empty using h Some by (auto simp: sql_eq_def)
    then have "averages db k = None"
      by (simp add: averages_def)
    then show ?thesis
      using h Some by (simp add: calculateConferenceValue_def)
  qed
qed

theorem recalculation_keeps_stale_values_witness:
  "h_index (User (calculateUserHIndex stale_database) ! 0) = Some 5
   \<and> conference_value (Event (calculateConferenceValue stale_database) ! 0) = Some 42"
proof -
  have r: "ranked_counts stale_database 7 = [Some 0]"
    by code_simp
  have u: "User stale_database = [\<lparr>user_id = 7, h_index = Some 5\<rparr>]"
    and e: "Event stale_database = [\<lparr>lisperator_id = Some 3, conference_value = Some 42\<rparr>]"
    and p: "Publication stale_database = [example_publication 1 0]"
    by (simp_all add: stale_database_def example_database_def)
  have "User (calculateUserHIndex stale_database) ! 0 = User stale_database ! 0"
    using recalculation_keeps_stale_values [of 0 stale_database, THEN conjunct1]
    by (simp add: u r sql_ge_def)
  moreover have "Event (calculateConferenceValue stale_database) ! 0 = Event stale_database ! 0"
    using recalculation_keeps_stale_values [of _ stale_database 0, THEN conjunct2]
    by (simp add: e p example_publication_def sql_eq_def)
  ultimately show ?thesis
    by (simp add: u e)
qed

section \<open>Overall score\<close>

lemma concat_map_if:
  "concat (map (\<lambda>x. if P x then g x else []) xs) = concat (map g (filter P xs))"
  by (induction xs) auto

lemma filter_key_nth:
  "distinct (map f xs) \<Longrightarrow> i < length xs \<Longrightarrow> filter (\<lambda>x. f x = f (xs ! i)) xs = [xs ! i]"
proof (induction xs arbitrary: i)
  case Nil
  then show ?case by simp
next
  case (Cons x xs)
  have fresh: "f x \<notin> f ` set xs"
    using Cons.prems(1) by simp
  show ?case
  proof (cases i)
    case 0
    have "\<forall>y \<in> set xs. f y \<noteq> f x"
      using fresh by (metis imageI)
    then have "filter (\<lambda>y. f y = f x) xs = []"
      by (simp add: filter_empty_conv)
    then show ?thesis using 0 by simp
  next
    case (Suc j)
    have "xs ! j \<in> set xs"
      using Cons.prems(2) Suc by simp
    then have "f x \<noteq> f (xs ! j)"
      using fresh by (metis imageI)
    then show ?thesis
      using Suc Cons.IH [of j] Cons.prems by simp
  qed
qed

lemma set_non_null: "set (non_null ys) = {x. Some x \<in> set ys}"
  by (induction ys rule: non_null.induct) auto

lemma filter_event_key:
  "distinct (non_null (map lisperator_id es)) \<Longrightarrow> e \<in> set es \<Longrightarrow> lisperator_id e = Some k \<Longrightarrow>
   filter (\<lambda>e'. sql_eq (Some k) (lisperator_id e')) es = [e]"
proof (induction es)
  case Nil
  then show ?case by simp
next
  case (Cons x es)
  show ?case
  proof (cases "lisperator_id x = Some k")
    case True
    have "k \<notin> set (non_null (map lisperator_id es))"
      using Cons.prems(1) True by simp
    then have none: "\<forall>y \<in> set es. lisperator_id y \<noteq> Some k"
      unfolding set_non_null by force
    then have "filter (\<lambda>e'. sql_eq (Some k) (lisperator_id e')) es = []"
      by (auto simp: filter_empty_conv sql_eq_def split: option.splits)
    moreover have "e = x"
      using Cons.prems(2,3) none by auto
    ultimately show ?thesis
      using True by (simp add: sql_eq_def)
  next
    case False
    have d: "distinct (non_null (map lisperator_id es))"
      using Cons.prems(1) by (cases "lisperator_id x") auto
    have "e \<in> set es"
      using Cons.prems(2,3) False by auto
    then show ?thesis
      using Cons.IH [OF d _ Cons.prems(3)] False by (auto simp: sql_eq_def split: option.splits)
  qed
qed

lemma decay_rows_for_distinct:
  "distinct (map days tbl) \<Longrightarrow>
   decay_rows_for tbl d =
     (case decayFactor tbl d of None \<Rightarrow> [] | Some g \<Rightarrow> [\<lparr>days = d, decay_factor = g\<rparr>])"
proof (induction tbl)
  case Nil
  then show ?case by (simp add: decay_rows_for_def decayFactor_def)
next
  case (Cons r tbl)
  show ?case
  proof (cases "days r = d")
    case True
    have "days r \<notin> days ` set tbl"
      using Cons.prems by simp
    then have "\<forall>y \<in> set tbl. days y \<noteq> d"
      using True by (metis imageI)
    then have "filter (\<lambda>r. days r = d) tbl = []"
      by (simp add: filter_empty_conv)
    then show ?thesis
      using True by (simp add: decay_rows_for_def decayFactor_def)
  next
    case False
    then show ?thesis
      using Cons by (simp add: decay_rows_for_def decayFactor_def)
  qed
qed

lemma left_join_decay_rows:
  "distinct (map days tbl) \<Longrightarrow>
   left_join (decay_rows_for tbl d) =
     [map_option (\<lambda>g. \<lparr>days = d, decay_factor = g\<rparr>) (decayFactor tbl d)]"
  by (simp add: decay_rows_for_distinct left_join_def split: option.splits)

text \<open>The value one citation adds to the bonus of a publication of venue value \<open>v\<close>.\<close>

lemma decayed_citation_term_Some:
  "decayed_citation_term (Some v) (Some c)
      (map_option (\<lambda>g. \<lparr>days = d, decay_factor = g\<rparr>) (decayFactor tbl d)) =
     Some (if author_sc c = Some False
           then (case decayFactor tbl d of Some g \<Rightarrow> (v / 5) * g | None \<Rightarrow> 0) else 0)"
  by (simp add: decayed_citation_term_def split: option.splits)

lemma decayed_citation_term_None: "decayed_citation_term cv None dl = Some 0"
  by (simp add: decayed_citation_term_def)

lemma sql_sum_Some: "xs \<noteq> [] \<Longrightarrow> sql_sum (map Some xs) = Some (sum_list xs)"
proof -
  have "non_null (map Some xs) = xs" for xs :: "real list"
    by (induction xs) auto
  then show "xs \<noteq> [] \<Longrightarrow> sql_sum (map Some xs) = Some (sum_list xs)"
    by (cases xs) (simp_all add: sql_sum_def)
qed

lemma sum_list_map_if:
  "sum_list (map (\<lambda>x. if P x then f x else (0::real)) xs) = sum_list (map f (filter P xs))"
  by (induction xs) auto

lemma citation_scores_terms_unique:
  assumes "distinct (map pub_id (Publication db))" and "i < length (Publication db)"
    and "p = Publication db ! i"
    and "distinct (non_null (map lisperator_id (Event db)))"
    and "e \<in> set (Event db)" and "conference p = Some k" and "lisperator_id e = Some k"
  shows "citation_scores_terms cl db (pub_id p) =
     citation_terms (decayed_citation_term (conference_value e)) db (NOW cl) (CURRENT_DATE cl) p"
proof -
  have ps: "filter (\<lambda>p'. pub_id p' = pub_id p) (Publication db) = [p]"
    using filter_key_nth [OF assms(1,2)] assms(3) by simp
  have es: "filter (\<lambda>e'. sql_eq (conference p) (lisperator_id e')) (Event db) = [e]"
    using filter_event_key [OF assms(4,5,7)] assms(6) by simp
  show ?thesis
    unfolding citation_scores_terms_def concat_map_if ps
    by (simp add: concat_map_if es)
qed

lemma citation_scores_unique:
  assumes "distinct (map pub_id (Publication db))" and "i < length (Publication db)"
    and "p = Publication db ! i"
    and "distinct (non_null (map lisperator_id (Event db)))"
    and "e \<in> set (Event db)" and "conference p = Some k" and "lisperator_id e = Some k"
    and "distinct (map days (DecayLookup db))" and "conference_value e = Some v"
  shows "citation_scores cl db (pub_id p) =
     Some (Some (\<Sum>c \<leftarrow> [c \<leftarrow> Citation db. cit_publication_id c = pub_id p \<and> author_sc c = Some False].
        case decayFactor (DecayLookup db) (citation_age_days (NOW cl) (CURRENT_DATE cl) (Some c) p) of
          Some g \<Rightarrow> (v / 5) * g | None \<Rightarrow> 0))"
proof -
  let ?cs = "[c \<leftarrow> Citation db. cit_publication_id c = pub_id p]"
  let ?g = "\<lambda>c. case decayFactor (DecayLookup db)
                 (citation_age_days (NOW cl) (CURRENT_DATE cl) (Some c) p) of
               Some g \<Rightarrow> (v / 5) * g | None \<Rightarrow> 0"
  let ?t = "\<lambda>c. if author_sc c = Some False then ?g c else 0"
  let ?xs = "if ?cs = [] then [0] else map ?t ?cs"
  have terms: "citation_scores_terms cl db (pub_id p) = map Some ?xs"
    unfolding citation_scores_terms_unique [OF assms(1-7)] citation_terms_def
    by (simp add: left_join_decay_rows [OF assms(8)] assms(9) left_join_def [of ?cs]
        decayed_citation_term_None decayed_citation_term_Some comp_def)
  have ne: "?xs \<noteq> []"
    by simp
  have "sql_sum (map Some ?xs) = Some (sum_list ?xs)"
    by (rule sql_sum_Some [OF ne])
  moreover have "sum_list ?xs = sum_list (map ?t ?cs)"
    by simp
  moreover have "sum_list (map ?t ?cs) = sum_list (map ?g (filter (\<lambda>c. author_sc c = Some False) ?cs))"
    by (rule sum_list_map_if)
  ultimately have "sql_sum (citation_scores_terms cl db (pub_id p)) =
      Some (sum_list (map ?g (filter (\<lambda>c. author_sc c = Some False) ?cs)))"
    using terms by simp
  moreover have "citation_scores cl db (pub_id p) = Some (sql_sum (citation_scores_terms cl db (pub_id p)))"
    using terms ne by (cases "citation_scores_terms cl db (pub_id p)") (auto simp: citation_scores_def)
  ultimately show ?thesis
    by (simp add: conj_commute)
qed

lemma floor_add_half:
  "\<lfloor>real_of_int n + 1 / 2\<rfloor> = n"
  by linarith

lemma round_half_away_of_int:
  "round_half_away (real_of_int n) = n"
proof -
  have "\<lfloor>- real_of_int n + 1 / 2\<rfloor> = - n"
    using floor_add_half [of "- n"] by simp
  then show ?thesis
    by (simp add: round_half_away_def floor_add_half)
qed

lemma round_half_away_near:
  "\<bar>real_of_int (round_half_away y) - y\<bar> \<le> 1 / 2"
proof -
  have f: "real_of_int \<lfloor>z\<rfloor> \<le> z \<and> z < real_of_int \<lfloor>z\<rfloor> + 1" for z :: real
    by linarith
  show ?thesis
  proof (cases "0 \<le> y")
    case True
    then have "round_half_away y = \<lfloor>y + 1 / 2\<rfloor>"
      by (simp add: round_half_away_def)
    then show ?thesis
      using f [of "y + 1 / 2"] by (simp only: abs_le_iff) linarith
  next
    case False
    then have "round_half_away y = - \<lfloor>- y + 1 / 2\<rfloor>"
      by (simp add: round_half_away_def)
    then show ?thesis
      using f [of "- y + 1 / 2"] by (simp only: abs_le_iff of_int_minus) linarith
  qed
qed

lemma decimal_10_3_exact:
  assumes "x * 1000 = real_of_int n"
  shows "decimal_10_3 x = x"
  using assms by (simp add: decimal_10_3_def round_half_away_of_int field_simps)

lemma decimal_10_3_near:
  "\<bar>decimal_10_3 x - x\<bar> \<le> 1 / 2000"
proof -
  have "decimal_10_3 x - x = (real_of_int (round_half_away (x * 1000)) - x * 1000) / 1000"
    by (simp add: decimal_10_3_def field_simps)
  then have "\<bar>decimal_10_3 x - x\<bar> = \<bar>real_of_int (round_half_away (x * 1000)) - x * 1000\<bar> / 1000"
    by (simp only: abs_divide)
  moreover have "\<bar>real_of_int (round_half_away (x * 1000)) - x * 1000\<bar> / 1000 \<le> (1 / 2) / 1000"
    by (rule divide_right_mono [OF round_half_away_near]) simp
  ultimately show ?thesis
    by simp
qed

lemma updated_overall_score_unique:
  assumes "distinct (map pub_id (Publication db))"
    and "distinct (non_null (map lisperator_id (Event db)))"
    and "distinct (map days (DecayLookup db))"
    and "i < length (Publication db)" and "p = Publication db ! i"
    and "e \<in> set (Event db)" and "conference p = Some k" and "lisperator_id e = Some k"
    and "conference_value e = Some venueValue"
    and "review_score p = Some reviewScore" and "date_published p = Some datePublished"
    and "decayFactor (DecayLookup db) (DATE_PART_day (NOW clB - datePublished)) = Some f"
  shows "updated_overall_score clA clB db p =
     Some (max 1 (min reviewScore 5) * venueValue * f
           + (\<Sum>c \<leftarrow> [c \<leftarrow> Citation db. cit_publication_id c = pub_id p \<and> author_sc c = Some False].
                case decayFactor (DecayLookup db)
                       (DATE_PART_day (NOW clA - (case creation_date c of
                                                    Some citationDate \<Rightarrow> max citationDate datePublished
                                                  | None \<Rightarrow> datePublished))) of
                  Some g \<Rightarrow> (venueValue / 5) * g
                | None \<Rightarrow> 0))"
proof -
  have cs: "citation_scores clA db (pub_id p) =
     Some (Some (\<Sum>c \<leftarrow> [c \<leftarrow> Citation db. cit_publication_id c = pub_id p \<and> author_sc c = Some False].
        case decayFactor (DecayLookup db) (citation_age_days (NOW clA) (CURRENT_DATE clA) (Some c) p) of
          Some g \<Rightarrow> (venueValue / 5) * g | None \<Rightarrow> 0))"
    by (rule citation_scores_unique [OF assms(1,4,5,2,6,7,8,3,9)])
  have age: "citation_age_days (NOW clA) (CURRENT_DATE clA) (Some c) p =
      DATE_PART_day (NOW clA - (case creation_date c of
                                  Some citationDate \<Rightarrow> max citationDate datePublished
                                | None \<Rightarrow> datePublished))" for c
    by (simp add: citation_age_days_def sql_greatest_def COALESCE_def assms(11) split: option.splits)
  have dl: "decay_rows_for (DecayLookup db) (publication_age_days (NOW clB) (CURRENT_DATE clB) p) =
      [\<lparr>days = DATE_PART_day (NOW clB - datePublished), decay_factor = f\<rparr>]"
    using assms(12)
    by (simp add: decay_rows_for_distinct [OF assms(3)] publication_age_days_def COALESCE_def assms(11))
  have es: "filter (\<lambda>e'. sql_eq (conference p) (lisperator_id e')) (Event db) = [e]"
    using filter_event_key [OF assms(2,6,8)] assms(7) by simp
  have "updated_overall_score clA clB db p =
      Some (clamp_review_score (review_score p) * COALESCE (conference_value e) 1 * f
            + COALESCE (the (citation_scores clA db (pub_id p))) 0)"
    by (simp add: updated_overall_score_def concat_map_if es dl cs not_null_def)
  then show ?thesis
    by (simp add: cs age clamp_review_score_def COALESCE_def assms(9,10))
qed

lemma calculateCitationScoresAndDecay_Inr:
  assumes "calculateCitationScoresAndDecay clA clB db = Inr db'" and "i < length (Publication db)"
  shows "Publication db' ! i =
     (case updated_overall_score clA clB db (Publication db ! i) of
        None \<Rightarrow> Publication db ! i
      | Some v \<Rightarrow> (Publication db ! i)\<lparr>overall_score := Some (decimal_10_3 v)\<rparr>)"
  using assms by (auto simp add: calculateCitationScoresAndDecay_def split: if_splits)

text \<open>
  Claim C1. For a publication with a venue and a decay row for its age, the recomputed
  overall score is \<open>clamp(reviewScore, 1, 5) * venueValue * decayFactor(daysSince(datePublished))\<close>
  plus the sum, over its citations that are not self-citations and have a decay row, of
  \<open>(venueValue / 5) * decayFactor(daysSince(max(citationDate, datePublished)))\<close>, as the
  column \<open>overall_score\<close> holds it: at three decimals, so within 0.0005 of the formula, and
  equal to it when the formula's value has no more than three decimals. The days of the
  citations are counted from the time of the first statement and those of the publication
  from the time of the second. The keys of the schema (publication id, event
  \<open>lisperator_id\<close>, decay \<open>days\<close>) are unique. A citation without a creation date is aged
  from the publication date.
\<close>

theorem calculateCitationScoresAndDecay_overall_score:
  assumes "distinct (map pub_id (Publication db))"
    and "distinct (non_null (map lisperator_id (Event db)))"
    and "distinct (map days (DecayLookup db))"
    and "i < length (Publication db)" and "p = Publication db ! i"
    and "e \<in> set (Event db)" and "conference p = Some k" and "lisperator_id e = Some k"
    and "conference_value e = Some venueValue"
    and "review_score p = Some reviewScore" and "date_published p = Some datePublished"
    and "decayFactor (DecayLookup db) (DATE_PART_day (NOW clB - datePublished)) = Some f"
    and "score =
           max 1 (min reviewScore 5) * venueValue * f
           + (\<Sum>c \<leftarrow> [c \<leftarrow> Citation db. cit_publication_id c = pub_id p \<and> author_sc c = Some False].
                case decayFactor (DecayLookup db)
                       (DATE_PART_day (NOW clA - (case creation_date c of
                                                    Some citationDate \<Rightarrow> max citationDate datePublished
                                                  | None \<Rightarrow> datePublished))) of
                  Some g \<Rightarrow> (venueValue / 5) * g
                | None \<Rightarrow> 0)"
    and "calculateCitationScoresAndDecay clA clB db = Inr db'"
  shows "overall_score (Publication db' ! i) = Some (decimal_10_3 score)
     \<and> \<bar>decimal_10_3 score - score\<bar> \<le> 1 / 2000
     \<and> (\<forall>n. score * 1000 = real_of_int n \<longrightarrow> overall_score (Publication db' ! i) = Some score)"
proof -
  have "updated_overall_score clA clB db (Publication db ! i) = Some score"
    unfolding assms(13) assms(5) [symmetric] by (rule updated_overall_score_unique [OF assms(1-12)])
  then have "overall_score (Publication db' ! i) = Some (decimal_10_3 score)"
    by (simp add: calculateCitationScoresAndDecay_Inr [OF assms(14,4)])
  then show ?thesis
    using decimal_10_3_near [of score] by (auto simp add: decimal_10_3_exact)
qed

lemma scenario_conference_value:
  "calculateConferenceValue scenario = scenario_at 3"
proof -
  have "decimal_10_3 3 = 3"
    by (rule decimal_10_3_exact [of 3 3000]) simp
  then show ?thesis
    by (simp add: calculateConferenceValue_def scenario_at_def scenario_def averages_def
        conference_h_indexes_def user_confs_def not_null_def sql_avg_def
        clamp_conference_value_def sql_greatest_def)
qed


lemma calculateCitationScoresAndDecay_succeeds:
  assumes "\<And>pub v. pub \<in> set (Publication db) \<Longrightarrow> updated_overall_score clA clB db pub = Some v
             \<Longrightarrow> \<not> numeric_field_overflow v"
  shows "\<exists>db'. calculateCitationScoresAndDecay clA clB db = Inr db'"
  using assms by (auto simp add: calculateCitationScoresAndDecay_def split: option.splits)

lemma scenario_at_tables:
  "Publication (scenario_at v) =
        [\<lparr>pub_id = 1, submission_id = 1, conference = Some 10, review_score = Some 4.5,
          overall_score = Some 0, citation_count = Some 2, date_published = Some 1717200000000\<rparr>]"
  "Event (scenario_at v) = [\<lparr>lisperator_id = Some 10, conference_value = Some v\<rparr>]"
  "DecayLookup (scenario_at v) = seedDecayLookup []"
  "Citation (scenario_at v) =
        [\<lparr>cit_publication_id = 1, oci = ''a'', creation_date = Some 1717221600000,
          author_sc = Some False\<rparr>,
         \<lparr>cit_publication_id = 1, oci = ''b'', creation_date = Some 1717221600000,
          author_sc = Some False\<rparr>]"
  by (simp_all add: scenario_at_def scenario_def)

lemma scenario_ages:
  "DATE_PART_day 43200250 = 0" "DATE_PART_day 21600000 = 0"
  by (simp_all add: DATE_PART_day_def msPerDay_def)

lemma scenario_score:
  "updated_overall_score scenario_clock scenario_clock_B (scenario_at v)
     (Publication (scenario_at v) ! 0) = Some (4.5 * v + (v / 5 + v / 5))"
proof -
  have f0: "decayFactor (seedDecayLookup []) 0 = Some 1"
    by (simp add: decayFactor_seeded)
  show ?thesis
    using updated_overall_score_unique
      [where db = "scenario_at v" and i = 0 and p = "Publication (scenario_at v) ! 0"
         and e = "\<lparr>lisperator_id = Some 10, conference_value = Some v\<rparr>" and k = 10
         and venueValue = v and reviewScore = "4.5" and datePublished = 1717200000000
         and clA = scenario_clock and clB = scenario_clock_B and f = 1]
    by (simp add: scenario_at_tables seedDecayLookup_empty distinct_days_decay_entries
        scenario_clock_def scenario_clock_B_def scenario_ages f0 [unfolded seedDecayLookup_empty])
qed

lemma scenario_succeeds:
  assumes "\<bar>decimal_10_3 (4.5 * v + (v / 5 + v / 5))\<bar> < 10 ^ 7"
  shows "\<exists>db'. calculateCitationScoresAndDecay scenario_clock scenario_clock_B (scenario_at v)
           = Inr db'"
proof (rule calculateCitationScoresAndDecay_succeeds)
  fix pub w
  assume "pub \<in> set (Publication (scenario_at v))"
    and "updated_overall_score scenario_clock scenario_clock_B (scenario_at v) pub = Some w"
  then have "w = 4.5 * v + (v / 5 + v / 5)"
    using scenario_score [of v] by (simp add: scenario_at_tables)
  then have "\<bar>decimal_10_3 w\<bar> < 10 ^ 7"
    using assms by (simp only:)
  then show "\<not> numeric_field_overflow w"
    unfolding numeric_field_overflow_def by linarith
qed

lemma decimal_10_3_examples:
  "decimal_10_3 14.7 = 14.7" "decimal_10_3 6.5317 = 6.532"
proof -
  show "decimal_10_3 14.7 = 14.7"
    by (rule decimal_10_3_exact [of _ 14700]) simp
  have "\<lfloor>(6532.2 :: real)\<rfloor> = 6532"
    by (rule floor_unique) simp_all
  then show "decimal_10_3 6.5317 = 6.532"
    by (simp add: decimal_10_3_def round_half_away_def)
qed

theorem calculateCitationScoresAndDecay_overall_score_witness:
  "conference_value (Event (calculateConferenceValue scenario) ! 0) = Some 3
   \<and> (\<exists>db'. calculateCitationScoresAndDecay scenario_clock scenario_clock_B
               (calculateConferenceValue scenario) = Inr db'
            \<and> overall_score (Publication db' ! 0) = Some 14.7)
   \<and> (\<exists>db'. calculateCitationScoresAndDecay scenario_clock scenario_clock_B (scenario_at 1.333)
               = Inr db'
            \<and> overall_score (Publication db' ! 0) = Some 6.532)"
proof (intro conjI)
  show "conference_value (Event (calculateConferenceValue scenario) ! 0) = Some 3"
    by (simp add: scenario_conference_value scenario_at_tables)
  have f0: "decayFactor (seedDecayLookup []) 0 = Some 1"
    by (simp add: decayFactor_seeded)
  have score: "overall_score (Publication db' ! 0) = Some (decimal_10_3 (4.5 * v + (v / 5 + v / 5)))"
    if "calculateCitationScoresAndDecay scenario_clock scenario_clock_B (scenario_at v) = Inr db'"
    for v db'
    using calculateCitationScoresAndDecay_overall_score
      [where db = "scenario_at v" and i = 0 and p = "Publication (scenario_at v) ! 0"
         and e = "\<lparr>lisperator_id = Some 10, conference_value = Some v\<rparr>" and k = 10
         and venueValue = v and reviewScore = "4.5" and datePublished = 1717200000000
         and clA = scenario_clock and clB = scenario_clock_B and f = 1 and db' = db'
         and score = "4.5 * v + (v / 5 + v / 5)"] that
    by (simp add: scenario_at_tables seedDecayLookup_empty distinct_days_decay_entries
        scenario_clock_def scenario_clock_B_def scenario_ages f0 [unfolded seedDecayLookup_empty])
  obtain db3 where db3: "calculateCitationScoresAndDecay scenario_clock scenario_clock_B
      (scenario_at 3) = Inr db3"
    using scenario_succeeds [of 3] decimal_10_3_examples by auto
  show "\<exists>db'. calculateCitationScoresAndDecay scenario_clock scenario_clock_B
               (calculateConferenceValue scenario) = Inr db'
            \<and> overall_score (Publication db' ! 0) = Some 14.7"
    using db3 score [OF db3] decimal_10_3_examples by (simp add: scenario_conference_value)
  obtain db1 where db1: "calculateCitationScoresAndDecay scenario_clock scenario_clock_B
      (scenario_at 1.333) = Inr db1"
    using scenario_succeeds [of "1.333"] decimal_10_3_examples by auto
  show "\<exists>db'. calculateCitationScoresAndDecay scenario_clock scenario_clock_B (scenario_at 1.333)
               = Inr db'
            \<and> overall_score (Publication db' ! 0) = Some 6.532"
    using db1 score [OF db1] decimal_10_3_examples by simp
qed

section \<open>Citations that add nothing to a score\<close>

lemma COALESCE_sql_sum: "COALESCE (sql_sum ts) 0 = coalesced_sum ts"
proof -
  have "sum_list (non_null ts) = coalesced_sum ts"
    by (induction ts rule: non_null.induct) (simp_all add: coalesced_sum_def COALESCE_def)
  then show ?thesis
    by (cases "non_null ts") (auto simp: sql_sum_def COALESCE_def)
qed

lemma coalesced_sum_simps [simp]:
  "coalesced_sum [] = 0"
  "coalesced_sum (t # ts) = COALESCE t 0 + coalesced_sum ts"
  "coalesced_sum (xs @ ys) = coalesced_sum xs + coalesced_sum ys"
  by (simp_all add: coalesced_sum_def)

lemma coalesced_sum_concat: "coalesced_sum (concat xss) = sum_list (map coalesced_sum xss)"
  by (induction xss) simp_all

lemma coalesced_sum_zero: "\<forall>t \<in> set ts. t = Some 0 \<Longrightarrow> coalesced_sum ts = 0"
  by (induction ts) (simp_all add: COALESCE_def)

lemma left_join_not_Nil [simp]: "left_join xs \<noteq> []"
  by (simp add: left_join_def)

lemma citation_terms_not_Nil [simp]: "citation_terms case_expr db ref dflt p \<noteq> []"
proof -
  have "concat (map f (left_join xs)) \<noteq> []" if "\<And>x. f x \<noteq> []"
    for f :: "citation option \<Rightarrow> real option list" and xs
    using that by (cases xs) (simp_all add: left_join_def)
  then show ?thesis
    by (simp add: citation_terms_def)
qed

lemma citation_terms_restrict:
  assumes "\<And>c dl. \<not> P c \<Longrightarrow> case_expr (Some c) dl = Some 0"
    and "\<And>dl. case_expr None dl = Some 0"
  shows "coalesced_sum (citation_terms case_expr (restrict_citations P db) ref dflt p) =
         coalesced_sum (citation_terms case_expr db ref dflt p)"
proof -
  let ?g = "\<lambda>c. map (case_expr c) (left_join (decay_rows_for (DecayLookup db)
                (citation_age_days ref dflt c p)))"
  have none: "coalesced_sum (?g None) = 0"
    by (rule coalesced_sum_zero) (simp add: assms(2))
  have drop: "\<not> P c \<Longrightarrow> coalesced_sum (?g (Some c)) = 0" for c
    by (rule coalesced_sum_zero) (simp add: assms(1))
  have sum: "coalesced_sum (concat (map ?g (left_join cs))) =
      sum_list (map (\<lambda>c. coalesced_sum (?g (Some c))) cs)" for cs
    using none by (simp add: left_join_def coalesced_sum_concat comp_def)
  have filt: "sum_list (map (\<lambda>c. coalesced_sum (?g (Some c))) (filter P cs)) =
      sum_list (map (\<lambda>c. coalesced_sum (?g (Some c))) cs)" for cs
    using drop by (induction cs) auto
  let ?cs = "[c \<leftarrow> Citation db. cit_publication_id c = pub_id p]"
  have "citation_terms case_expr (restrict_citations P db) ref dflt p =
      concat (map ?g (left_join (filter P ?cs)))"
    by (simp add: citation_terms_def restrict_citations_def conj_commute)
  then have "coalesced_sum (citation_terms case_expr (restrict_citations P db) ref dflt p) =
      sum_list (map (\<lambda>c. coalesced_sum (?g (Some c))) (filter P ?cs))"
    by (simp only: sum)
  also have "\<dots> = sum_list (map (\<lambda>c. coalesced_sum (?g (Some c))) ?cs)"
    by (rule filt)
  also have "\<dots> = coalesced_sum (concat (map ?g (left_join ?cs)))"
    by (simp only: sum)
  also have "\<dots> = coalesced_sum (citation_terms case_expr db ref dflt p)"
    by (simp add: citation_terms_def)
  finally show ?thesis .
qed

lemma restrict_citations_tables [simp]:
  "Publication (restrict_citations P db) = Publication db"
  "PublicationUser (restrict_citations P db) = PublicationUser db"
  "PublicationTopic (restrict_citations P db) = PublicationTopic db"
  "User (restrict_citations P db) = User db"
  "Event (restrict_citations P db) = Event db"
  "DecayLookup (restrict_citations P db) = DecayLookup db"
  "PublicationSnapshot (restrict_citations P db) = PublicationSnapshot db"
  "Citation (restrict_citations P db) = filter P (Citation db)"
  by (simp_all add: restrict_citations_def)

lemma decayed_citation_term_zero:
  "author_sc c \<noteq> Some False \<Longrightarrow> decayed_citation_term cv (Some c) dl = Some 0"
  "decayed_citation_term cv None dl = Some 0"
  by (simp_all add: decayed_citation_term_def split: option.splits)

lemma historical_citation_term_zero:
  "author_sc c \<noteq> Some False \<or> \<not> sql_le (creation_date c) cd \<Longrightarrow>
     historical_citation_term cd cv (Some c) dl = Some 0"
  "historical_citation_term cd cv None dl = Some 0"
  by (auto simp: historical_citation_term_def split: option.splits)

lemma coalesced_sum_if:
  "coalesced_sum (if b then xs else ys) = (if b then coalesced_sum xs else coalesced_sum ys)"
  by simp

lemma concat_map_if_single:
  "concat (map (\<lambda>x. if P x then [f x] else []) xs) = map f (filter P xs)"
  by (induction xs) auto

lemma citation_scores_terms_restrict:
  assumes "\<And>c. \<not> P c \<Longrightarrow> author_sc c \<noteq> Some False"
  shows "coalesced_sum (citation_scores_terms cl (restrict_citations P db) i) =
         coalesced_sum (citation_scores_terms cl db i)"
    and "citation_scores_terms cl (restrict_citations P db) i = [] \<longleftrightarrow>
         citation_scores_terms cl db i = []"
proof -
  have t: "coalesced_sum (citation_terms (decayed_citation_term cv) (restrict_citations P db) r d p) =
      coalesced_sum (citation_terms (decayed_citation_term cv) db r d p)" for cv r d p
    by (rule citation_terms_restrict) (simp_all add: decayed_citation_term_zero assms)
  show "coalesced_sum (citation_scores_terms cl (restrict_citations P db) i) =
         coalesced_sum (citation_scores_terms cl db i)"
    by (simp add: citation_scores_terms_def coalesced_sum_concat concat_map_if
        concat_map_if_single map_concat comp_def t)
  show "citation_scores_terms cl (restrict_citations P db) i = [] \<longleftrightarrow>
         citation_scores_terms cl db i = []"
    by (auto simp: citation_scores_terms_def)
qed

lemma citation_scores_restrict:
  assumes "\<And>c. \<not> P c \<Longrightarrow> author_sc c \<noteq> Some False"
  shows "map_option (\<lambda>s. COALESCE s 0) (citation_scores cl (restrict_citations P db) i) =
         map_option (\<lambda>s. COALESCE s 0) (citation_scores cl db i)"
proof -
  have "map_option (\<lambda>s. COALESCE s 0) (citation_scores cl d i) =
      (if citation_scores_terms cl d i = [] then None
       else Some (coalesced_sum (citation_scores_terms cl d i)))" for d
    by (cases "citation_scores_terms cl d i") (simp_all add: citation_scores_def COALESCE_sql_sum)
  then show ?thesis
    using citation_scores_terms_restrict [OF assms, where cl = cl and db = db and i = i] by simp
qed

lemma first_match_coalesce:
  "(case [(cs, dl_p, e). cs \<leftarrow> not_null X, dl_p \<leftarrow> D, e \<leftarrow> E, B e] of
      [] \<Rightarrow> a
    | (cs, dl_p, e) # _ \<Rightarrow> g (k e dl_p + COALESCE cs 0)) =
   (case map_option (\<lambda>s. COALESCE s (0::real)) X of
      None \<Rightarrow> a
    | Some v \<Rightarrow> (case [(dl_p, e). dl_p \<leftarrow> D, e \<leftarrow> E, B e] of
                  [] \<Rightarrow> a
                | (dl_p, e) # _ \<Rightarrow> g (k e dl_p + v)))"
proof (cases X)
  case None
  then show ?thesis by (simp add: not_null_def)
next
  case (Some s)
  define L where "L = [(dl_p, e). dl_p \<leftarrow> D, e \<leftarrow> E, B e]"
  have eq: "[(cs, dl_p, e). cs \<leftarrow> not_null X, dl_p \<leftarrow> D, e \<leftarrow> E, B e] =
      map (\<lambda>(dl_p, e). (s, dl_p, e)) L"
    using Some by (simp add: L_def not_null_def concat_map_if_single map_concat comp_def)
  show ?thesis
    unfolding eq L_def [symmetric] using Some by (cases L) auto
qed

lemma updated_overall_score_restrict:
  assumes "\<And>c. \<not> P c \<Longrightarrow> author_sc c \<noteq> Some False"
  shows "updated_overall_score clA clB (restrict_citations P db) pub =
         updated_overall_score clA clB db pub"
proof -
  have a: "map_option (\<lambda>s. COALESCE s 0)
             (citation_scores clA (restrict_citations P db) (pub_id pub)) =
           map_option (\<lambda>s. COALESCE s 0) (citation_scores clA db (pub_id pub))"
    by (rule citation_scores_restrict [OF assms])
  show ?thesis
    unfolding updated_overall_score_def first_match_coalesce [where g = Some and a = None]
      restrict_citations_tables a ..
qed

lemma calculateCitationScoresAndDecay_restrict:
  assumes "\<And>c. \<not> P c \<Longrightarrow> author_sc c \<noteq> Some False"
  shows "calculateCitationScoresAndDecay clA clB (restrict_citations P db) =
         map_sum id (restrict_citations P) (calculateCitationScoresAndDecay clA clB db)"
  by (simp add: calculateCitationScoresAndDecay_def updated_overall_score_restrict [OF assms])
    (simp add: restrict_citations_def)

lemma temp_citation_scores_terms_restrict:
  assumes "\<And>c. \<not> P c \<Longrightarrow> author_sc c \<noteq> Some False"
  shows "coalesced_sum (temp_citation_scores_terms sd (restrict_citations P db) i) =
         coalesced_sum (temp_citation_scores_terms sd db i)"
proof -
  have t: "coalesced_sum (citation_terms (decayed_citation_term cv) (restrict_citations P db) r d p) =
      coalesced_sum (citation_terms (decayed_citation_term cv) db r d p)" for cv r d p
    by (rule citation_terms_restrict) (simp_all add: decayed_citation_term_zero assms)
  show ?thesis
    by (simp add: temp_citation_scores_terms_def coalesced_sum_concat concat_map_if
        concat_map_if_single map_concat comp_def t)
qed

text \<open>The values \<open>COALESCE(cs.decayed_citations, 0)\<close> a left join with a table of sums
  yields.\<close>

lemma COALESCE_simps [simp]: "COALESCE None d = d" "COALESCE (Some x) d = x"
  by (simp_all add: COALESCE_def)

lemma joined_sums:
  "map (\<lambda>cs. COALESCE (joined_decayed_citations cs) 0)
     (left_join [r \<leftarrow> map (\<lambda>i. (i, sql_sum (f i))) ks. fst r = k]) =
   map (\<lambda>x. COALESCE (map_option (\<lambda>i. coalesced_sum (f i)) x) 0)
     (left_join (filter (\<lambda>i. i = k) ks))"
  by (simp add: left_join_def filter_map comp_def joined_decayed_citations_def COALESCE_sql_sum)

lemma temp_citation_scores_restrict:
  assumes "\<And>c. \<not> P c \<Longrightarrow> author_sc c \<noteq> Some False"
  shows "map (\<lambda>cs. COALESCE (joined_decayed_citations cs) 0)
           (left_join [r \<leftarrow> temp_citation_scores sd (restrict_citations P db). fst r = k]) =
         map (\<lambda>cs. COALESCE (joined_decayed_citations cs) 0)
           (left_join [r \<leftarrow> temp_citation_scores sd db. fst r = k])"
proof -
  have r: "coalesced_sum (temp_citation_scores_terms sd (restrict_citations P db) i) =
      coalesced_sum (temp_citation_scores_terms sd db i)" for i
    by (rule temp_citation_scores_terms_restrict [OF assms])
  show ?thesis
    unfolding temp_citation_scores_def restrict_citations_tables joined_sums r ..
qed

lemma concat_map_via:
  assumes "map h xs = map h ys"
  shows "concat (map (\<lambda>x. G (h x)) xs) = concat (map (\<lambda>x. G (h x)) ys)"
proof -
  have "concat (map (\<lambda>x. G (h x)) xs) = concat (map G (map h xs))"
    by (simp add: comp_def)
  also have "\<dots> = concat (map G (map h ys))"
    by (simp only: assms)
  also have "\<dots> = concat (map (\<lambda>x. G (h x)) ys)"
    by (simp add: comp_def)
  finally show ?thesis .
qed

lemma temp_overall_scores_restrict:
  assumes "\<And>c. \<not> P c \<Longrightarrow> author_sc c \<noteq> Some False"
  shows "temp_overall_scores sd (restrict_citations P db) = temp_overall_scores sd db"
proof -
  have inner: "concat (map (\<lambda>cs. map (\<lambda>dl_p.
            (pub_id p, map_option (\<lambda>d. A d + COALESCE (joined_decayed_citations cs) 0) dl_p)) D)
          (left_join [r \<leftarrow> temp_citation_scores sd (restrict_citations P db). fst r = pub_id p])) =
        concat (map (\<lambda>cs. map (\<lambda>dl_p.
            (pub_id p, map_option (\<lambda>d. A d + COALESCE (joined_decayed_citations cs) 0) dl_p)) D)
          (left_join [r \<leftarrow> temp_citation_scores sd db. fst r = pub_id p]))"
    for p :: publication and A :: "decay_row \<Rightarrow> real" and D
    by (rule concat_map_via
          [where h = "\<lambda>cs. COALESCE (joined_decayed_citations cs) 0"
             and G = "\<lambda>v. map (\<lambda>dl_p. (pub_id p, map_option (\<lambda>d. A d + v) dl_p)) D"])
       (rule temp_citation_scores_restrict [OF assms])
  show ?thesis
    unfolding temp_overall_scores_def restrict_citations_tables inner ..
qed

lemma HistoricalCitationCounts_restrict:
  assumes "\<And>c. \<not> P c \<Longrightarrow>
     author_sc c \<noteq> Some False \<or> \<not> sql_le (creation_date c) (DATE_TRUNC_day tz historicalDate)"
  shows "HistoricalCitationCounts tz historicalDate (restrict_citations P db) i =
         HistoricalCitationCounts tz historicalDate db i"
proof -
  have "[c \<leftarrow> filter P cs. Q c \<and> sql_le (creation_date c) (DATE_TRUNC_day tz historicalDate)
                            \<and> author_sc c = Some False] =
        [c \<leftarrow> cs. Q c \<and> sql_le (creation_date c) (DATE_TRUNC_day tz historicalDate)
                   \<and> author_sc c = Some False]" for cs Q
    using assms by (induction cs) auto
  then have rows: "concat (map (\<lambda>c. if Q c then if sql_le (creation_date c) (DATE_TRUNC_day tz historicalDate)
                            then if author_sc c = Some False then [c] else [] else [] else []) (filter P cs)) =
        concat (map (\<lambda>c. if Q c then if sql_le (creation_date c) (DATE_TRUNC_day tz historicalDate)
                            then if author_sc c = Some False then [c] else [] else [] else []) cs)" for cs Q
    using assms by (induction cs) auto
  show ?thesis
    unfolding HistoricalCitationCounts_def restrict_citations_tables rows ..
qed

lemma historical_h_index_restrict:
  assumes "\<And>c. \<not> P c \<Longrightarrow>
     author_sc c \<noteq> Some False \<or> \<not> sql_le (creation_date c) (DATE_TRUNC_day tz historicalDate)"
  shows "historical_h_index tz historicalDate (restrict_citations P db) u =
         historical_h_index tz historicalDate db u"
proof -
  have c: "HistoricalCitationCounts tz historicalDate (restrict_citations P db) i =
         HistoricalCitationCounts tz historicalDate db i" for i
    by (rule HistoricalCitationCounts_restrict [OF assms])
  show ?thesis
    unfolding historical_h_index_def historical_user_citation_counts_def
      restrict_citations_tables c ..
qed

lemma historical_conference_value_restrict:
  assumes "\<And>c. \<not> P c \<Longrightarrow>
     author_sc c \<noteq> Some False \<or> \<not> sql_le (creation_date c) (DATE_TRUNC_day tz historicalDate)"
  shows "historical_conference_value tz historicalDate (restrict_citations P db) k =
         historical_conference_value tz historicalDate db k"
    and "joined_historical_conference_value tz historicalDate (restrict_citations P db) p =
         joined_historical_conference_value tz historicalDate db p"
    and "historical_base_score tz historicalDate (restrict_citations P db) =
         historical_base_score tz historicalDate db"
proof -
  have h: "historical_h_index tz historicalDate (restrict_citations P db) u =
         historical_h_index tz historicalDate db u" for u
    by (rule historical_h_index_restrict [OF assms])
  show v: "historical_conference_value tz historicalDate (restrict_citations P db) k =
         historical_conference_value tz historicalDate db k" for k
    unfolding historical_conference_value_def historical_user_confs_def
      restrict_citations_tables h ..
  show j: "joined_historical_conference_value tz historicalDate (restrict_citations P db) p =
         joined_historical_conference_value tz historicalDate db p" for p
    unfolding joined_historical_conference_value_def v ..
  show "historical_base_score tz historicalDate (restrict_citations P db) =
         historical_base_score tz historicalDate db"
    unfolding historical_base_score_def restrict_citations_tables j ..
qed

lemma historical_citation_scores_terms_restrict:
  assumes "\<And>c. \<not> P c \<Longrightarrow>
     author_sc c \<noteq> Some False \<or> \<not> sql_le (creation_date c) (DATE_TRUNC_day tz historicalDate)"
    and "\<And>c. \<not> P c \<Longrightarrow>
     author_sc c \<noteq> Some False
     \<or> \<not> sql_le (creation_date c) (getConsistentDateForDB historicalDate)"
  shows "coalesced_sum (historical_citation_scores_terms tz historicalDate (restrict_citations P db) pubIds i) =
         coalesced_sum (historical_citation_scores_terms tz historicalDate db pubIds i)"
proof -
  have j: "joined_historical_conference_value tz historicalDate (restrict_citations P db) p =
         joined_historical_conference_value tz historicalDate db p" for p
    by (rule historical_conference_value_restrict [OF assms(1)])
  have t: "coalesced_sum (citation_terms
             (historical_citation_term (getConsistentDateForDB historicalDate) cv)
             (restrict_citations P db) r d p) =
      coalesced_sum (citation_terms
             (historical_citation_term (getConsistentDateForDB historicalDate) cv) db r d p)"
    for cv r d p
  proof (rule citation_terms_restrict)
    fix c dl
    assume "\<not> P c"
    then show "historical_citation_term (getConsistentDateForDB historicalDate) cv (Some c) dl = Some 0"
      using assms(2) [of c] by (intro historical_citation_term_zero(1))
  next
    fix dl
    show "historical_citation_term (getConsistentDateForDB historicalDate) cv None dl = Some 0"
      by (rule historical_citation_term_zero(2))
  qed
  show ?thesis
    unfolding historical_citation_scores_terms_def restrict_citations_tables j
    by (simp add: coalesced_sum_concat concat_map_if concat_map_if_single map_concat comp_def t)
qed

lemma joined_sums_keyed:
  "map (\<lambda>cs. COALESCE (joined_decayed_citations cs) 0)
     (left_join [r \<leftarrow> map (\<lambda>x. (key x, sql_sum (f x))) xs. fst r = k]) =
   map (\<lambda>y. COALESCE (map_option (\<lambda>x. coalesced_sum (f x)) y) 0)
     (left_join (filter (\<lambda>x. key x = k) xs))"
  by (simp add: left_join_def filter_map comp_def joined_decayed_citations_def COALESCE_sql_sum)

text \<open>The table \<open>historical_citation_scores\<close> as one list of sums, indexed by chunk and
  publication id.\<close>

lemma historical_citation_scores_keyed:
  "historical_citation_scores tz historicalDate db publications =
     map (\<lambda>x. (snd x, sql_sum (historical_citation_scores_terms tz historicalDate db (fst x) (snd x))))
       (concat (map (\<lambda>pubIds. map (Pair pubIds)
                  (remdups [pub_id p. p \<leftarrow> Publication db,
                              sql_le (date_published p) (getConsistentDateForDB historicalDate),
                              pub_id p \<in> set pubIds]))
          (chunks CHUNK_SIZE publications)))"
proof -
  have "historical_citation_scores_chunk tz historicalDate db =
      (\<lambda>pubIds. [(i, sql_sum (historical_citation_scores_terms tz historicalDate db pubIds i)).
                  i \<leftarrow> remdups [pub_id p. p \<leftarrow> Publication db,
                         sql_le (date_published p) (getConsistentDateForDB historicalDate),
                         pub_id p \<in> set pubIds]])"
    by (rule ext) (simp add: historical_citation_scores_chunk_def)
  then show ?thesis
    by (simp add: historical_citation_scores_def map_concat comp_def)
qed

lemma historical_citation_scores_restrict:
  assumes "\<And>c. \<not> P c \<Longrightarrow>
     author_sc c \<noteq> Some False \<or> \<not> sql_le (creation_date c) (DATE_TRUNC_day tz historicalDate)"
    and "\<And>c. \<not> P c \<Longrightarrow>
     author_sc c \<noteq> Some False
     \<or> \<not> sql_le (creation_date c) (getConsistentDateForDB historicalDate)"
  shows "map (\<lambda>cs. COALESCE (joined_decayed_citations cs) 0)
           (left_join [r \<leftarrow> historical_citation_scores tz historicalDate
                                  (restrict_citations P db) publications. fst r = k]) =
         map (\<lambda>cs. COALESCE (joined_decayed_citations cs) 0)
           (left_join [r \<leftarrow> historical_citation_scores tz historicalDate db publications.
                         fst r = k])"
proof -
  have r: "coalesced_sum (historical_citation_scores_terms tz historicalDate
              (restrict_citations P db) pubIds i) =
      coalesced_sum (historical_citation_scores_terms tz historicalDate db pubIds i)" for pubIds i
    by (rule historical_citation_scores_terms_restrict [OF assms])
  show ?thesis
    unfolding historical_citation_scores_keyed restrict_citations_tables joined_sums_keyed r ..
qed

lemma historical_overall_scores_restrict:
  assumes "\<And>c. \<not> P c \<Longrightarrow>
     author_sc c \<noteq> Some False \<or> \<not> sql_le (creation_date c) (DATE_TRUNC_day tz historicalDate)"
    and "\<And>c. \<not> P c \<Longrightarrow>
     author_sc c \<noteq> Some False
     \<or> \<not> sql_le (creation_date c) (getConsistentDateForDB historicalDate)"
  shows "historical_overall_scores tz historicalDate (restrict_citations P db) publications =
         historical_overall_scores tz historicalDate db publications"
proof -
  have b: "historical_base_score tz historicalDate (restrict_citations P db) =
         historical_base_score tz historicalDate db"
    by (rule historical_conference_value_restrict [OF assms(1)])
  have inner: "concat (map (\<lambda>hcs. map (\<lambda>dl_p.
            (pub_id p,
             case (hbs, dl_p) of
               (Some (i, base_score), Some d) \<Rightarrow>
                 Some (base_score * decay_factor d + COALESCE (joined_decayed_citations hcs) 0)
             | _ \<Rightarrow> None)) D)
          (left_join [r \<leftarrow> historical_citation_scores tz historicalDate
                                 (restrict_citations P db) publications. fst r = pub_id p])) =
        concat (map (\<lambda>hcs. map (\<lambda>dl_p.
            (pub_id p,
             case (hbs, dl_p) of
               (Some (i, base_score), Some d) \<Rightarrow>
                 Some (base_score * decay_factor d + COALESCE (joined_decayed_citations hcs) 0)
             | _ \<Rightarrow> None)) D)
          (left_join [r \<leftarrow> historical_citation_scores tz historicalDate db publications.
                        fst r = pub_id p]))"
    for p :: publication and hbs :: "(int \<times> real) option" and D :: "decay_row option list"
    by (rule concat_map_via
          [where h = "\<lambda>cs. COALESCE (joined_decayed_citations cs) 0"
             and G = "\<lambda>v. map (\<lambda>dl_p. (pub_id p,
                 case (hbs, dl_p) of
                   (Some (i, base_score), Some d) \<Rightarrow> Some (base_score * decay_factor d + v)
                 | _ \<Rightarrow> None)) D"])
       (rule historical_citation_scores_restrict [OF assms])
  show ?thesis
    unfolding historical_overall_scores_def historical_overall_scores_chunk_def
      restrict_citations_tables b inner ..
qed


lemma restrict_citations_snapshot_tables [simp]:
  "TopicSnapshot (restrict_citations P db) = TopicSnapshot db"
  "UserTopicSnapshot (restrict_citations P db) = UserTopicSnapshot db"
  "UserOverallSnapshot (restrict_citations P db) = UserOverallSnapshot db"
  by (simp_all add: restrict_citations_def)

lemma insert_publication_snapshots_restrict:
  "insert_publication_snapshots cd scores (restrict_citations P db) =
   map_sum id (restrict_citations P) (insert_publication_snapshots cd scores db)"
  by (simp add: insert_publication_snapshots_def restrict_citations_def split: sum.splits)

lemma insert_topic_snapshots_restrict:
  "insert_topic_snapshots rows (restrict_citations P db) =
   map_sum id (restrict_citations P) (insert_topic_snapshots rows db)"
  by (simp add: insert_topic_snapshots_def restrict_citations_def split: sum.splits)

lemma insert_user_snapshots_restrict:
  "insert_user_snapshots topic_rows overall_rows (restrict_citations P db) =
   map_sum id (restrict_citations P) (insert_user_snapshots topic_rows overall_rows db)"
  by (simp add: insert_user_snapshots_def restrict_citations_def split: sum.splits)

lemma processPublicationSnapshots_restrict:
  assumes "\<And>c. \<not> P c \<Longrightarrow> author_sc c \<noteq> Some False"
  shows "processPublicationSnapshots sd (restrict_citations P db) =
         map_sum id (restrict_citations P) (processPublicationSnapshots sd db)"
  by (simp add: processPublicationSnapshots_def temp_overall_scores_restrict [OF assms]
      insert_publication_snapshots_restrict)

lemma createHistoricalPublicationSnapshots_restrict:
  assumes "\<And>c. \<not> P c \<Longrightarrow>
     author_sc c \<noteq> Some False \<or> \<not> sql_le (creation_date c) (DATE_TRUNC_day tz historicalDate)"
    and "\<And>c. \<not> P c \<Longrightarrow>
     author_sc c \<noteq> Some False
     \<or> \<not> sql_le (creation_date c) (getConsistentDateForDB historicalDate)"
  shows "createHistoricalPublicationSnapshots tz historicalDate publications
           (restrict_citations P db) =
         map_sum id (restrict_citations P)
           (createHistoricalPublicationSnapshots tz historicalDate publications db)"
  by (simp add: createHistoricalPublicationSnapshots_def
      historical_overall_scores_restrict [OF assms] insert_publication_snapshots_restrict)

lemma calculateSimpleTopicAverages_restrict:
  "calculateSimpleTopicAverages sd (restrict_citations P db) =
   map_sum id (restrict_citations P) (calculateSimpleTopicAverages sd db)"
proof -
  have w: "weighted_publications cd psd (restrict_citations P db) = weighted_publications cd psd db"
    for cd psd
    unfolding weighted_publications_def restrict_citations_tables ..
  show ?thesis
    by (simp add: calculateSimpleTopicAverages_def Let_def w insert_topic_snapshots_restrict
        split: option.splits)
qed

lemma calculateEnhancedHistoricalTopicAverages_restrict:
  "calculateEnhancedHistoricalTopicAverages hdate (restrict_citations P db) =
   map_sum id (restrict_citations P) (calculateEnhancedHistoricalTopicAverages hdate db)"
proof -
  have w: "historical_weighted_publications d psd (restrict_citations P db) =
      historical_weighted_publications d psd db" for d psd
    unfolding historical_weighted_publications_def restrict_citations_tables ..
  show ?thesis
    by (simp add: calculateEnhancedHistoricalTopicAverages_def Let_def w
        insert_topic_snapshots_restrict split: option.splits)
qed

lemma counted_citations_restrict:
  assumes "\<And>c. \<not> P c \<Longrightarrow> author_sc c \<noteq> Some False \<or> \<not> sql_le (creation_date c) sd"
  shows "counted_citations sd (restrict_citations P db) p = counted_citations sd db p"
proof -
  have "[c \<leftarrow> filter P (Citation db). cit_publication_id c = pub_id p
            \<and> sql_le (creation_date c) sd \<and> author_sc c = Some False] =
        [c \<leftarrow> Citation db. cit_publication_id c = pub_id p
            \<and> sql_le (creation_date c) sd \<and> author_sc c = Some False]"
    unfolding filter_filter by (rule filter_cong [OF refl]) (use assms in blast)
  then show ?thesis
    by (simp add: counted_citations_def)
qed

lemma smart_weighted_publications_restrict:
  assumes "\<And>c. \<not> P c \<Longrightarrow> author_sc c \<noteq> Some False \<or> \<not> sql_le (creation_date c) sd"
  shows "smart_weighted_publications sd (restrict_citations P db) =
         smart_weighted_publications sd db"
proof -
  have r: "counted_citations sd (restrict_citations P db) p = counted_citations sd db p" for p
    by (rule counted_citations_restrict [OF assms])
  show ?thesis
    unfolding smart_weighted_publications_def r restrict_citations_tables ..
qed

lemma processUserSnapshots_restrict:
  assumes "\<And>c. \<not> P c \<Longrightarrow> author_sc c \<noteq> Some False"
  shows "processUserSnapshots sd (restrict_citations P db) =
         map_sum id (restrict_citations P) (processUserSnapshots sd db)"
proof -
  have 1: "smart_weighted_publications psd (restrict_citations P db) =
      smart_weighted_publications psd db" for psd
    by (rule smart_weighted_publications_restrict) (use assms in blast)
  have 2: "user_topic_snapshot_rows cd swps (restrict_citations P db) =
      user_topic_snapshot_rows cd swps db" for cd swps
    unfolding user_topic_snapshot_rows_def restrict_citations_tables ..
  have 3: "user_overall_snapshot_rows cd swps (restrict_citations P db) =
      user_overall_snapshot_rows cd swps db" for cd swps
    unfolding user_overall_snapshot_rows_def restrict_citations_tables ..
  show ?thesis
    by (simp add: processUserSnapshots_def Let_def 1 2 3 insert_user_snapshots_restrict
        split: option.splits)
qed

lemma processHistoricalUserSnapshots_restrict:
  "processHistoricalUserSnapshots hdate (restrict_citations P db) =
   map_sum id (restrict_citations P) (processHistoricalUserSnapshots hdate db)"
proof -
  have 1: "historical_user_weighted_publications d psd (restrict_citations P db) =
      historical_user_weighted_publications d psd db" for d psd
    unfolding historical_user_weighted_publications_def restrict_citations_tables ..
  show ?thesis
    by (simp add: processHistoricalUserSnapshots_def Let_def 1 insert_user_snapshots_restrict
        split: option.splits)
qed

lemma transaction_restrict:
  assumes "\<And>x. f (restrict_citations P x) = map_sum id (restrict_citations P) (f x)"
  shows "transaction f (map_prod (restrict_citations P) id s) =
         map_prod (restrict_citations P) id (transaction f s)"
proof (cases s)
  case (Pair db e)
  show ?thesis
  proof (cases e)
    case None
    then show ?thesis
      using Pair by (cases "f db") (simp_all add: transaction_def assms)
  next
    case (Some err)
    then show ?thesis
      using Pair by (simp add: transaction_def)
  qed
qed

lemma createSnapshots_restrict:
  assumes "\<And>c. \<not> P c \<Longrightarrow> author_sc c \<noteq> Some False"
  shows "createSnapshots d (restrict_citations P db) =
         map_prod (restrict_citations P) id (createSnapshots d db)"
proof -
  have e: "(restrict_citations P db, None) = map_prod (restrict_citations P) id (db, None)"
    by simp
  have t1: "transaction (processPublicationSnapshots nd) (map_prod (restrict_citations P) id s)
      = map_prod (restrict_citations P) id (transaction (processPublicationSnapshots nd) s)"
    for nd s
    by (rule transaction_restrict) (rule processPublicationSnapshots_restrict [OF assms])
  have t2: "transaction (calculateSimpleTopicAverages nd) (map_prod (restrict_citations P) id s)
      = map_prod (restrict_citations P) id (transaction (calculateSimpleTopicAverages nd) s)"
    for nd s
    by (rule transaction_restrict) (rule calculateSimpleTopicAverages_restrict)
  have t3: "transaction (processUserSnapshots nd) (map_prod (restrict_citations P) id s)
      = map_prod (restrict_citations P) id (transaction (processUserSnapshots nd) s)"
    for nd s
    by (rule transaction_restrict) (rule processUserSnapshots_restrict [OF assms])
  show ?thesis
    unfolding createSnapshots_def Let_def by (simp only: e t1 t2 t3)
qed

lemma createHistoricalSnapshots_restrict:
  assumes "\<And>c. \<not> P c \<Longrightarrow>
     author_sc c \<noteq> Some False \<or> \<not> sql_le (creation_date c) (DATE_TRUNC_day tz historicalDate)"
    and "\<And>c. \<not> P c \<Longrightarrow>
     author_sc c \<noteq> Some False
     \<or> \<not> sql_le (creation_date c) (getConsistentDateForDB historicalDate)"
  shows "createHistoricalSnapshots tz historicalDate publications (restrict_citations P db) =
         map_prod (restrict_citations P) id
           (createHistoricalSnapshots tz historicalDate publications db)"
proof -
  have e: "(restrict_citations P db, None) = map_prod (restrict_citations P) id (db, None)"
    by simp
  have t1: "transaction (createHistoricalPublicationSnapshots tz historicalDate publications)
        (map_prod (restrict_citations P) id s)
      = map_prod (restrict_citations P) id
          (transaction (createHistoricalPublicationSnapshots tz historicalDate publications) s)"
    for s
    by (rule transaction_restrict) (rule createHistoricalPublicationSnapshots_restrict [OF assms])
  have t2: "transaction (calculateEnhancedHistoricalTopicAverages nd)
        (map_prod (restrict_citations P) id s)
      = map_prod (restrict_citations P) id
          (transaction (calculateEnhancedHistoricalTopicAverages nd) s)"
    for nd s
    by (rule transaction_restrict) (rule calculateEnhancedHistoricalTopicAverages_restrict)
  have t3: "transaction (processHistoricalUserSnapshots nd)
        (map_prod (restrict_citations P) id s)
      = map_prod (restrict_citations P) id (transaction (processHistoricalUserSnapshots nd) s)"
    for nd s
    by (rule transaction_restrict) (rule processHistoricalUserSnapshots_restrict)
  show ?thesis
    unfolding createHistoricalSnapshots_def by (simp only: e t1 t2 t3)
qed


section \<open>Self-citations\<close>

lemma set_createMany_skipDuplicates:
  "set (createMany_skipDuplicates key tbl rows) \<subseteq> set tbl \<union> set rows"
proof (induction rows arbitrary: tbl)
  case Nil
  then show ?case by simp
next
  case (Cons r rows)
  show ?case
    using Cons.IH [of tbl] Cons.IH [of "tbl @ [r]"] by auto
qed

lemma citation_rows_external:
  assumes "c \<in> set (citation_rows pubId (external_citations raw))"
  shows "author_sc c = Some False" and "cit_publication_id c = pubId"
  using assms by (auto simp add: citation_rows_def external_citations_def)

lemma added_citations:
  assumes "c \<in> set (createMany_skipDuplicates oci tbl (citation_rows pubId (external_citations raw)))"
    and "c \<notin> set tbl"
  shows "author_sc c = Some False" and "cit_publication_id c = pubId"
proof -
  have "c \<in> set (citation_rows pubId (external_citations raw))"
    using assms set_createMany_skipDuplicates [of oci tbl] by blast
  then show "author_sc c = Some False" and "cit_publication_id c = pubId"
    by (rule citation_rows_external)+
qed

lemma insertPublicationRow_new:
  assumes "insertPublicationRow entry records db = Inr db'"
    and "row_submission_id entry \<notin> submission_id ` set (Publication db)"
  shows "citation_count (last (Publication db')) = Some (int (length records))"
    and "Citation db' =
           createMany_skipDuplicates oci (Citation db) (citation_rows (new_publication_id db) records)"
  using assms by (auto simp add: insertPublicationRow_def Let_def split: if_splits)

lemma updateExistingPublication_real:
  assumes "ex_doi pub = Some doi" and "doi \<noteq> []" and "\<not> mock_doi doi"
    and "tbl = createMany_skipDuplicates oci (Citation db)
                 (citation_rows (ex_id pub) (external_citations raw))"
  shows "Citation (updateExistingPublication pub (Some raw) db) = tbl"
    and "Publication (updateExistingPublication pub (Some raw) db) =
           (if Some (int (length [c \<leftarrow> tbl. cit_publication_id c = ex_id pub])) = ex_citation_count pub
            then Publication db
            else map (\<lambda>p. if pub_id p = ex_id pub
                            then p\<lparr>citation_count :=
                                     Some (int (length [c \<leftarrow> tbl. cit_publication_id c = ex_id pub]))\<rparr>
                            else p)
                   (Publication db))"
  using assms by (simp_all add: updateExistingPublication_def Let_def)


lemma updated_count:
  assumes "ex_doi pub = Some doi" and "doi \<noteq> []" and "\<not> mock_doi doi"
    and "db' = updateExistingPublication pub (Some raw) db"
    and "p \<in> set (Publication db')" and "pub_id p = ex_id pub"
    and "\<forall>q \<in> set (Publication db). pub_id q = ex_id pub \<longrightarrow> citation_count q = ex_citation_count pub"
  shows "citation_count p = Some (int (length [c \<leftarrow> Citation db'. cit_publication_id c = ex_id pub]))"
proof -
  define tbl where "tbl = createMany_skipDuplicates oci (Citation db)
                 (citation_rows (ex_id pub) (external_citations raw))"
  note real = updateExistingPublication_real [OF assms(1-3) tbl_def, folded assms(4)]
  let ?n = "int (length [c \<leftarrow> tbl. cit_publication_id c = ex_id pub])"
  show ?thesis
  proof (cases "Some ?n = ex_citation_count pub")
    case True
    then have "p \<in> set (Publication db)"
      using assms(5) real(2) by simp
    then have "citation_count p = ex_citation_count pub"
      using assms(6,7) by blast
    then show ?thesis
      using True by (simp add: real(1))
  next
    case False
    then obtain q where "q \<in> set (Publication db)"
      and "p = (if pub_id q = ex_id pub then q\<lparr>citation_count := Some ?n\<rparr> else q)"
      using assms(5) real(2) by auto
    then have "p = q\<lparr>citation_count := Some ?n\<rparr>"
      using assms(6) by (auto split: if_splits)
    then show ?thesis
      by (simp add: real(1))
  qed
qed

text \<open>
  Claim C7. Self-citations count neither in the cached \<open>citation_count\<close> nor in any score.

  \<^item> A new entry with a DOI whose fetched list is \<open>raw\<close>, inserted by the initialization job
    or by the update job, is stored with the number of entries of \<open>raw\<close> that are not
    self-citations as its \<open>citation_count\<close>.
  \<^item> The update of an existing publication with a real DOI leaves it with the number of
    its stored citation rows as \<open>citation_count\<close> (the count read at the start of the job
    being the stored one). The recount has no filter on the flag; it is the number of
    citations that are not self-citations because no row of the publication is flagged
    otherwise, as is the case for rows that these jobs have written.
  \<^item> Every citation row that one of the three steps adds is flagged as not a
    self-citation: a fetched self-citation is never stored.
  \<^item> Removing the rows flagged as self-citations from the database changes no result of
    the score calculations: not the recomputed overall scores, not the snapshot rows of
    the four families for the current date (whose researcher rollups weigh a publication
    by its count of citations), and not those for a historical date.

  The stored count of a new entry and its stored rows can still differ, when an \<open>oci\<close> of
  the fetched list is already stored: the row is skipped and the count is not.
\<close>

theorem self_citations_never_count:
  "(insertPublicationEntry entry (Some raw) db = Inr db_init
      \<and> row_submission_id entry \<notin> submission_id ` set (Publication db)
      \<and> row_doi entry = Some doi \<and> doi \<noteq> []
     \<longrightarrow> citation_count (last (Publication db_init)) =
           Some (int (length [r \<leftarrow> raw. oc_author_sc r \<noteq> ''yes'']))
         \<and> (\<forall>c \<in> set (Citation db_init) - set (Citation db). author_sc c = Some False))
   \<and> (insertNewPublication entry (Some raw) db = Inr db_new
      \<and> row_submission_id entry \<notin> submission_id ` set (Publication db)
      \<and> row_doi entry = Some doi \<and> doi \<noteq> [] \<and> \<not> mock_doi doi
     \<longrightarrow> citation_count (last (Publication db_new)) =
           Some (int (length [r \<leftarrow> raw. oc_author_sc r \<noteq> ''yes'']))
         \<and> (\<forall>c \<in> set (Citation db_new) - set (Citation db). author_sc c = Some False))
   \<and> (db_upd = updateExistingPublication pub (Some raw) db
      \<and> ex_doi pub = Some doi \<and> doi \<noteq> [] \<and> \<not> mock_doi doi
      \<and> p \<in> set (Publication db_upd) \<and> pub_id p = ex_id pub
      \<and> (\<forall>q \<in> set (Publication db). pub_id q = ex_id pub
            \<longrightarrow> citation_count q = ex_citation_count pub)
     \<longrightarrow> citation_count p =
           Some (int (length [c \<leftarrow> Citation db_upd. cit_publication_id c = ex_id pub]))
         \<and> (\<forall>c \<in> set (Citation db_upd) - set (Citation db). author_sc c = Some False)
         \<and> ((\<forall>c \<in> set (Citation db). cit_publication_id c = ex_id pub
                \<longrightarrow> author_sc c = Some False)
            \<longrightarrow> citation_count p =
                  Some (int (length [c \<leftarrow> Citation db_upd.
                                       cit_publication_id c = ex_id pub \<and> author_sc c = Some False]))))
   \<and> calculateCitationScoresAndDecay clA clB (without_self_citations db) =
       map_sum id without_self_citations (calculateCitationScoresAndDecay clA clB db)
   \<and> createSnapshots currentDate (without_self_citations db) =
       map_prod without_self_citations id (createSnapshots currentDate db)
   \<and> createHistoricalSnapshots tz historicalDate publications (without_self_citations db) =
       map_prod without_self_citations id
         (createHistoricalSnapshots tz historicalDate publications db)"
proof (intro conjI impI)
  assume h: "insertPublicationEntry entry (Some raw) db = Inr db_init
      \<and> row_submission_id entry \<notin> submission_id ` set (Publication db)
      \<and> row_doi entry = Some doi \<and> doi \<noteq> []"
  then have "citationRecords entry (Some raw) = external_citations raw"
    by (simp add: citationRecords_def)
  then have row: "insertPublicationRow entry (external_citations raw) db = Inr db_init"
    using h by (simp add: insertPublicationEntry_def)
  note new = insertPublicationRow_new [OF row]
  show "citation_count (last (Publication db_init)) =
           Some (int (length [r \<leftarrow> raw. oc_author_sc r \<noteq> ''yes'']))"
    using new(1) h by (simp add: external_citations_def)
  show "\<forall>c \<in> set (Citation db_init) - set (Citation db). author_sc c = Some False"
    using new(2) h added_citations(1) by auto
next
  assume h: "insertNewPublication entry (Some raw) db = Inr db_new
      \<and> row_submission_id entry \<notin> submission_id ` set (Publication db)
      \<and> row_doi entry = Some doi \<and> doi \<noteq> [] \<and> \<not> mock_doi doi"
  then have row: "insertPublicationRow entry (external_citations raw) db = Inr db_new"
    by (auto simp add: insertNewPublication_def)
  note new = insertPublicationRow_new [OF row]
  show "citation_count (last (Publication db_new)) =
           Some (int (length [r \<leftarrow> raw. oc_author_sc r \<noteq> ''yes'']))"
    using new(1) h by (simp add: external_citations_def)
  show "\<forall>c \<in> set (Citation db_new) - set (Citation db). author_sc c = Some False"
    using new(2) h added_citations(1) by auto
next
  assume h: "db_upd = updateExistingPublication pub (Some raw) db
      \<and> ex_doi pub = Some doi \<and> doi \<noteq> [] \<and> \<not> mock_doi doi
      \<and> p \<in> set (Publication db_upd) \<and> pub_id p = ex_id pub
      \<and> (\<forall>q \<in> set (Publication db). pub_id q = ex_id pub
            \<longrightarrow> citation_count q = ex_citation_count pub)"
  then have d: "ex_doi pub = Some doi" "doi \<noteq> []" "\<not> mock_doi doi"
    and db_upd: "db_upd = updateExistingPublication pub (Some raw) db"
    and p: "p \<in> set (Publication db_upd)" "pub_id p = ex_id pub"
    and q: "\<forall>q \<in> set (Publication db). pub_id q = ex_id pub
            \<longrightarrow> citation_count q = ex_citation_count pub"
    by blast+
  show count: "citation_count p =
           Some (int (length [c \<leftarrow> Citation db_upd. cit_publication_id c = ex_id pub]))"
    by (rule updated_count [OF d db_upd p q])
  have tbl: "Citation db_upd = createMany_skipDuplicates oci (Citation db)
                 (citation_rows (ex_id pub) (external_citations raw))"
    unfolding db_upd by (rule updateExistingPublication_real(1) [OF d refl])
  show added: "\<forall>c \<in> set (Citation db_upd) - set (Citation db). author_sc c = Some False"
    unfolding tbl using added_citations(1) by blast
  show "citation_count p =
          Some (int (length [c \<leftarrow> Citation db_upd.
                               cit_publication_id c = ex_id pub \<and> author_sc c = Some False]))"
    if inv: "\<forall>c \<in> set (Citation db). cit_publication_id c = ex_id pub
                \<longrightarrow> author_sc c = Some False"
  proof -
    have "[c \<leftarrow> Citation db_upd. cit_publication_id c = ex_id pub] =
        [c \<leftarrow> Citation db_upd. cit_publication_id c = ex_id pub \<and> author_sc c = Some False]"
      by (rule filter_cong [OF refl]) (use inv added in blast)
    then show ?thesis
      using count by simp
  qed
next
  show "calculateCitationScoresAndDecay clA clB (without_self_citations db) =
       map_sum id without_self_citations (calculateCitationScoresAndDecay clA clB db)"
    unfolding without_self_citations_def [abs_def]
    by (rule calculateCitationScoresAndDecay_restrict) auto
next
  show "createSnapshots currentDate (without_self_citations db) =
       map_prod without_self_citations id (createSnapshots currentDate db)"
    unfolding without_self_citations_def [abs_def]
    by (rule createSnapshots_restrict) auto
next
  show "createHistoricalSnapshots tz historicalDate publications (without_self_citations db) =
       map_prod without_self_citations id
         (createHistoricalSnapshots tz historicalDate publications db)"
    unfolding without_self_citations_def [abs_def]
    by (rule createHistoricalSnapshots_restrict) auto
qed


lemma new_entry_inserted:
  "\<exists>db'. insertPublicationRow new_entry (external_citations fetched_five) scenario = Inr db'"
proof -
  have "decimal_10_3 4 = 4"
    by (rule decimal_10_3_exact [of 4 4000]) simp
  then have "\<not> numeric_field_overflow 4"
    by (simp add: numeric_field_overflow_def)
  then show ?thesis
    by (simp add: insertPublicationRow_def Let_def new_entry_def)
qed

lemma real_dois:
  "\<not> mock_doi ''10.4108/x''" "\<not> mock_doi ''10.4108/y''"
  using sublist_length_le [of "''10.9999/mock-''" "''10.4108/x''"]
    sublist_length_le [of "''10.9999/mock-''" "''10.4108/y''"]
  by (auto simp add: mock_doi_def)

lemma scored_scenario_without_self_citations:
  "without_self_citations scored_scenario_with_self_citations = scenario_at 3"
  by (simp add: without_self_citations_def restrict_citations_def
      scored_scenario_with_self_citations_def scenario_with_self_citations_def scenario_at_def
      scenario_def)

theorem self_citations_never_count_witness:
  "(\<exists>db'. insertPublicationEntry new_entry (Some fetched_five) scenario = Inr db'
           \<and> citation_count (last (Publication db')) = Some 3)
   \<and> (\<exists>db'. insertNewPublication new_entry (Some fetched_five) scenario = Inr db'
           \<and> citation_count (last (Publication db')) = Some 3)
   \<and> map citation_count
        (Publication (updateExistingPublication scenario_publication (Some fetched_five) scenario))
      = [Some 5]
   \<and> map author_sc
        (Citation (updateExistingPublication scenario_publication (Some fetched_five) scenario))
      = [Some False, Some False, Some False, Some False, Some False]
   \<and> map author_sc (Citation scored_scenario_with_self_citations)
      = [Some False, Some False, Some True, Some True]
   \<and> (\<exists>db'. calculateCitationScoresAndDecay scenario_clock scenario_clock_B
               scored_scenario_with_self_citations = Inr db'
           \<and> overall_score (Publication db' ! 0) = Some 14.7)"
proof (intro conjI)
  have doi: "row_submission_id new_entry \<notin> submission_id ` set (Publication scenario)"
    "row_doi new_entry = Some ''10.4108/x''" "''10.4108/x'' \<noteq> []"
    by (simp_all add: new_entry_def scenario_def)
  have three: "int (length [r \<leftarrow> fetched_five. oc_author_sc r \<noteq> ''yes'']) = 3"
    by (simp add: fetched_five_def)
  obtain db1 where db1: "insertPublicationRow new_entry (external_citations fetched_five) scenario
      = Inr db1"
    using new_entry_inserted by blast
  have e1: "insertPublicationEntry new_entry (Some fetched_five) scenario = Inr db1"
    using db1 doi by (simp add: insertPublicationEntry_def citationRecords_def)
  have e2: "insertNewPublication new_entry (Some fetched_five) scenario = Inr db1"
    using db1 doi real_dois by (simp add: insertNewPublication_def)
  show "\<exists>db'. insertPublicationEntry new_entry (Some fetched_five) scenario = Inr db'
           \<and> citation_count (last (Publication db')) = Some 3"
    using self_citations_never_count
      [where entry = new_entry and raw = fetched_five and db = scenario and db_init = db1
         and doi = "''10.4108/x''"]
      e1 doi three by auto
  show "\<exists>db'. insertNewPublication new_entry (Some fetched_five) scenario = Inr db'
           \<and> citation_count (last (Publication db')) = Some 3"
    using self_citations_never_count
      [where entry = new_entry and raw = fetched_five and db = scenario and db_new = db1
         and doi = "''10.4108/x''"]
      e2 doi three real_dois by auto
  let ?db3 = "updateExistingPublication scenario_publication (Some fetched_five) scenario"
  have d: "ex_doi scenario_publication = Some ''10.4108/y''" "''10.4108/y'' \<noteq> []"
    "ex_id scenario_publication = 1" "ex_citation_count scenario_publication = Some 2"
    by (simp_all add: scenario_publication_def)
  let ?tbl = "[\<lparr>cit_publication_id = 1, oci = ''a'', creation_date = Some 1717221600000,
        author_sc = Some False\<rparr>,
       \<lparr>cit_publication_id = 1, oci = ''b'', creation_date = Some 1717221600000,
        author_sc = Some False\<rparr>,
       \<lparr>cit_publication_id = 1, oci = ''o1'', creation_date = Some 1717221600000,
        author_sc = Some False\<rparr>,
       \<lparr>cit_publication_id = 1, oci = ''o3'', creation_date = Some 1717221600000,
        author_sc = Some False\<rparr>,
       \<lparr>cit_publication_id = 1, oci = ''o5'', creation_date = Some 1717221600000,
        author_sc = Some False\<rparr>]"
  have tbl: "?tbl = createMany_skipDuplicates oci (Citation scenario)
      (citation_rows (ex_id scenario_publication) (external_citations fetched_five))"
    by (simp add: d citation_rows_def external_citations_def fetched_five_def scenario_def)
  note real = updateExistingPublication_real [OF d(1,2) real_dois(2) tbl]
  have cits: "Citation ?db3 = ?tbl"
    by (rule real(1))
  show "map author_sc (Citation ?db3) = [Some False, Some False, Some False, Some False, Some False]"
    by (simp add: cits)
  have pubs: "Publication ?db3 =
      [(Publication scenario ! 0)\<lparr>citation_count := Some 5\<rparr>]"
    unfolding real(2) by (simp add: d scenario_def)
  have "citation_count (Publication ?db3 ! 0) =
      Some (int (length [c \<leftarrow> Citation ?db3. cit_publication_id c = ex_id scenario_publication
                           \<and> author_sc c = Some False]))"
    using self_citations_never_count
      [where db_upd = ?db3 and pub = scenario_publication and raw = fetched_five and db = scenario
         and doi = "''10.4108/y''" and p = "Publication ?db3 ! 0"]
      d real_dois
    by (simp add: pubs) (simp add: scenario_def)
  then show "map citation_count (Publication ?db3) = [Some 5]"
    by (simp add: pubs)
  show "map author_sc (Citation scored_scenario_with_self_citations)
      = [Some False, Some False, Some True, Some True]"
    by (simp add: scored_scenario_with_self_citations_def scenario_with_self_citations_def
        scenario_def)
  obtain db3 where db3: "calculateCitationScoresAndDecay scenario_clock scenario_clock_B
      (scenario_at 3) = Inr db3"
    using scenario_succeeds [of 3] decimal_10_3_examples by auto
  have score: "overall_score (Publication db3 ! 0) = Some 14.7"
    using calculateCitationScoresAndDecay_Inr [OF db3, of 0] scenario_score [of 3]
      decimal_10_3_examples
    by (simp add: scenario_at_tables)
  have "map_sum id without_self_citations
          (calculateCitationScoresAndDecay scenario_clock scenario_clock_B
             scored_scenario_with_self_citations) = Inr db3"
    using self_citations_never_count
      [where db = scored_scenario_with_self_citations and clA = scenario_clock
         and clB = scenario_clock_B]
      db3
    by (simp add: scored_scenario_without_self_citations)
  then obtain db' where db': "calculateCitationScoresAndDecay scenario_clock scenario_clock_B
        scored_scenario_with_self_citations = Inr db'"
    and w: "without_self_citations db' = db3"
    by (cases "calculateCitationScoresAndDecay scenario_clock scenario_clock_B
        scored_scenario_with_self_citations") auto
  have "Publication db' = Publication db3"
    using w by (auto simp add: without_self_citations_def)
  then show "\<exists>db'. calculateCitationScoresAndDecay scenario_clock scenario_clock_B
               scored_scenario_with_self_citations = Inr db'
           \<and> overall_score (Publication db' ! 0) = Some 14.7"
    using db' score by simp
qed

section \<open>Running the generator again\<close>






















lemma UserSnapshot_update_fixed:
  "(db\<lparr>UserTopicSnapshot := t, UserOverallSnapshot := u\<rparr> = db)
   = (t = UserTopicSnapshot db \<and> u = UserOverallSnapshot db)"
  by (cases db) simp


































end
